theory Spec2Isabelle
  imports Complex_Main
begin

section \<open>Strings and the regular expressions the resolver uses\<close>

text \<open>
  A JavaScript string is modelled as an Isabelle \<open>string\<close>: a list of characters whose
  code (\<open>of_char\<close>) is the UTF-16 code unit, for code units below 256 (ASCII and
  Latin-1, which holds the two typographic symbols the normalizer folds: U+00BD and
  U+00D7). Numbers that the code reads with \<open>parseInt\<close> from a run of decimal digits
  are natural numbers, which is what the doubles of the source hold below \<open>2^53\<close>.
  Scores are rationals: the sums, products and quotients of the source without the
  rounding of doubles, so a comparison of a score with a threshold is the comparison of
  the source unless the unrounded score lies within rounding distance of the threshold.
\<close>

definition isDigit :: "char \<Rightarrow> bool" where
  "isDigit c = (let n = (of_char c :: nat) in 48 \<le> n \<and> n \<le> 57)"

definition isUpperAscii :: "char \<Rightarrow> bool" where
  "isUpperAscii c = (let n = (of_char c :: nat) in 65 \<le> n \<and> n \<le> 90)"

definition isLowerAscii :: "char \<Rightarrow> bool" where
  "isLowerAscii c = (let n = (of_char c :: nat) in 97 \<le> n \<and> n \<le> 122)"

text \<open>The class \<open>\w\<close> of a regular expression without the unicode flag: \<open>[A-Za-z0-9_]\<close>.\<close>

definition isWordChar :: "char \<Rightarrow> bool" where
  "isWordChar c = (isDigit c \<or> isUpperAscii c \<or> isLowerAscii c \<or> c = CHR ''_'')"

text \<open>The class \<open>\s\<close> below code unit 256: tab, line feed, vertical tab, form feed,
  carriage return, space and the no-break space U+00A0. \<open>trim\<close> strips the same set.\<close>

definition isSpace :: "char \<Rightarrow> bool" where
  "isSpace c = (let n = (of_char c :: nat) in (9 \<le> n \<and> n \<le> 13) \<or> n = 32 \<or> n = 160)"

text \<open>\<open>toUpperCase\<close> on the ASCII letters. A pattern under the flag \<open>i\<close> compares a pattern
  letter and an input character by their upper-case forms; below code unit 256 only the
  ASCII letters have an ASCII upper-case form.\<close>

definition asciiUpper :: "char \<Rightarrow> char" where
  "asciiUpper c = (if isLowerAscii c then char_of ((of_char c :: nat) - 32) else c)"

fun startsWith :: "string \<Rightarrow> string \<Rightarrow> bool" where
  "startsWith s [] = True"
| "startsWith [] (c # t) = False"
| "startsWith (a # s) (c # t) = (a = c \<and> startsWith s t)"

text \<open>\<open>s.includes(t)\<close> (named \<open>includesStr\<close> here): \<open>t\<close> occurs in \<open>s\<close> as a contiguous substring.\<close>

fun includesStr :: "string \<Rightarrow> string \<Rightarrow> bool" where
  "includesStr [] t = (t = [])"
| "includesStr (a # s) t = (startsWith (a # s) t \<or> includesStr s t)"

text \<open>
  \<open>parseInt\<close> of a non-empty run of decimal digits: the number the digits denote.
  The result of the source is a double, which holds every integer below \<open>2^53\<close>
  exactly; from there on \<open>parseInt\<close> rounds to the nearest double, and two runs that
  denote different numbers can compare equal. \<open>parseDigits\<close> is therefore the result of
  the source for the runs that denote a safe integer, and a statement that depends on
  the comparison of two parsed numbers is made for such runs (\<open>safeInteger\<close>).
\<close>

definition parseDigits :: "string \<Rightarrow> nat" where
  "parseDigits ds = foldl (\<lambda>a c. 10 * a + ((of_char c :: nat) - 48)) 0 ds"

definition safeInteger :: "nat \<Rightarrow> bool" where
  "safeInteger n = (n < 2 ^ 53)"

text \<open>
  \<open>slug.match(/saison(\d+)(?:-(\d+))?/)\<close>: the leftmost position where \<open>saison\<close> is
  followed by a digit. Group 1 is the whole run of digits (the rest of the pattern can
  match the empty string, so the greedy run is never given back); group 2 is the run of
  digits after a hyphen, undefined when no hyphen and digit follow.
\<close>

definition saisonGroups :: "string \<Rightarrow> string \<times> string option" where
  "saisonGroups r =
     (takeWhile isDigit r,
      (case dropWhile isDigit r of
         [] \<Rightarrow> None
       | c # r' \<Rightarrow> if c = CHR ''-'' \<and> takeWhile isDigit r' \<noteq> []
                   then Some (takeWhile isDigit r') else None))"

fun saisonMatch :: "string \<Rightarrow> (string \<times> string option) option" where
  "saisonMatch [] = None"
| "saisonMatch (c # s) =
     (if startsWith (c # s) ''saison'' \<and> takeWhile isDigit (drop 6 (c # s)) \<noteq> []
      then Some (saisonGroups (drop 6 (c # s)))
      else saisonMatch s)"

text \<open>
  \<open>slug.match(/saison(\d+)-(\d+)/)\<close>: here the hyphen and the second run are required.
  Giving back digits of the first run never helps (the next character would be a digit,
  not the hyphen), so a position matches exactly when the whole run is followed by a
  hyphen and a digit.
\<close>

fun saisonPartMatch :: "string \<Rightarrow> (string \<times> string) option" where
  "saisonPartMatch [] = None"
| "saisonPartMatch (c # s) =
     (case (if startsWith (c # s) ''saison'' \<and> takeWhile isDigit (drop 6 (c # s)) \<noteq> []
            then snd (saisonGroups (drop 6 (c # s))) else None) of
        Some g2 \<Rightarrow> Some (takeWhile isDigit (drop 6 (c # s)), g2)
      | None \<Rightarrow> saisonPartMatch s)"

text \<open>
  \<open>fullTitle.match(/\b(II|III|IV|V|VI|2|3|4|5|6)\b/i)\<close>. Every alternative consists of
  word characters, so the boundary before it asks for a non-word character (or the start)
  on the left, and the boundary after it for a non-word character (or the end) on the
  right. At one position the alternatives are tried in the order written. The result is
  group 1 after \<open>toUpperCase\<close>, which is the alternative itself.
\<close>

definition sequelAlternatives :: "string list" where
  "sequelAlternatives =
     [''II'', ''III'', ''IV'', ''V'', ''VI'', ''2'', ''3'', ''4'', ''5'', ''6'']"

fun startsWithCI :: "string \<Rightarrow> string \<Rightarrow> bool" where
  "startsWithCI s [] = True"
| "startsWithCI [] (c # t) = False"
| "startsWithCI (a # s) (c # t) = (asciiUpper a = asciiUpper c \<and> startsWithCI s t)"

definition boundaryAfter :: "string \<Rightarrow> bool" where
  "boundaryAfter r = (case r of [] \<Rightarrow> True | c # _ \<Rightarrow> \<not> isWordChar c)"

definition sequelAt :: "string \<Rightarrow> string option" where
  "sequelAt r =
     find (\<lambda>a. startsWithCI r a \<and> boundaryAfter (drop (length a) r)) sequelAlternatives"

fun sequelScan :: "bool \<Rightarrow> string \<Rightarrow> string option" where
  "sequelScan prevWord [] = None"
| "sequelScan prevWord (c # s) =
     (case (if prevWord then None else sequelAt (c # s)) of
        Some a \<Rightarrow> Some a
      | None \<Rightarrow> sequelScan (isWordChar c) s)"

definition romanToNumber :: "string \<Rightarrow> nat option" where
  "romanToNumber = map_of
     [(''II'', 2), (''III'', 3), (''IV'', 4), (''V'', 5), (''VI'', 6),
      (''2'', 2), (''3'', 3), (''4'', 4), (''5'', 5), (''6'', 6)]"

section \<open>The season resolver of the French catalog (\<open>findBestSeason\<close>)\<close>

record AnimeSamaSeason =
  name :: string
  seasonSlug :: string
  language :: string
  episodeCount :: nat

record SeasonInfo =
  season :: "nat option"
  part :: "nat option"

text \<open>The entries kept for matching: film, OAV and Kai entries are dropped when the source
  has more than five episodes.\<close>

definition mainSeasons :: "AnimeSamaSeason list \<Rightarrow> nat \<Rightarrow> AnimeSamaSeason list" where
  "mainSeasons seasons targetEpisodes =
     (if targetEpisodes > 5
      then filter (\<lambda>s. \<not> includesStr (seasonSlug s) ''film'' \<and>
                        \<not> includesStr (seasonSlug s) ''oav'' \<and>
                        \<not> includesStr (seasonSlug s) ''kai'') seasons
      else seasons)"

definition seasonsToSearch :: "AnimeSamaSeason list \<Rightarrow> nat \<Rightarrow> AnimeSamaSeason list" where
  "seasonsToSearch seasons targetEpisodes =
     (if mainSeasons seasons targetEpisodes \<noteq> [] then mainSeasons seasons targetEpisodes
      else seasons)"

text \<open>The predicate of the exact season and part rule: \<open>slugSeason === season && slugPart === part\<close>.\<close>

definition exactSeasonPart :: "nat \<Rightarrow> nat \<Rightarrow> AnimeSamaSeason \<Rightarrow> bool" where
  "exactSeasonPart sn pn s =
     (case saisonMatch (seasonSlug s) of
        None \<Rightarrow> False
      | Some (g1, g2) \<Rightarrow>
          parseDigits g1 = sn \<and> (case g2 of None \<Rightarrow> False | Some d \<Rightarrow> parseDigits d = pn))"

text \<open>The numbers that the rules read from the slug of an entry are safe integers.\<close>

definition slugNumbersSafe :: "AnimeSamaSeason \<Rightarrow> bool" where
  "slugNumbersSafe s =
     (case saisonMatch (seasonSlug s) of
        None \<Rightarrow> True
      | Some (g1, g2) \<Rightarrow>
          safeInteger (parseDigits g1)
          \<and> (case g2 of None \<Rightarrow> True | Some d \<Rightarrow> safeInteger (parseDigits d)))"

text \<open>The predicate of the season rule: \<open>slugSeason === season && !slugPart\<close>; a part that reads
  as 0 is falsy as well.\<close>

definition seasonNoPart :: "nat \<Rightarrow> AnimeSamaSeason \<Rightarrow> bool" where
  "seasonNoPart sn s =
     (case saisonMatch (seasonSlug s) of
        None \<Rightarrow> False
      | Some (g1, g2) \<Rightarrow>
          parseDigits g1 = sn \<and> (case g2 of None \<Rightarrow> True | Some d \<Rightarrow> parseDigits d = 0))"

definition partOnly :: "nat \<Rightarrow> AnimeSamaSeason \<Rightarrow> bool" where
  "partOnly pn s =
     (case saisonPartMatch (seasonSlug s) of
        None \<Rightarrow> False
      | Some (g1, g2) \<Rightarrow> parseDigits g2 = pn)"

definition titleSeason :: "nat \<Rightarrow> AnimeSamaSeason \<Rightarrow> bool" where
  "titleSeason expected s =
     (case saisonMatch (seasonSlug s) of
        None \<Rightarrow> False
      | Some (g1, g2) \<Rightarrow> parseDigits g1 = expected)"

text \<open>Priority 1: season and part numbers of the title.\<close>

definition bySeasonAndPart :: "AnimeSamaSeason list \<Rightarrow> SeasonInfo \<Rightarrow> AnimeSamaSeason option" where
  "bySeasonAndPart ss si =
     (case season si of
        None \<Rightarrow> None
      | Some sn \<Rightarrow>
          (case (case part si of None \<Rightarrow> None | Some pn \<Rightarrow> find (exactSeasonPart sn pn) ss) of
             Some e \<Rightarrow> Some e
           | None \<Rightarrow> find (seasonNoPart sn) ss))"

text \<open>Priority 2: the part number alone, when the title has no season number.\<close>

definition byPartOnly :: "AnimeSamaSeason list \<Rightarrow> SeasonInfo \<Rightarrow> AnimeSamaSeason option" where
  "byPartOnly ss si =
     (case (part si, season si) of
        (Some pn, None) \<Rightarrow> find (partOnly pn) ss
      | _ \<Rightarrow> None)"

text \<open>Priority 3: a sequel numeral in the full title. The numbers of the table are all
  truthy, so the test \<open>if (expectedSeason)\<close> always passes.\<close>

definition byTitleSequel :: "AnimeSamaSeason list \<Rightarrow> string \<Rightarrow> AnimeSamaSeason option" where
  "byTitleSequel ss fullTitle =
     (case sequelScan False fullTitle of
        None \<Rightarrow> None
      | Some a \<Rightarrow>
          (case romanToNumber a of
             None \<Rightarrow> None
           | Some expected \<Rightarrow> if expected = 0 then None else find (titleSeason expected) ss))"

text \<open>Priority 4: the episode count, exact first, then the closest one less than three away.
  The loop keeps the first entry of the smallest difference.\<close>

definition absDiff :: "nat \<Rightarrow> nat \<Rightarrow> nat" where
  "absDiff a b = (if a \<le> b then b - a else a - b)"

fun closestLoop :: "nat \<Rightarrow> AnimeSamaSeason option \<times> nat \<Rightarrow> AnimeSamaSeason list
    \<Rightarrow> AnimeSamaSeason option \<times> nat" where
  "closestLoop targetEpisodes acc [] = acc"
| "closestLoop targetEpisodes (closestMatch, smallestDiff) (s # ss) =
     (if absDiff (episodeCount s) targetEpisodes < smallestDiff
      then closestLoop targetEpisodes (Some s, absDiff (episodeCount s) targetEpisodes) ss
      else closestLoop targetEpisodes (closestMatch, smallestDiff) ss)"

definition byEpisodeCount :: "AnimeSamaSeason list \<Rightarrow> nat \<Rightarrow> AnimeSamaSeason option" where
  "byEpisodeCount ss targetEpisodes =
     (if targetEpisodes = 0 then None
      else (case find (\<lambda>s. episodeCount s = targetEpisodes) ss of
              Some e \<Rightarrow> Some e
            | None \<Rightarrow> fst (closestLoop targetEpisodes (None, 3) ss)))"

text \<open>A selection rule that found nothing passes on to the next one.\<close>

definition orElse :: "'a option \<Rightarrow> 'a option \<Rightarrow> 'a option" where
  "orElse a b = (case a of Some x \<Rightarrow> Some x | None \<Rightarrow> b)"

text \<open>The chain on a non-empty search list; priority 5 is its first entry.\<close>

definition pickSeason :: "AnimeSamaSeason list \<Rightarrow> nat \<Rightarrow> SeasonInfo \<Rightarrow> string
    \<Rightarrow> AnimeSamaSeason option" where
  "pickSeason ss targetEpisodes si fullTitle =
     orElse (bySeasonAndPart ss si)
       (orElse (byPartOnly ss si)
         (orElse (byTitleSequel ss fullTitle)
           (orElse (byEpisodeCount ss targetEpisodes)
             (case ss of [] \<Rightarrow> None | s # _ \<Rightarrow> Some s))))"

definition findBestSeason :: "AnimeSamaSeason list \<Rightarrow> nat \<Rightarrow> SeasonInfo \<Rightarrow> string
    \<Rightarrow> string option" where
  "findBestSeason seasons targetEpisodes si fullTitle =
     (if seasons = [] then None
      else map_option seasonSlug
             (pickSeason (seasonsToSearch seasons targetEpisodes) targetEpisodes si fullTitle))"

text \<open>
  \<open>getAvailableSeasonsWithMatch\<close> builds the list the resolver sees. Its argument is what
  the catalogue page gave: \<open>None\<close> when the request failed (the \<open>catch\<close> branch), else
  the seasons the page enumerates, in page order: the \<open>panneauAnime\<close> entries whose link
  has the form \<open>season/language\<close>, each with the episode count that \<open>getEpisodeCount\<close>
  found for it (0 when the season page has no episode script or that lookup failed).
  Entries without episodes are not listed.
\<close>

record SeasonMatchResult =
  seasons :: "AnimeSamaSeason list"
  bestSeasonMatch :: "string option"

definition getAvailableSeasonsWithMatch :: "AnimeSamaSeason list option \<Rightarrow> nat \<Rightarrow> SeasonInfo
    \<Rightarrow> string \<Rightarrow> SeasonMatchResult" where
  "getAvailableSeasonsWithMatch fetched targetEpisodes si fullTitle =
     (case fetched of
        None \<Rightarrow> \<lparr>seasons = [], bestSeasonMatch = None\<rparr>
      | Some entries \<Rightarrow>
          \<lparr>seasons = filter (\<lambda>s. episodeCount s > 0) entries,
           bestSeasonMatch =
             findBestSeason (filter (\<lambda>s. episodeCount s > 0) entries) targetEpisodes si fullTitle\<rparr>)"

text \<open>An example catalogue: a first season and a Kai entry that encodes season 2 part 2.
  And a catalogue page that lists two seasons for which no episode was found.\<close>

definition emptyPage :: "AnimeSamaSeason list" where
  "emptyPage =
     [\<lparr>name = ''Saison 1'', seasonSlug = ''saison1'', language = ''VOSTFR'', episodeCount = 0\<rparr>,
      \<lparr>name = ''Saison 2'', seasonSlug = ''saison2'', language = ''VOSTFR'', episodeCount = 0\<rparr>]"

definition exampleSeasons :: "AnimeSamaSeason list" where
  "exampleSeasons =
     [\<lparr>name = ''Saison 1'', seasonSlug = ''saison1'', language = ''VOSTFR'', episodeCount = 12\<rparr>,
      \<lparr>name = ''Saison 2 Partie 2 Kai'', seasonSlug = ''kai-saison2-2'', language = ''VOSTFR'',
        episodeCount = 13\<rparr>]"

definition exampleSeasonInfo :: SeasonInfo where
  "exampleSeasonInfo = \<lparr>season = Some 2, part = Some 2\<rparr>"


section \<open>Season detection against the TMDB season list (\<open>detectTMDBSeason\<close>)\<close>

text \<open>
  Field names follow the source. Where two structures of the source share a field name,
  the later record prefixes it (\<open>tmdb_name\<close> for the \<open>name\<close> of a TMDB season).
\<close>

subsection \<open>String helpers of the description comparison\<close>

text \<open>\<open>toLowerCase\<close> on code units below 256: the ASCII capitals and the Latin-1
  capitals U+00C0 to U+00DE (U+00D7, the multiplication sign, is not a letter).\<close>

definition toLowerChar :: "char \<Rightarrow> char" where
  "toLowerChar c =
     (let n = (of_char c :: nat)
      in if (65 \<le> n \<and> n \<le> 90) \<or> (192 \<le> n \<and> n \<le> 222 \<and> n \<noteq> 215)
         then char_of (n + 32) else c)"

definition toLowerCase :: "string \<Rightarrow> string" where
  "toLowerCase s = map toLowerChar s"

definition trim :: "string \<Rightarrow> string" where
  "trim s = rev (dropWhile isSpace (rev (dropWhile isSpace s)))"

text \<open>\<open>replace(/\s+/g, ' ')\<close>: every maximal run of white space becomes one space. The
  flag says that the previous character was white space.\<close>

fun collapseFrom :: "bool \<Rightarrow> string \<Rightarrow> string" where
  "collapseFrom inRun [] = []"
| "collapseFrom inRun (c # s) =
     (if isSpace c then (if inRun then collapseFrom True s else CHR '' '' # collapseFrom True s)
      else c # collapseFrom False s)"

definition collapseSpaces :: "string \<Rightarrow> string" where
  "collapseSpaces s = collapseFrom False s"

text \<open>\<open>replace(/<[^>]*>/g, '')\<close>, and the same pattern with parentheses: an opening
  character starts a match when a closing one follows somewhere; the match ends at the
  first one. The flag says that the scan is inside a match.\<close>

fun stripBetween :: "char \<Rightarrow> char \<Rightarrow> bool \<Rightarrow> string \<Rightarrow> string" where
  "stripBetween opening closing inside [] = []"
| "stripBetween opening closing inside (c # s) =
     (if inside then stripBetween opening closing (c \<noteq> closing) s
      else if c = opening \<and> closing \<in> set s then stripBetween opening closing True s
      else c # stripBetween opening closing False s)"

text \<open>\<open>s.split(c)\<close> for a one-character separator: never empty, with empty pieces between
  adjacent separators.\<close>

fun splitOn :: "char \<Rightarrow> string \<Rightarrow> string list" where
  "splitOn sep [] = [[]]"
| "splitOn sep (c # s) =
     (if c = sep then [] # splitOn sep s
      else (case splitOn sep s of [] \<Rightarrow> [[c]] | w # ws \<Rightarrow> (c # w) # ws))"

text \<open>
  \<open>parseInt(s)\<close> without a radix: leading white space, an optional sign, then hexadecimal
  digits after \<open>0x\<close> or \<open>0X\<close> and decimal digits otherwise; \<open>None\<close> stands for \<open>NaN\<close>
  (no digit).
\<close>

definition hexDigitVal :: "char \<Rightarrow> nat option" where
  "hexDigitVal c =
     (let n = (of_char c :: nat)
      in if 48 \<le> n \<and> n \<le> 57 then Some (n - 48)
         else if 65 \<le> n \<and> n \<le> 70 then Some (n - 55)
         else if 97 \<le> n \<and> n \<le> 102 then Some (n - 87)
         else None)"

definition parseUnsigned :: "string \<Rightarrow> nat option" where
  "parseUnsigned s =
     (if startsWith s ''0x'' \<or> startsWith s ''0X''
      then (let ds = takeWhile (\<lambda>c. hexDigitVal c \<noteq> None) (drop 2 s)
            in if ds = [] then None
               else Some (foldl (\<lambda>a c. 16 * a + the (hexDigitVal c)) 0 ds))
      else (let ds = takeWhile isDigit s
            in if ds = [] then None else Some (parseDigits ds)))"

definition parseInt :: "string \<Rightarrow> int option" where
  "parseInt s =
     (case dropWhile isSpace s of
        [] \<Rightarrow> None
      | c # r \<Rightarrow>
          if c = CHR ''-'' then map_option (\<lambda>n. - int n) (parseUnsigned r)
          else if c = CHR ''+'' then map_option int (parseUnsigned r)
          else map_option int (parseUnsigned (c # r)))"

subsection \<open>Data\<close>

record TMDBSeason =
  tmdb_id :: nat
  tmdb_name :: string
  overview :: string
  season_number :: nat
  episode_count :: nat
  air_date :: "string option"

record AniListDate =
  year :: "int option"
  month :: "int option"
  day :: "int option"

text \<open>The fields of \<open>AniListMedia\<close> that season detection reads.\<close>

record AniListMedia =
  description :: "string option"
  episodes :: "nat option"
  startDate :: "AniListDate option"

record DetectedSeason =
  seasonNumber :: nat
  seasonName :: string
  splitCourPart :: "nat option"

subsection \<open>Dates and descriptions\<close>

definition parseDate :: "string \<Rightarrow> (int \<times> int \<times> int) option" where
  "parseDate dateString =
     (if dateString = [] then None
      else (case splitOn CHR ''-'' dateString of
              [p0, p1, p2] \<Rightarrow>
                (case (parseInt p0, parseInt p1, parseInt p2) of
                   (Some y, Some m, Some d) \<Rightarrow> Some (y, m, d)
                 | _ \<Rightarrow> None)
            | _ \<Rightarrow> None))"

definition monthsBetween :: "int \<times> int \<Rightarrow> int \<times> int \<Rightarrow> int" where
  "monthsBetween date1 date2 = (fst date2 - fst date1) * 12 + (snd date2 - snd date1)"

definition normalizeDescription :: "string \<Rightarrow> string" where
  "normalizeDescription desc =
     (if desc = [] then []
      else trim (toLowerCase (collapseSpaces (stripBetween CHR ''<'' CHR ''>'' False desc))))"

text \<open>Word overlap of two descriptions: the words longer than four characters, as sets;
  the number of common words over the size of the union.\<close>

definition calculateDescriptionSimilarity :: "string \<Rightarrow> string \<Rightarrow> rat" where
  "calculateDescriptionSimilarity desc1 desc2 =
     (if desc1 = [] \<or> desc2 = [] then 0
      else (let words1 = filter (\<lambda>w. length w > 4) (splitOn CHR '' '' desc1);
                words2 = filter (\<lambda>w. length w > 4) (splitOn CHR '' '' desc2)
            in if words1 = [] \<or> words2 = [] then 0
               else (let set1 = remdups words1;
                         set2 = remdups words2;
                         matches = length (filter (\<lambda>w. w \<in> set set2) set1);
                         union = length (remdups (set1 @ set2))
                     in of_nat matches / of_nat union)))"

definition descriptionBonus :: "string \<Rightarrow> TMDBSeason \<Rightarrow> int" where
  "descriptionBonus normalizedAnimeDesc s =
     (if normalizedAnimeDesc \<noteq> [] \<and> overview s \<noteq> []
      then (let descSimilarity =
                  calculateDescriptionSimilarity normalizedAnimeDesc
                    (normalizeDescription (overview s))
            in if descSimilarity > 3 / 10 then \<lfloor>descSimilarity * 20\<rfloor> else 0)
      else 0)"

definition episodeBonus :: "nat \<Rightarrow> nat \<Rightarrow> int" where
  "episodeBonus seasonCount animeEpisodes =
     (let episodeDiff = absDiff seasonCount animeEpisodes
      in if episodeDiff = 0 then 50 else if episodeDiff \<le> 2 then 30
         else if episodeDiff \<le> 5 then 10 else 0)"

subsection \<open>The date pass\<close>

text \<open>
  The split-cour test of the source: the month gap is between 3 and 6 in absolute value
  and the ratio of the source's episode count to the season's is between 0.3 and 0.7.
\<close>

definition splitCourDetected :: "int \<Rightarrow> nat \<Rightarrow> nat \<Rightarrow> bool" where
  "splitCourDetected monthsDiff animeEpisodes seasonCount =
     (\<bar>monthsDiff\<bar> \<ge> 3 \<and> \<bar>monthsDiff\<bar> \<le> 6 \<and>
      (let ratio = (of_nat animeEpisodes / of_nat seasonCount :: rat)
       in ratio \<ge> 3 / 10 \<and> ratio \<le> 7 / 10))"

text \<open>One round of the loop over the seasons: \<open>None\<close> is \<open>continue\<close>, otherwise the score of
  the season and whether the split-cour test passed.\<close>

definition dateScore :: "AniListMedia \<Rightarrow> int \<times> int \<Rightarrow> string \<Rightarrow> TMDBSeason \<Rightarrow> (int \<times> bool) option" where
  "dateScore animeInfo start normalizedAnimeDesc s =
     (case air_date s of
        None \<Rightarrow> None
      | Some d \<Rightarrow>
         (case parseDate d of
            None \<Rightarrow> None
          | Some (sy, sm, sd) \<Rightarrow>
             (let monthsDiff = monthsBetween start (sy, sm)
              in if \<bar>monthsDiff\<bar> > 6 then None
                 else
                  (let score0 = (if monthsDiff = 0 then 200
                                 else if \<bar>monthsDiff\<bar> = 1 then 150
                                 else if \<bar>monthsDiff\<bar> \<le> 3 then 100 else (50::int));
                       withEpisodes = (case episodes animeInfo of
                                         None \<Rightarrow> False
                                       | Some n \<Rightarrow> n \<noteq> 0 \<and> episode_count s \<noteq> 0);
                       animeEpisodes = (case episodes animeInfo of None \<Rightarrow> 0 | Some n \<Rightarrow> n);
                       split = (withEpisodes \<and>
                                splitCourDetected monthsDiff animeEpisodes (episode_count s));
                       score1 = score0
                         + (if withEpisodes then episodeBonus (episode_count s) animeEpisodes else 0)
                         + (if split then 20 else 0)
                   in Some (score1 + descriptionBonus normalizedAnimeDesc s, split)))))"

text \<open>The loop state: \<open>bestMatch\<close>, \<open>bestScore\<close> and \<open>isSplitCourPart2\<close>.\<close>

fun dateLoop :: "AniListMedia \<Rightarrow> int \<times> int \<Rightarrow> string \<Rightarrow> TMDBSeason option \<times> int \<times> bool
    \<Rightarrow> TMDBSeason list \<Rightarrow> TMDBSeason option \<times> int \<times> bool" where
  "dateLoop animeInfo start nd acc [] = acc"
| "dateLoop animeInfo start nd (bestMatch, bestScore, isSplitCourPart2) (s # ss) =
     (case dateScore animeInfo start nd s of
        None \<Rightarrow> dateLoop animeInfo start nd (bestMatch, bestScore, isSplitCourPart2) ss
      | Some (score, split) \<Rightarrow>
          if score > bestScore then dateLoop animeInfo start nd (Some s, score, split) ss
          else dateLoop animeInfo start nd (bestMatch, bestScore, isSplitCourPart2) ss)"

text \<open>The start date counts when its year and month are present and not 0.\<close>

definition startYearMonth :: "AniListMedia \<Rightarrow> (int \<times> int) option" where
  "startYearMonth animeInfo =
     (case startDate animeInfo of
        None \<Rightarrow> None
      | Some d \<Rightarrow>
          (case (year d, month d) of
             (Some y, Some m) \<Rightarrow> if y \<noteq> 0 \<and> m \<noteq> 0 then Some (y, m) else None
           | _ \<Rightarrow> None))"

definition detectByDate :: "AniListMedia \<Rightarrow> string \<Rightarrow> TMDBSeason list
    \<Rightarrow> (TMDBSeason \<times> bool) option" where
  "detectByDate animeInfo nd ss =
     (case startYearMonth animeInfo of
        None \<Rightarrow> None
      | Some start \<Rightarrow>
          (case dateLoop animeInfo start nd (None, 0, False) ss of
             (Some best, bestScore, isSplitCourPart2) \<Rightarrow>
               if bestScore \<ge> 50 then Some (best, isSplitCourPart2) else None
           | (None, _, _) \<Rightarrow> None))"

subsection \<open>The year passes\<close>

definition seasonYearOf :: "TMDBSeason \<Rightarrow> int option" where
  "seasonYearOf s =
     (case air_date s of
        None \<Rightarrow> None
      | Some d \<Rightarrow> if d = [] then None
                  else (case parseInt (take 4 d) of
                          None \<Rightarrow> None
                        | Some y \<Rightarrow> if y = 0 then None else Some y))"

definition yearScore :: "nat \<Rightarrow> int \<Rightarrow> string \<Rightarrow> TMDBSeason \<Rightarrow> int option" where
  "yearScore animeEpisodes animeYear normalizedAnimeDesc s =
     (case seasonYearOf s of
        None \<Rightarrow> None
      | Some sy \<Rightarrow>
          (let yearDiff = \<bar>sy - animeYear\<bar>
           in if yearDiff > 1 then None
              else Some ((if yearDiff = 0 then 100 else 50)
                         + (if episode_count s \<noteq> 0
                            then episodeBonus (episode_count s) animeEpisodes else 0)
                         + descriptionBonus normalizedAnimeDesc s)))"

fun yearLoop :: "nat \<Rightarrow> int \<Rightarrow> string \<Rightarrow> TMDBSeason option \<times> int \<Rightarrow> TMDBSeason list
    \<Rightarrow> TMDBSeason option \<times> int" where
  "yearLoop animeEpisodes animeYear nd acc [] = acc"
| "yearLoop animeEpisodes animeYear nd (bestMatch, bestScore) (s # ss) =
     (case yearScore animeEpisodes animeYear nd s of
        None \<Rightarrow> yearLoop animeEpisodes animeYear nd (bestMatch, bestScore) ss
      | Some score \<Rightarrow>
          if score > bestScore then yearLoop animeEpisodes animeYear nd (Some s, score) ss
          else yearLoop animeEpisodes animeYear nd (bestMatch, bestScore) ss)"

definition detectByYear :: "AniListMedia \<Rightarrow> int option \<Rightarrow> string \<Rightarrow> TMDBSeason list
    \<Rightarrow> TMDBSeason option" where
  "detectByYear animeInfo animeYear nd ss =
     (case (animeYear, episodes animeInfo) of
        (Some y, Some n) \<Rightarrow>
          if y \<noteq> 0 \<and> n \<noteq> 0
          then (case yearLoop n y nd (None, 0) ss of
                  (Some best, bestScore) \<Rightarrow> if bestScore \<ge> 50 then Some best else None
                | (None, _) \<Rightarrow> None)
          else None
      | _ \<Rightarrow> None)"

definition detectByYearOnly :: "AniListMedia \<Rightarrow> int option \<Rightarrow> TMDBSeason list
    \<Rightarrow> TMDBSeason option" where
  "detectByYearOnly animeInfo animeYear ss =
     (case animeYear of
        None \<Rightarrow> None
      | Some y \<Rightarrow>
          if y \<noteq> 0 \<and> (episodes animeInfo = None \<or> episodes animeInfo = Some 0)
          then find (\<lambda>s. seasonYearOf s = Some y) ss
          else None)"

subsection \<open>\<open>detectTMDBSeason\<close>\<close>

text \<open>
  The first argument is what \<open>getTMDBSeasons\<close> returned: \<open>None\<close> when it failed. Only the
  date pass attaches \<open>splitCourPart\<close>: 2 when the flag of the best season is set, else 1.
\<close>

definition detectTMDBSeason :: "TMDBSeason list option \<Rightarrow> AniListMedia \<Rightarrow> int option
    \<Rightarrow> DetectedSeason option" where
  "detectTMDBSeason fetched animeInfo animeYear =
     (case fetched of
        None \<Rightarrow> None
      | Some ss \<Rightarrow>
          if ss = [] then None
          else
           (let nd = normalizeDescription (case description animeInfo of None \<Rightarrow> [] | Some d \<Rightarrow> d)
            in case detectByDate animeInfo nd ss of
                 Some (best, isSplitCourPart2) \<Rightarrow>
                   Some \<lparr>seasonNumber = season_number best, seasonName = tmdb_name best,
                         splitCourPart = Some (if isSplitCourPart2 then 2 else 1)\<rparr>
               | None \<Rightarrow>
                  (case detectByYear animeInfo animeYear nd ss of
                     Some best \<Rightarrow>
                       Some \<lparr>seasonNumber = season_number best, seasonName = tmdb_name best,
                             splitCourPart = None\<rparr>
                   | None \<Rightarrow>
                      (case detectByYearOnly animeInfo animeYear ss of
                         Some best \<Rightarrow>
                           Some \<lparr>seasonNumber = season_number best, seasonName = tmdb_name best,
                                 splitCourPart = None\<rparr>
                       | None \<Rightarrow> None))))"

text \<open>The end-to-end scenario of the specification: a first cour of 24 episodes in January 2020
  and a source of 12 episodes that starts in July 2020.\<close>

definition exampleTMDB :: "TMDBSeason list" where
  "exampleTMDB =
     [\<lparr>tmdb_id = 1, tmdb_name = ''Season 1'', overview = [], season_number = 1,
        episode_count = 24, air_date = Some ''2020-01-01''\<rparr>]"

definition exampleMedia :: AniListMedia where
  "exampleMedia =
     \<lparr>description = None, episodes = Some 12,
      startDate = Some \<lparr>year = Some 2020, month = Some 7, day = Some 1\<rparr>\<rparr>"

section \<open>The title normalizer (\<open>normalizeText\<close>)\<close>

definition replaceChar :: "char \<Rightarrow> string \<Rightarrow> string \<Rightarrow> string" where
  "replaceChar c r s = concat (map (\<lambda>x. if x = c then r else [x]) s)"

text \<open>\<open>/\b(19|20)\d{2}\b/\<close> at the head of a string whose left neighbour is not a word
  character.\<close>

definition isYearAt :: "string \<Rightarrow> bool" where
  "isYearAt r =
     (case r of
        a # b # c # d # rest \<Rightarrow>
          ((a = CHR ''1'' \<and> b = CHR ''9'') \<or> (a = CHR ''2'' \<and> b = CHR ''0'')) \<and>
          isDigit c \<and> isDigit d \<and> boundaryAfter rest
      | _ \<Rightarrow> False)"

text \<open>\<open>replace(/\b(19|20)\d{2}\b/g, '')\<close>; the flag says that the previous character of the
  input is a word character.\<close>

fun removeYears :: "bool \<Rightarrow> string \<Rightarrow> string" where
  "removeYears prevWord [] = []"
| "removeYears prevWord (c # s) =
     (if \<not> prevWord \<and> isYearAt (c # s) then removeYears True (drop 3 s)
      else c # removeYears (isWordChar c) s)"

text \<open>
  The French catalog's normalizer takes the flag \<open>removeYear\<close>; the normalizer of the other
  provider is the same chain without the year step, \<open>normalizeText text False\<close>. The two
  symbols are U+00BD (one half) and U+00D7 (multiplication sign); the character class of
  the fifth step holds the ASCII apostrophe (code 0x27), twice.
\<close>

definition normalizeText :: "string \<Rightarrow> bool \<Rightarrow> string" where
  "normalizeText text removeYear =
     (let normalized =
            trim (collapseSpaces
              (filter (\<lambda>c. isWordChar c \<or> isSpace c)
                (filter (\<lambda>c. c \<noteq> CHR 0x27)
                  (replaceChar (CHR 0xD7) ''x''
                    (replaceChar (CHR 0xBD) ''0.5''
                      (replaceChar CHR ''&'' ''and'' (toLowerCase text)))))))
      in if removeYear then trim (removeYears False normalized) else normalized)"

section \<open>The word-variation expander (\<open>getWordVariations\<close>)\<close>

definition hianimeReplacements :: "(string \<times> string list) list" where
  "hianimeReplacements =
     [(''season'', [''s'', ''sz'']),
      (''s'', [''season'', ''sz'']),
      (''sz'', [''season'', ''s'']),
      (''two'', [''2'', ''ii'']),
      (''three'', [''3'', ''iii'']),
      (''four'', [''4'', ''iv'']),
      (''five'', [''5'', ''v'']),
      (''six'', [''6'', ''vi'']),
      (''part'', [''pt'', ''p'']),
      (''episode'', [''ep'']),
      (''chapters'', [''ch'']),
      (''chapter'', [''ch'']),
      (''first'', [''1'', ''i'']),
      (''second'', [''2'', ''ii'']),
      (''third'', [''3'', ''iii'']),
      (''fourth'', [''4'', ''iv'']),
      (''fifth'', [''5'', ''v'']),
      (''sixth'', [''6'', ''vi''])]"

definition hianimeSequels :: "(string \<times> string list) list" where
  "hianimeSequels =
     [(''2nd season'', [''second season'', ''s2'', ''season 2'', ''season two'', ''ii'']),
      (''3rd season'', [''third season'', ''s3'', ''season 3'', ''season three'', ''iii'']),
      (''4th season'', [''fourth season'', ''s4'', ''season 4'', ''season four'', ''iv'']),
      (''part 2'', [''part two'', ''p2'', ''pt 2'', ''cour 2'']),
      (''part 3'', [''part three'', ''p3'', ''pt 3'', ''cour 3'']),
      (''final season'', [''last season'', ''end'', ''finale'', ''final'']),
      (''2nd cour'', [''second cour'', ''cour 2'']),
      (''3rd cour'', [''third cour'', ''cour 3''])]"

definition animesamaReplacements :: "(string \<times> string list) list" where
  "animesamaReplacements =
     [(''saison'', [''season'', ''s'', ''sz'']),
      (''season'', [''saison'', ''s'', ''sz'']),
      (''s'', [''season'', ''saison'', ''sz'']),
      (''sz'', [''season'', ''saison'', ''s'']),
      (''film'', [''movie'']),
      (''movie'', [''film'']),
      (''two'', [''2'', ''ii'', ''deux'']),
      (''three'', [''3'', ''iii'', ''trois'']),
      (''four'', [''4'', ''iv'', ''quatre'']),
      (''five'', [''5'', ''v'', ''cinq'']),
      (''six'', [''6'', ''vi'', ''six'']),
      (''part'', [''partie'', ''pt'', ''p'']),
      (''partie'', [''part'', ''pt'', ''p''])]"

text \<open>The keys of the French sequel table spell \<open>2\<close>, e grave (U+00E8), \<open>me saison\<close>.\<close>

definition animesamaSequels :: "(string \<times> string list) list" where
  "animesamaSequels =
     [(''2'' @ [CHR 0xE8] @ ''me saison'',
         [''2nd season'', ''second season'', ''s2'', ''season 2'', ''saison 2'', ''ii'']),
      (''3'' @ [CHR 0xE8] @ ''me saison'',
         [''3rd season'', ''third season'', ''s3'', ''season 3'', ''saison 3'', ''iii'']),
      (''4'' @ [CHR 0xE8] @ ''me saison'',
         [''4th season'', ''fourth season'', ''s4'', ''season 4'', ''saison 4'', ''iv'']),
      (''partie 2'', [''part 2'', ''part two'', ''p2'', ''pt 2'']),
      (''partie 3'', [''part 3'', ''part three'', ''p3'', ''pt 3''])]"

text \<open>A JavaScript \<open>Set\<close> of strings, read back in insertion order: a list without
  duplicates; \<open>add\<close> appends a new element.\<close>

definition setAdd :: "string list \<Rightarrow> string \<Rightarrow> string list" where
  "setAdd vs v = (if v \<in> set vs then vs else vs @ [v])"

definition setAddAll :: "string list \<Rightarrow> string list \<Rightarrow> string list" where
  "setAddAll vs ws = foldl setAdd vs ws"

definition replacementStep :: "string \<Rightarrow> string list \<Rightarrow> string \<times> string list \<Rightarrow> string list" where
  "replacementStep normalized vs entry =
     (if normalized = fst entry then setAddAll vs (snd entry)
      else if normalized \<in> set (snd entry) then setAddAll (setAdd vs (fst entry)) (snd entry)
      else vs)"

definition sequelStep :: "string \<Rightarrow> string list \<Rightarrow> string \<times> string list \<Rightarrow> string list" where
  "sequelStep normalized vs entry =
     (let normalizedKey = normalizeText (fst entry) False
      in if normalized = normalizedKey then setAddAll vs (snd entry)
         else if normalized \<in> set (snd entry) then setAddAll (setAdd vs normalizedKey) (snd entry)
         else vs)"

text \<open>The body of \<open>getWordVariations\<close> after a cache miss, for the two tables of a provider.\<close>

definition computeVariations :: "(string \<times> string list) list \<Rightarrow> (string \<times> string list) list
    \<Rightarrow> string \<Rightarrow> string list" where
  "computeVariations replacements sequels word =
     (let normalized = normalizeText word False;
          variations0 = setAdd [word] normalized;
          withoutNumbers = trim (filter (\<lambda>c. \<not> isDigit c) word);
          variations1 = (if withoutNumbers \<noteq> word then setAdd variations0 withoutNumbers
                         else variations0);
          variations2 = foldl (replacementStep normalized) variations1 replacements
      in foldl (sequelStep normalized) variations2 sequels)"

text \<open>The module-level cache \<open>wordVariationsCache\<close> is the state: the call returns the
  variations and the cache after the call. The key is the lower-cased word.\<close>

type_synonym variationsCache = "string \<rightharpoonup> string list"

definition getWordVariations :: "(string \<times> string list) list \<Rightarrow> (string \<times> string list) list
    \<Rightarrow> variationsCache \<Rightarrow> string \<Rightarrow> string list \<times> variationsCache" where
  "getWordVariations replacements sequels cache word =
     (let cacheKey = toLowerCase word
      in case cache cacheKey of
           Some cached \<Rightarrow> (cached, cache)
         | None \<Rightarrow>
             (let result = computeVariations replacements sequels word
              in (result, cache(cacheKey \<mapsto> result))))"

text \<open>The cache after a sequence of earlier calls.\<close>

definition cacheAfter :: "(string \<times> string list) list \<Rightarrow> (string \<times> string list) list
    \<Rightarrow> variationsCache \<Rightarrow> string list \<Rightarrow> variationsCache" where
  "cacheAfter replacements sequels cache ws =
     foldl (\<lambda>c w. snd (getWordVariations replacements sequels c w)) cache ws"

text \<open>
  The lookup is private to its module. Every call of the scorers passes a word of
  \<open>normalizeText(title).split(' ')\<close>; the scorer of the French catalog also passes the
  words of the year-stripped title. These are the words of \<open>lookupWords\<close>.
\<close>

definition lookupWords :: "bool \<Rightarrow> string \<Rightarrow> string list" where
  "lookupWords removeYear title = splitOn CHR '' '' (normalizeText title removeYear)"

text \<open>A cache records calls on the words of \<open>S\<close>: every entry is the result computed for
  some word of \<open>S\<close>, stored under that word's lower-cased form.\<close>

definition cacheRecords :: "(string \<times> string list) list \<Rightarrow> (string \<times> string list) list
    \<Rightarrow> string set \<Rightarrow> variationsCache \<Rightarrow> bool" where
  "cacheRecords replacements sequels S cache =
     (\<forall>k r. cache k = Some r \<longrightarrow>
        (\<exists>v\<in>S. toLowerCase v = k \<and> r = computeVariations replacements sequels v))"

text \<open>The characters a normalized title consists of: lower-case ASCII letters, digits, the
  underscore and the space.\<close>

definition normalChar :: "char \<Rightarrow> bool" where
  "normalChar c = (isLowerAscii c \<or> isDigit c \<or> c = CHR ''_'' \<or> c = CHR '' '')"

text \<open>A string in which white space only occurs as single spaces; the flag says that the
  character before the string is white space.\<close>

fun singleSpaced :: "bool \<Rightarrow> string \<Rightarrow> bool" where
  "singleSpaced b [] = True"
| "singleSpaced b (c # s) =
     (if isSpace c then \<not> b \<and> c = CHR '' '' \<and> singleSpaced True s else singleSpaced False s)"

section \<open>The candidate scorer (\<open>calculateTitleScore\<close>)\<close>

subsection \<open>\<open>levenshteinDistance\<close>\<close>

text \<open>
  The source fills a matrix with one row per character of \<open>b\<close> and one column per character
  of \<open>a\<close>. \<open>fillRow\<close> is the inner loop over the columns of one row: \<open>left\<close> is the cell
  just written, \<open>diag\<close> and the head of \<open>ups\<close> are the cells of the row above.
\<close>

fun fillRow :: "char \<Rightarrow> nat \<Rightarrow> nat \<Rightarrow> string \<Rightarrow> nat list \<Rightarrow> nat list" where
  "fillRow bj left diag [] ups = []"
| "fillRow bj left diag (ai # as) [] = []"
| "fillRow bj left diag (ai # as) (up # ups) =
     (let v = min (min (left + 1) (up + 1)) (diag + (if ai = bj then 0 else 1))
      in v # fillRow bj v up as ups)"

definition nextRow :: "string \<Rightarrow> nat list \<Rightarrow> nat \<times> char \<Rightarrow> nat list" where
  "nextRow a prevRow jb =
     (case prevRow of
        [] \<Rightarrow> []
      | d # ups \<Rightarrow> fst jb # fillRow (snd jb) (fst jb) d a ups)"

definition levenshteinDistance :: "string \<Rightarrow> string \<Rightarrow> nat" where
  "levenshteinDistance a b =
     last (foldl (nextRow a) [0..<length a + 1] (zip [1..<length b + 1] b))"

text \<open>The edit distance of the specification, by the usual recurrence over the lengths of
  the two prefixes.\<close>

fun lev :: "string \<Rightarrow> string \<Rightarrow> nat \<Rightarrow> nat \<Rightarrow> nat" where
  "lev a b 0 j = j"
| "lev a b (Suc i) 0 = Suc i"
| "lev a b (Suc i) (Suc j) =
     min (min (lev a b i (Suc j) + 1) (lev a b (Suc i) j + 1))
         (lev a b i j + (if a ! i = b ! j then 0 else 1))"

definition editDistance :: "string \<Rightarrow> string \<Rightarrow> nat" where
  "editDistance a b = lev a b (length a) (length b)"

subsection \<open>The word loops\<close>

text \<open>
  The three inner loops of the source with their \<open>break\<close>s: over the variations of one
  title word, over the variations of the search word, and over the title words. Each
  returns \<open>bestWordMatch\<close>.
\<close>

fun titleVarLoop :: "string \<Rightarrow> rat \<Rightarrow> string list \<Rightarrow> rat" where
  "titleVarLoop searchVar best [] = best"
| "titleVarLoop searchVar best (titleVar # rest) =
     (if searchVar = titleVar then 1
      else titleVarLoop searchVar
             (if includesStr searchVar titleVar \<or> includesStr titleVar searchVar
              then max best (of_nat (min (length searchVar) (length titleVar))
                             / of_nat (max (length searchVar) (length titleVar)))
              else best)
             rest)"

fun searchVarLoop :: "rat \<Rightarrow> string list \<Rightarrow> string list \<Rightarrow> rat" where
  "searchVarLoop best [] titleVars = best"
| "searchVarLoop best (searchVar # rest) titleVars =
     (let b = titleVarLoop searchVar best titleVars
      in if b = 1 then b else searchVarLoop b rest titleVars)"

fun titleWordLoop :: "rat \<Rightarrow> string list \<Rightarrow> string list list \<Rightarrow> rat" where
  "titleWordLoop best searchVars [] = best"
| "titleWordLoop best searchVars (titleVars # rest) =
     (let b = searchVarLoop best searchVars titleVars
      in if b = 1 then b else titleWordLoop b searchVars rest)"

text \<open>The loop over the search words, with the counters \<open>matches\<close> and \<open>partialMatches\<close>.\<close>

fun searchWordLoop :: "nat \<times> rat \<Rightarrow> string list list \<Rightarrow> string list list \<Rightarrow> nat \<times> rat" where
  "searchWordLoop acc [] titleVariations = acc"
| "searchWordLoop (matches, partialMatches) (searchVars # rest) titleVariations =
     (let bestWordMatch = titleWordLoop 0 searchVars titleVariations
      in if bestWordMatch = 1
         then searchWordLoop (matches + 1, partialMatches) rest titleVariations
         else if bestWordMatch > 0
         then searchWordLoop (matches, partialMatches + bestWordMatch) rest titleVariations
         else searchWordLoop (matches, partialMatches) rest titleVariations)"

definition wordMatchScore :: "string list list \<Rightarrow> string list list \<Rightarrow> rat" where
  "wordMatchScore searchVariations titleVariations =
     (case searchWordLoop (0, 0) searchVariations titleVariations of
        (matches, partialMatches) \<Rightarrow>
          (of_nat matches + partialMatches * (1 / 2)) / of_nat (length searchVariations))"

subsection \<open>The scorer of the first provider\<close>

text \<open>\<open>words.map(w => getWordVariations(w))\<close>: the lookups in order, through the cache.\<close>

fun lookupAll :: "(string \<times> string list) list \<Rightarrow> (string \<times> string list) list
    \<Rightarrow> variationsCache \<Rightarrow> string list \<Rightarrow> string list list \<times> variationsCache" where
  "lookupAll tr sq cache [] = ([], cache)"
| "lookupAll tr sq cache (w # ws) =
     (case getWordVariations tr sq cache w of
        (vs, cache1) \<Rightarrow>
          (case lookupAll tr sq cache1 ws of (vss, cache2) \<Rightarrow> (vs # vss, cache2)))"

text \<open>
  \<open>calculateTitleScore\<close> of the first provider. The similarity function is the library
  \<open>string-similarity-js\<close>, which is not part of the repository: it is the parameter
  \<open>sim\<close>. The year arguments of the source are not read by its body. The result is the
  score and the cache after the call.
\<close>

definition calculateTitleScore :: "(string \<Rightarrow> string \<Rightarrow> rat) \<Rightarrow> variationsCache \<Rightarrow> string \<Rightarrow> string
    \<Rightarrow> rat \<times> variationsCache" where
  "calculateTitleScore sim cache searchTitle hianimeTitle =
     (let normalizedSearch = normalizeText searchTitle False;
          normalizedTitle = normalizeText hianimeTitle False
      in if normalizedSearch = normalizedTitle then (1, cache)
         else if levenshteinDistance normalizedSearch normalizedTitle \<le> 2
                 \<and> length normalizedSearch > 5 then (95 / 100, cache)
         else
          (let searchWords = splitOn CHR '' '' normalizedSearch;
               titleWords = splitOn CHR '' '' normalizedTitle
           in case lookupAll hianimeReplacements hianimeSequels cache searchWords of
                (searchVariations, cache1) \<Rightarrow>
                  (case lookupAll hianimeReplacements hianimeSequels cache1 titleWords of
                     (titleVariations, cache2) \<Rightarrow>
                       (wordMatchScore searchVariations titleVariations * (7 / 10)
                          + sim normalizedSearch normalizedTitle * (3 / 10),
                        cache2))))"

text \<open>The same scorer over the computed variations, without the cache. On a cache that
  holds only computed lists it returns the same score (lemma
  \<open>calculateTitleScore_pure\<close>); the search below is written over it.\<close>

definition titleScore :: "(string \<Rightarrow> string \<Rightarrow> rat) \<Rightarrow> string \<Rightarrow> string \<Rightarrow> rat" where
  "titleScore sim searchTitle hianimeTitle =
     (let normalizedSearch = normalizeText searchTitle False;
          normalizedTitle = normalizeText hianimeTitle False
      in if normalizedSearch = normalizedTitle then 1
         else if levenshteinDistance normalizedSearch normalizedTitle \<le> 2
                 \<and> length normalizedSearch > 5 then 95 / 100
         else
           wordMatchScore
             (map (computeVariations hianimeReplacements hianimeSequels)
                (splitOn CHR '' '' normalizedSearch))
             (map (computeVariations hianimeReplacements hianimeSequels)
                (splitOn CHR '' '' normalizedTitle)) * (7 / 10)
           + sim normalizedSearch normalizedTitle * (3 / 10))"

text \<open>A cache that holds, under every key, the list computed for that key. The caches
  that lookups of lower-case words build are of this kind.\<close>

definition cacheSound :: "(string \<times> string list) list \<Rightarrow> (string \<times> string list) list
    \<Rightarrow> variationsCache \<Rightarrow> bool" where
  "cacheSound tr sq cache = (\<forall>k r. cache k = Some r \<longrightarrow> r = computeVariations tr sq k)"

subsection \<open>The scorer as the specification words it\<close>

text \<open>The score of one pair of variations: 1 for equal strings, the ratio of the lengths
  when one contains the other, else 0.\<close>

definition pairScore :: "string \<Rightarrow> string \<Rightarrow> rat" where
  "pairScore sv tv =
     (if sv = tv then 1
      else if includesStr sv tv \<or> includesStr tv sv
      then of_nat (min (length sv) (length tv)) / of_nat (max (length sv) (length tv))
      else 0)"

text \<open>The best match of a source word: the largest pair score over the candidate words and
  the variations of both sides (0 when there is none).\<close>

definition bestWordMatchSpec :: "(string \<Rightarrow> string list) \<Rightarrow> string \<Rightarrow> string list \<Rightarrow> rat" where
  "bestWordMatchSpec variationsOf sw tws =
     Max (insert 0 (set (concat (map (\<lambda>tw. concat (map (\<lambda>sv. map (pairScore sv) (variationsOf tw))
                                                      (variationsOf sw))) tws))))"

definition wordScoreSpec :: "(string \<Rightarrow> string list) \<Rightarrow> string list \<Rightarrow> string list \<Rightarrow> rat" where
  "wordScoreSpec variationsOf sws tws =
     (let bests = map (\<lambda>sw. bestWordMatchSpec variationsOf sw tws) sws;
          matches = length (filter (\<lambda>b. b = 1) bests);
          partialMatches = sum_list (filter (\<lambda>b. b \<noteq> 1) bests)
      in (of_nat matches + 1 / 2 * partialMatches) / of_nat (length sws))"

definition titleScoreSpec :: "(string \<Rightarrow> string \<Rightarrow> rat) \<Rightarrow> string \<Rightarrow> string \<Rightarrow> rat" where
  "titleScoreSpec sim source candidate =
     (let ns = normalizeText source False;
          nc = normalizeText candidate False
      in if ns = nc then 1
         else if editDistance ns nc \<le> 2 \<and> length ns > 5 then 95 / 100
         else 7 / 10 * wordScoreSpec (computeVariations hianimeReplacements hianimeSequels)
                         (splitOn CHR '' '' ns) (splitOn CHR '' '' nc)
              + 3 / 10 * sim ns nc)"

subsection \<open>The similarity library\<close>

text \<open>
  The algorithm that \<open>string-similarity-js\<close> documents, for the default substring length 2:
  both strings in lower case; 0 when one is shorter than 2; else twice the number of
  bigrams of the second string that can be paired with a bigram of the first, over the
  total number of bigrams. It serves as a concrete similarity in the examples; the
  theorems hold for every \<open>sim\<close>.
\<close>

definition bigrams :: "string \<Rightarrow> (char \<times> char) list" where
  "bigrams s = zip s (tl s)"

fun pairBigrams :: "(char \<times> char) list \<Rightarrow> (char \<times> char) list \<Rightarrow> nat" where
  "pairBigrams pool [] = 0"
| "pairBigrams pool (g # gs) =
     (if g \<in> set pool then 1 + pairBigrams (remove1 g pool) gs else pairBigrams pool gs)"

definition stringSimilarity :: "string \<Rightarrow> string \<Rightarrow> rat" where
  "stringSimilarity str1 str2 =
     (let s1 = toLowerCase str1; s2 = toLowerCase str2
      in if length s1 < 2 \<or> length s2 < 2 then 0
         else of_nat (pairBigrams (bigrams s1) (bigrams s2) * 2)
              / of_nat (length s1 + length s2 - 2))"

subsection \<open>The scorer of the French catalog\<close>

text \<open>
  \<open>calculateWordMatchScore\<close> runs the same loops and looks the variations up inside them.
  Its words are words of normalized titles, for which a lookup returns the computed list
  (lemma \<open>getWordVariations_lower_words\<close>), so it is written over \<open>computeVariations\<close>.
\<close>

definition calculateWordMatchScore :: "string list \<Rightarrow> string list \<Rightarrow> rat" where
  "calculateWordMatchScore searchWords targetWords =
     wordMatchScore
       (map (computeVariations animesamaReplacements animesamaSequels) searchWords)
       (map (computeVariations animesamaReplacements animesamaSequels) targetWords)"

definition maxOver :: "rat \<Rightarrow> rat list \<Rightarrow> rat" where
  "maxOver start xs = foldl max start xs"

definition calculateTitleScoreSama :: "(string \<Rightarrow> string \<Rightarrow> rat) \<Rightarrow> string \<Rightarrow> string
    \<Rightarrow> string option \<Rightarrow> rat" where
  "calculateTitleScoreSama sim searchTitle animesamaTitle animesamaSubtitle =
     (let normalizedSearch = normalizeText searchTitle False;
          normalizedTitle = normalizeText animesamaTitle False
      in if normalizedSearch = normalizedTitle then 1
         else
          (let subtitleTitles =
                 (case animesamaSubtitle of
                    None \<Rightarrow> []
                  | Some sub \<Rightarrow> if sub = [] then []
                               else map (\<lambda>t. normalizeText (trim t) False) (splitOn CHR '','' sub))
           in if normalizedSearch \<in> set subtitleTitles then 98 / 100
              else
               (let baseSearch = normalizeText searchTitle True;
                    baseTitle = normalizeText animesamaTitle True
                in if baseSearch = baseTitle then 95 / 100
                   else if baseSearch \<in> set (map (\<lambda>st. normalizeText st True) subtitleTitles)
                   then 92 / 100
                   else
                    (let searchWords = splitOn CHR '' '' baseSearch;
                         titleWords = splitOn CHR '' '' baseTitle;
                         bestScore =
                           maxOver (max 0 (calculateWordMatchScore searchWords titleWords))
                             (map (\<lambda>st. calculateWordMatchScore searchWords (splitOn CHR '' '' st))
                                subtitleTitles);
                         titleSimilarity = sim baseSearch baseTitle;
                         maxSubtitleSimilarity =
                           maxOver 0 (map (\<lambda>st. sim baseSearch st) subtitleTitles);
                         similarity = max titleSimilarity maxSubtitleSimilarity
                     in bestScore * (7 / 10) + similarity * (3 / 10)))))"

text \<open>
  The scorer of the French catalog as a ladder, in the words of the specification: the
  secondary titles are the comma-separated entries of the subtitle, normalized; the word
  score and the similarity of the last step are the best ones over the year-stripped
  candidate title and the secondary titles.
\<close>

definition titleScoreSamaSpec :: "(string \<Rightarrow> string \<Rightarrow> rat) \<Rightarrow> string \<Rightarrow> string
    \<Rightarrow> string option \<Rightarrow> rat" where
  "titleScoreSamaSpec sim source candidate secondary =
     (let ns = normalizeText source False;
          nc = normalizeText candidate False;
          secs = (case secondary of
                    None \<Rightarrow> []
                  | Some sub \<Rightarrow> if sub = [] then []
                               else map (\<lambda>t. normalizeText (trim t) False) (splitOn CHR '','' sub));
          bs = normalizeText source True;
          bc = normalizeText candidate True;
          wordScore = (\<lambda>target.
             wordScoreSpec (computeVariations animesamaReplacements animesamaSequels)
               (splitOn CHR '' '' bs) (splitOn CHR '' '' target))
      in if ns = nc then 1
         else if ns \<in> set secs then 98 / 100
         else if bs = bc then 95 / 100
         else if bs \<in> (\<lambda>st. normalizeText st True) ` set secs then 92 / 100
         else 7 / 10 * Max (insert 0 (insert (wordScore bc) (wordScore ` set secs)))
              + 3 / 10 * Max (insert 0 (insert (sim bs bc) (sim bs ` set secs))))"


section \<open>The match selector of the first provider (\<open>searchAnime\<close>)\<close>

subsection \<open>Years and season numbers of a title\<close>

text \<open>\<open>title.match(/\((\d{4})\)/)\<close>: the first four digits in parentheses.\<close>

fun yearInParens :: "string \<Rightarrow> string option" where
  "yearInParens [] = None"
| "yearInParens (c # s) =
     (if c = CHR ''('' \<and> length s \<ge> 5 \<and> list_all isDigit (take 4 s) \<and> s ! 4 = CHR '')''
      then Some (take 4 s) else yearInParens s)"

definition extractYears :: "string \<Rightarrow> string option \<Rightarrow> string list" where
  "extractYears title jn =
     (let years0 = (case yearInParens title of None \<Rightarrow> [] | Some y \<Rightarrow> [y])
      in case jn of
           None \<Rightarrow> years0
         | Some j \<Rightarrow> (case yearInParens j of None \<Rightarrow> years0 | Some y \<Rightarrow> setAdd years0 y))"

text \<open>\<open>/season\s*(\d+)/i\<close> and its like: the keyword, optional white space, digits.\<close>

fun keywordNumber :: "string \<Rightarrow> string \<Rightarrow> string option" where
  "keywordNumber kw [] = None"
| "keywordNumber kw (c # s) =
     (if startsWithCI (c # s) kw
         \<and> takeWhile isDigit (dropWhile isSpace (drop (length kw) (c # s))) \<noteq> []
      then Some (takeWhile isDigit (dropWhile isSpace (drop (length kw) (c # s))))
      else keywordNumber kw s)"

text \<open>\<open>/\ss(\d+)(?:\s|$)/i\<close> and its like: white space, the letter, digits, then white
  space or the end.\<close>

fun spacedLetterNumber :: "char \<Rightarrow> string \<Rightarrow> string option" where
  "spacedLetterNumber l [] = None"
| "spacedLetterNumber l (c # s) =
     (case s of
        [] \<Rightarrow> None
      | x # r \<Rightarrow>
          if isSpace c \<and> asciiUpper x = asciiUpper l \<and> takeWhile isDigit r \<noteq> []
             \<and> (case dropWhile isDigit r of [] \<Rightarrow> True | y # _ \<Rightarrow> isSpace y)
          then Some (takeWhile isDigit r)
          else spacedLetterNumber l s)"

definition extractSeasonNumber :: "string \<Rightarrow> nat option" where
  "extractSeasonNumber title =
     map_option parseDigits
       (orElse (keywordNumber ''season'' title)
         (orElse (spacedLetterNumber CHR ''s'' title)
           (orElse (keywordNumber ''part'' title)
             (orElse (keywordNumber ''cour'' title)
               (spacedLetterNumber CHR ''p'' title)))))"

text \<open>\<open>n.toString()\<close> of a natural number.\<close>

fun natToString :: "nat \<Rightarrow> string" where
  "natToString n =
     (if n < 10 then [char_of (48 + n)]
      else natToString (n div 10) @ [char_of (48 + n mod 10)])"

declare natToString.simps [simp del]

subsection \<open>Data\<close>

text \<open>An entry of the catalog's result page, as scraped: the title, the identifier cut out
  of the link (absent or empty when the link has none), the Japanese name, the format
  label, the episode count (0 without a label) and the duration in minutes.\<close>

record Item =
  hianimeTitle :: string
  hianimeId :: "string option"
  jname :: "string option"
  formatText :: string
  episodesCount :: nat
  duration :: "nat option"

text \<open>The source identity (\<open>animeInfo\<close>), with the fields the search reads.\<close>

record HiAnimeInfo =
  anime_id :: nat
  english :: "string option"
  romaji :: "string option"
  synonyms :: "string list"
  anime_episodes :: "nat option"
  format :: string
  seasonYear :: "nat option"
  anime_duration :: "nat option"

text \<open>An entry of the pool \<open>seriesMatches\<close>.\<close>

record SeriesMatch =
  m_title :: string
  m_id :: string
  m_score :: rat
  isMovie :: bool
  isTV :: bool
  isOVA :: bool
  isSpecial :: bool
  m_episodes :: nat
  m_duration :: "nat option"
  m_jname :: "string option"
  years :: "string list"
  seasonNum :: "nat option"

text \<open>The result \<open>{ score, id, method }\<close>.\<close>

record MatchResult =
  score :: rat
  ident :: "string option"
  matchMethod :: string

definition noMatch :: MatchResult where
  "noMatch = \<lparr>score = 0, ident = None, matchMethod = ''none''\<rparr>"

definition errorMatch :: MatchResult where
  "errorMatch = \<lparr>score = 0, ident = None, matchMethod = ''error''\<rparr>"

definition selected :: "SeriesMatch \<Rightarrow> string \<Rightarrow> MatchResult" where
  "selected best tag = \<lparr>score = m_score best, ident = Some (m_id best), matchMethod = tag\<rparr>"

subsection \<open>Scoring one entry\<close>

text \<open>The guard before scoring: a one-word search against a title of several words is a
  false positive when the title has the word only inside another word, or has it as a word
  among more than three.\<close>

definition falsePositive :: "string \<Rightarrow> string \<Rightarrow> bool" where
  "falsePositive searchTitle title =
     (let normalizedHianime = normalizeText title False;
          normalizedSearch = normalizeText searchTitle False;
          searchWords = splitOn CHR '' '' normalizedSearch;
          hianimeWords = splitOn CHR '' '' normalizedHianime
      in case searchWords of
           [searchWord] \<Rightarrow>
             if length hianimeWords > 1
             then (let hasExactWordMatch = (searchWord \<in> set hianimeWords);
                       isOnlySubstring =
                         (\<not> hasExactWordMatch \<and> includesStr normalizedHianime searchWord)
                   in isOnlySubstring
                      \<or> (hasExactWordMatch \<and> length hianimeWords > length searchWords + 2))
             else False
         | _ \<Rightarrow> False)"

definition significantWords :: "string list" where
  "significantWords = [''strike'', ''wars'', ''hunters'', ''slayer'', ''quest'']"

definition hasSignificantExtras :: "string \<Rightarrow> bool" where
  "hasSignificantExtras title =
     (\<exists>word\<in>set significantWords. includesStr (normalizeText title False) word)"

text \<open>The title score after the compound-title penalty.\<close>

definition penalizedScore :: "(string \<Rightarrow> string \<Rightarrow> rat) \<Rightarrow> string \<Rightarrow> string \<Rightarrow> rat" where
  "penalizedScore sim searchTitle title =
     (let score0 = titleScore sim searchTitle title;
          searchWordCount = length (splitOn CHR '' '' (normalizeText searchTitle False));
          resultWordCount = length (splitOn CHR '' '' (normalizeText title False))
      in if searchWordCount = 1 \<and> resultWordCount > 1 \<and> hasSignificantExtras title
         then score0 * (1 / 2) else score0)"

text \<open>The contextual adjustments, in the order of the source. The source adds them to the
  score one after the other in double arithmetic; here the sum is exact.\<close>

definition formatBonus :: "HiAnimeInfo \<Rightarrow> Item \<Rightarrow> rat" where
  "formatBonus info it =
     (if format info = ''TV'' \<and> formatText it = ''TV'' then 15 / 100 else 0)
     + (if format info = ''MOVIE'' \<and> formatText it = ''Movie'' then 15 / 100 else 0)
     + (if format info = ''OVA'' \<and> formatText it = ''OVA'' then 1 / 10 else 0)
     + (if format info = ''SPECIAL'' \<and> formatText it = ''Special'' then 1 / 10 else 0)"

definition episodesBonus :: "HiAnimeInfo \<Rightarrow> Item \<Rightarrow> rat" where
  "episodesBonus info it =
     (case anime_episodes info of
        None \<Rightarrow> 0
      | Some n \<Rightarrow>
          if n \<noteq> 0 \<and> episodesCount it = n then 2 / 10
          else if n \<noteq> 0 \<and> absDiff (episodesCount it) n \<le> 2 then 1 / 10
          else 0)"

definition yearsBonus :: "string list \<Rightarrow> string list \<Rightarrow> rat" where
  "yearsBonus titleYears resultYears =
     (if titleYears \<noteq> [] \<and> resultYears \<noteq> []
      then (if \<exists>y\<in>set titleYears. y \<in> set resultYears then 25 / 100 else - (3 / 10))
      else 0)"

definition truthy :: "nat option \<Rightarrow> bool" where
  "truthy n = (case n of None \<Rightarrow> False | Some k \<Rightarrow> k \<noteq> 0)"

definition seasonBonus :: "nat option \<Rightarrow> nat option \<Rightarrow> rat" where
  "seasonBonus searchSeasonNum resultSeasonNum =
     (if truthy searchSeasonNum \<and> truthy resultSeasonNum
      then (if searchSeasonNum = resultSeasonNum then 2 / 10 else - (4 / 10))
      else 0)"

definition durationBonus :: "HiAnimeInfo \<Rightarrow> Item \<Rightarrow> rat" where
  "durationBonus info it =
     (case (anime_duration info, duration it) of
        (Some d, Some d') \<Rightarrow>
          if format info = ''MOVIE'' \<and> d \<noteq> 0 \<and> d' \<noteq> 0
          then (if absDiff d d' < 10 then 2 / 10
                else if absDiff d d' > 30 then - (15 / 100) else 0)
          else 0
      | _ \<Rightarrow> 0)"

definition episodesOver :: "HiAnimeInfo \<Rightarrow> nat \<Rightarrow> bool" where
  "episodesOver info k = (case anime_episodes info of None \<Rightarrow> False | Some n \<Rightarrow> n > k)"

definition mismatchPenalty :: "HiAnimeInfo \<Rightarrow> Item \<Rightarrow> rat" where
  "mismatchPenalty info it =
     (if formatText it = ''Movie'' \<and> format info = ''TV'' \<and> episodesOver info 1
      then - (3 / 10) else 0)
     + (if formatText it = ''TV'' \<and> format info = ''MOVIE'' then - (3 / 10) else 0)
     + (if formatText it = ''TV'' \<and> episodesOver info 24 \<and> episodesCount it > 24
        then 1 / 10 else 0)"

definition itemScore :: "(string \<Rightarrow> string \<Rightarrow> rat) \<Rightarrow> HiAnimeInfo \<Rightarrow> string list \<Rightarrow> nat option
    \<Rightarrow> string \<Rightarrow> Item \<Rightarrow> rat" where
  "itemScore sim info titleYears searchSeasonNum searchTitle it =
     penalizedScore sim searchTitle (hianimeTitle it)
     + formatBonus info it
     + episodesBonus info it
     + yearsBonus titleYears (extractYears (hianimeTitle it) (jname it))
     + seasonBonus searchSeasonNum (extractSeasonNumber (hianimeTitle it))
     + durationBonus info it
     + mismatchPenalty info it"

definition poolEntry :: "Item \<Rightarrow> string \<Rightarrow> rat \<Rightarrow> SeriesMatch" where
  "poolEntry it hid sc =
     \<lparr>m_title = hianimeTitle it, m_id = hid, m_score = sc,
      isMovie = (formatText it = ''Movie''), isTV = (formatText it = ''TV''),
      isOVA = (formatText it = ''OVA''), isSpecial = (formatText it = ''Special''),
      m_episodes = episodesCount it, m_duration = duration it, m_jname = jname it,
      years = extractYears (hianimeTitle it) (jname it),
      seasonNum = extractSeasonNumber (hianimeTitle it)\<rparr>"

text \<open>The callback of one entry, on the state \<open>(bestMatch, seriesMatches)\<close>.\<close>

definition processItem :: "(string \<Rightarrow> string \<Rightarrow> rat) \<Rightarrow> HiAnimeInfo \<Rightarrow> string list \<Rightarrow> nat option
    \<Rightarrow> string \<Rightarrow> MatchResult \<times> SeriesMatch list \<Rightarrow> Item \<Rightarrow> MatchResult \<times> SeriesMatch list" where
  "processItem sim info titleYears searchSeasonNum searchTitle st it =
     (case hianimeId it of
        None \<Rightarrow> st
      | Some hid \<Rightarrow>
          if hid = [] \<or> falsePositive searchTitle (hianimeTitle it) then st
          else (let sc = itemScore sim info titleYears searchSeasonNum searchTitle it
                in ((if sc > score (fst st)
                     then \<lparr>score = sc, ident = Some hid, matchMethod = ''title_match''\<rparr>
                     else fst st),
                    (if sc > 1 / 2 then snd st @ [poolEntry it hid sc] else snd st))))"

subsection \<open>The loop over the title variants\<close>

text \<open>\<open>[english, romaji, ...synonyms].filter(Boolean)\<close>, each title once, at its first place.\<close>

definition titlesToTry :: "HiAnimeInfo \<Rightarrow> string list" where
  "titlesToTry info =
     foldl setAdd []
       (filter (\<lambda>t. t \<noteq> [])
          ((case english info of None \<Rightarrow> [] | Some t \<Rightarrow> [t])
           @ (case romaji info of None \<Rightarrow> [] | Some t \<Rightarrow> [t])
           @ synonyms info))"

definition duplicatedQuery :: "string \<Rightarrow> string" where
  "duplicatedQuery searchTitle = searchTitle @ '' '' @ searchTitle"

text \<open>The catalog search is the collaborator \<open>search\<close>: the entries of the result page for a
  query, \<open>None\<close> when the request failed after its retries (the exception that the
  \<open>catch\<close> of \<open>searchAnime\<close> turns into the result \<open>error\<close>).\<close>

fun variantLoop :: "(string \<Rightarrow> string \<Rightarrow> rat) \<Rightarrow> (string \<Rightarrow> Item list option) \<Rightarrow> HiAnimeInfo
    \<Rightarrow> string list \<Rightarrow> nat option \<Rightarrow> MatchResult \<times> SeriesMatch list \<Rightarrow> string list
    \<Rightarrow> (MatchResult \<times> SeriesMatch list) option" where
  "variantLoop sim search info titleYears searchSeasonNum st [] = Some st"
| "variantLoop sim search info titleYears searchSeasonNum st (searchTitle # rest) =
     (case search (duplicatedQuery searchTitle) of
        None \<Rightarrow> None
      | Some items \<Rightarrow>
          (let st' = foldl (processItem sim info titleYears searchSeasonNum searchTitle) st items
           in if score (fst st') > 9 / 10 then Some st'
              else variantLoop sim search info titleYears searchSeasonNum st' rest))"

subsection \<open>The override phase\<close>

definition isExactTitle :: "string \<Rightarrow> string list \<Rightarrow> SeriesMatch \<Rightarrow> bool" where
  "isExactTitle title tried m =
     (normalizeText (m_title m) False = normalizeText title False
      \<or> (\<exists>t\<in>set tried. normalizeText t False = normalizeText (m_title m) False))"

definition isExactEpisodeFormat :: "HiAnimeInfo \<Rightarrow> SeriesMatch \<Rightarrow> bool" where
  "isExactEpisodeFormat info m =
     (Some (m_episodes m) = anime_episodes info
      \<and> ((format info = ''TV'' \<and> isTV m) \<or> (format info = ''MOVIE'' \<and> isMovie m)
         \<or> (format info = ''OVA'' \<and> isOVA m)))"

definition sharesYear :: "string list \<Rightarrow> SeriesMatch \<Rightarrow> bool" where
  "sharesYear titleYears m = (\<exists>y\<in>set (years m). y \<in> set titleYears)"

text \<open>The pool in descending score order; \<open>sort\<close> is stable.\<close>

definition byScore :: "SeriesMatch list \<Rightarrow> SeriesMatch list" where
  "byScore pool = sort_key (\<lambda>m. - m_score m) pool"

text \<open>The chain of the more specific rules, on the ranked pool; a rule that is consulted and
  finds nothing leaves \<open>bestMatch\<close> as it is.\<close>

definition specificRules :: "HiAnimeInfo \<Rightarrow> string list \<Rightarrow> nat option \<Rightarrow> MatchResult
    \<Rightarrow> SeriesMatch list \<Rightarrow> MatchResult" where
  "specificRules info titleYears searchSeasonNum bestMatch ranked =
     (case filter (isExactEpisodeFormat info) ranked of
        best # _ \<Rightarrow> selected best ''exact_match''
      | [] \<Rightarrow>
          if titleYears \<noteq> []
          then (case filter (sharesYear titleYears) ranked of
                  best # _ \<Rightarrow> selected best ''year_match''
                | [] \<Rightarrow> bestMatch)
          else if truthy searchSeasonNum
          then (case filter (\<lambda>m. seasonNum m = searchSeasonNum) ranked of
                  best # _ \<Rightarrow> selected best ''season_match''
                | [] \<Rightarrow> bestMatch)
          else if format info = ''TV''
          then (case (filter isTV ranked, ranked) of
                  (best # _, leader # _) \<Rightarrow>
                    if m_score leader - m_score best < 2 / 10
                    then selected best ''format_priority'' else bestMatch
                | _ \<Rightarrow> bestMatch)
          else bestMatch)"

definition selectMatch :: "string \<Rightarrow> string list \<Rightarrow> HiAnimeInfo \<Rightarrow> string list \<Rightarrow> nat option
    \<Rightarrow> MatchResult \<Rightarrow> SeriesMatch list \<Rightarrow> MatchResult" where
  "selectMatch title tried info titleYears searchSeasonNum bestMatch pool =
     (case byScore pool of
        [] \<Rightarrow> bestMatch
      | leader # others \<Rightarrow>
          (case filter (isExactTitle title tried) (leader # others) of
             best # _ \<Rightarrow> selected best ''exact_title_match''
           | [] \<Rightarrow>
               (let chosen = specificRules info titleYears searchSeasonNum bestMatch (leader # others)
                in if matchMethod chosen = ''none'' \<or> m_score leader > score chosen
                   then selected leader ''highest_score'' else chosen)))"

subsection \<open>The alternative search and the result\<close>

text \<open>\<open>replace(/season \d+/gi, '')\<close> and \<open>replace(/part \d+/gi, '')\<close>: the keyword, one space
  and digits are dropped. The counter is the number of characters of a match still to
  drop.\<close>

fun removeKeywordDigits :: "string \<Rightarrow> nat \<Rightarrow> string \<Rightarrow> string" where
  "removeKeywordDigits kw skip [] = []"
| "removeKeywordDigits kw skip (c # s) =
     (if skip > 0 then removeKeywordDigits kw (skip - 1) s
      else if startsWithCI (c # s) (kw @ '' '')
              \<and> takeWhile isDigit (drop (length kw + 1) (c # s)) \<noteq> []
      then removeKeywordDigits kw
             (length kw + length (takeWhile isDigit (drop (length kw + 1) (c # s)))) s
      else c # removeKeywordDigits kw 0 s)"

definition baseTitleOf :: "string \<Rightarrow> string" where
  "baseTitleOf title =
     trim (removeKeywordDigits ''part'' 0
            (removeKeywordDigits ''season'' 0
               (stripBetween CHR ''('' CHR '')'' False title)))"

definition altItemScore :: "(string \<Rightarrow> string \<Rightarrow> rat) \<Rightarrow> HiAnimeInfo \<Rightarrow> string list \<Rightarrow> nat option
    \<Rightarrow> string \<Rightarrow> Item \<Rightarrow> rat" where
  "altItemScore sim info originalYears originalSeasonNum baseTitle it =
     titleScore sim baseTitle (hianimeTitle it)
     + (if format info = ''TV'' \<and> formatText it = ''TV'' then 15 / 100 else 0)
     + (case anime_episodes info of
          None \<Rightarrow> 0
        | Some n \<Rightarrow> if n \<noteq> 0 \<and> episodesCount it = n then 2 / 10 else 0)
     + (if originalYears \<noteq> []
           \<and> (\<exists>y\<in>set (extractYears (hianimeTitle it) (jname it)). y \<in> set originalYears)
        then 25 / 100 else 0)
     + (if truthy originalSeasonNum \<and> extractSeasonNumber (hianimeTitle it) = originalSeasonNum
        then 2 / 10 else 0)"

definition altProcessItem :: "(string \<Rightarrow> string \<Rightarrow> rat) \<Rightarrow> HiAnimeInfo \<Rightarrow> string list \<Rightarrow> nat option
    \<Rightarrow> string \<Rightarrow> MatchResult \<Rightarrow> Item \<Rightarrow> MatchResult" where
  "altProcessItem sim info originalYears originalSeasonNum baseTitle bestMatch it =
     (case hianimeId it of
        None \<Rightarrow> bestMatch
      | Some hid \<Rightarrow>
          if hid = [] then bestMatch
          else (let sc = altItemScore sim info originalYears originalSeasonNum baseTitle it
                in if sc > score bestMatch
                   then \<lparr>score = sc, ident = Some hid, matchMethod = ''alternative''\<rparr>
                   else bestMatch))"

text \<open>\<open>searchAnimeAlternative\<close>: \<open>None\<close> is its \<open>null\<close>, also after a failed request.\<close>

definition searchAnimeAlternative :: "(string \<Rightarrow> string \<Rightarrow> rat) \<Rightarrow> (string \<Rightarrow> Item list option)
    \<Rightarrow> string \<Rightarrow> HiAnimeInfo \<Rightarrow> string list \<Rightarrow> nat option \<Rightarrow> MatchResult option" where
  "searchAnimeAlternative sim search baseTitle info originalYears originalSeasonNum =
     (case search (duplicatedQuery baseTitle) of
        None \<Rightarrow> None
      | Some items \<Rightarrow>
          (let bestMatch =
                 foldl (altProcessItem sim info originalYears originalSeasonNum baseTitle)
                   \<lparr>score = 0, ident = None, matchMethod = ''alternative''\<rparr> items
           in if score bestMatch > 1 / 2 then Some bestMatch else None))"

definition withAlternative :: "(string \<Rightarrow> string \<Rightarrow> rat) \<Rightarrow> (string \<Rightarrow> Item list option)
    \<Rightarrow> string \<Rightarrow> HiAnimeInfo \<Rightarrow> string list \<Rightarrow> nat option \<Rightarrow> MatchResult \<Rightarrow> MatchResult" where
  "withAlternative sim search title info titleYears searchSeasonNum bestMatch =
     (if score bestMatch < 6 / 10
         \<and> baseTitleOf title \<noteq> title \<and> length (baseTitleOf title) > 3
      then (case searchAnimeAlternative sim search (baseTitleOf title) info titleYears
                   searchSeasonNum of
              Some altResult \<Rightarrow> if score altResult > score bestMatch then altResult else bestMatch
            | None \<Rightarrow> bestMatch)
      else bestMatch)"

definition sourceYears :: "string \<Rightarrow> HiAnimeInfo \<Rightarrow> string list" where
  "sourceYears title info =
     extractYears title None
     @ (case seasonYear info of
          None \<Rightarrow> []
        | Some y \<Rightarrow> if y \<noteq> 0 then [natToString y] else [])"

text \<open>The body of the \<open>try\<close> block: \<open>None\<close> when a request of the variant loop failed.\<close>

definition searchAnimeBody :: "(string \<Rightarrow> string \<Rightarrow> rat) \<Rightarrow> (string \<Rightarrow> Item list option) \<Rightarrow> string
    \<Rightarrow> HiAnimeInfo \<Rightarrow> MatchResult option" where
  "searchAnimeBody sim search title info =
     (let titleYears = sourceYears title info;
          searchSeasonNum = extractSeasonNumber title
      in case variantLoop sim search info titleYears searchSeasonNum (noMatch, [])
                (titlesToTry info) of
           None \<Rightarrow> None
         | Some (bestMatch, seriesMatches) \<Rightarrow>
             (let chosen = selectMatch title (titlesToTry info) info titleYears searchSeasonNum
                             bestMatch seriesMatches;
                  final = withAlternative sim search title info titleYears searchSeasonNum chosen
              in Some (if score final > 4 / 10 then final else noMatch)))"

text \<open>\<open>searchAnime\<close> with its result cache \<open>searchCache\<close> as state; an \<open>error\<close> result is not
  stored.\<close>

type_synonym searchCache = "string \<rightharpoonup> MatchResult"

definition searchKey :: "string \<Rightarrow> HiAnimeInfo \<Rightarrow> string" where
  "searchKey title info = title @ ''_'' @ natToString (anime_id info)"

definition searchAnime :: "(string \<Rightarrow> string \<Rightarrow> rat) \<Rightarrow> (string \<Rightarrow> Item list option) \<Rightarrow> searchCache
    \<Rightarrow> string \<Rightarrow> HiAnimeInfo \<Rightarrow> MatchResult \<times> searchCache" where
  "searchAnime sim search cache title info =
     (case cache (searchKey title info) of
        Some cached \<Rightarrow> (cached, cache)
      | None \<Rightarrow>
          (case searchAnimeBody sim search title info of
             None \<Rightarrow> (errorMatch, cache)
           | Some result \<Rightarrow> (result, cache(searchKey title info \<mapsto> result))))"

subsection \<open>The exported entry point\<close>

datatype lookupError =
  InvalidAnilistId | NoAnimeInfo | NoTitle | NotFoundOnCatalog | NoEpisodes

record EpisodesResult =
  anilistId :: int
  catalogId :: string
  resultTitle :: string
  matchConfidence :: rat
  resultMethod :: string
  totalEpisodes :: nat

text \<open>
  \<open>getEpisodesForAnime\<close>: every \<open>throw\<close> of the source is an \<open>Inl\<close>; its \<open>catch\<close> logs and
  throws the same error again. The collaborators are the source lookup \<open>getAnimeInfo\<close>
  (\<open>None\<close> is its \<open>null\<close>), the catalog search, and \<open>getEpisodeIds\<close>, of which the number of
  episodes is kept.
\<close>

text \<open>\<open>animeInfo.title.english || animeInfo.title.romaji\<close>: the English title unless it is
  absent or empty, else the romaji title.\<close>

definition sourceTitle :: "HiAnimeInfo \<Rightarrow> string option" where
  "sourceTitle info =
     (case english info of
        Some t \<Rightarrow> if t \<noteq> [] then Some t else romaji info
      | None \<Rightarrow> romaji info)"

definition getEpisodesForAnime :: "(string \<Rightarrow> string \<Rightarrow> rat) \<Rightarrow> (int \<Rightarrow> HiAnimeInfo option)
    \<Rightarrow> (string \<Rightarrow> Item list option) \<Rightarrow> (string \<Rightarrow> int \<Rightarrow> nat) \<Rightarrow> searchCache \<Rightarrow> int
    \<Rightarrow> lookupError + EpisodesResult" where
  "getEpisodesForAnime sim getAnimeInfo search getEpisodeIds cache aid =
     (if aid \<le> 0 then Inl InvalidAnilistId
      else case getAnimeInfo aid of
             None \<Rightarrow> Inl NoAnimeInfo
           | Some info \<Rightarrow>
               (case sourceTitle info of
                  None \<Rightarrow> Inl NoTitle
                | Some title \<Rightarrow>
                    if title = [] then Inl NoTitle
                    else (case ident (fst (searchAnime sim search cache title info)) of
                            None \<Rightarrow> Inl NotFoundOnCatalog
                          | Some hid \<Rightarrow>
                              if hid = [] then Inl NotFoundOnCatalog
                              else if getEpisodeIds hid aid = 0 then Inl NoEpisodes
                              else Inr \<lparr>anilistId = aid, catalogId = hid, resultTitle = title,
                                        matchConfidence =
                                          score (fst (searchAnime sim search cache title info)),
                                        resultMethod =
                                          matchMethod (fst (searchAnime sim search cache title info)),
                                        totalEpisodes = getEpisodeIds hid aid\<rparr>)))"

section \<open>The match selector of the French catalog\<close>

subsection \<open>Season and part numbers of a title (\<open>extractSeasonInfo\<close>)\<close>

text \<open>\<open>/\bs(\d+)\b/i\<close>: the letter at the start of a word, digits, and the end of the word.
  The flag says that the previous character is a word character.\<close>

fun wordLetterNumber :: "char \<Rightarrow> bool \<Rightarrow> string \<Rightarrow> string option" where
  "wordLetterNumber l prevWord [] = None"
| "wordLetterNumber l prevWord (c # s) =
     (if \<not> prevWord \<and> asciiUpper c = asciiUpper l \<and> takeWhile isDigit s \<noteq> []
         \<and> boundaryAfter (dropWhile isDigit s)
      then Some (takeWhile isDigit s)
      else wordLetterNumber l (isWordChar c) s)"

text \<open>\<open>/part(?:ie)?\s*(\d+)/i\<close>: after \<open>part\<close> the letters \<open>ie\<close> may follow.\<close>

fun partNumber :: "string \<Rightarrow> string option" where
  "partNumber [] = None"
| "partNumber (c # s) =
     (let r = drop 4 (c # s);
          r' = (if startsWithCI r ''ie'' then drop 2 r else r);
          ds = takeWhile isDigit (dropWhile isSpace r')
      in if startsWithCI (c # s) ''part'' \<and> ds \<noteq> [] then Some ds else partNumber s)"

text \<open>\<open>/\bp(?:t)?\s*(\d+)\b/i\<close>.\<close>

fun ptNumber :: "bool \<Rightarrow> string \<Rightarrow> string option" where
  "ptNumber prevWord [] = None"
| "ptNumber prevWord (c # s) =
     (let r = (if startsWithCI s ''t'' then drop 1 s else s);
          body = dropWhile isSpace r;
          ds = takeWhile isDigit body
      in if \<not> prevWord \<and> asciiUpper c = CHR ''P'' \<and> ds \<noteq> []
            \<and> boundaryAfter (dropWhile isDigit body)
         then Some ds
         else ptNumber (isWordChar c) s)"

definition extractSeasonInfo :: "string \<Rightarrow> SeasonInfo" where
  "extractSeasonInfo title =
     \<lparr>season = map_option parseDigits
                 (orElse (keywordNumber ''saison'' title)
                   (orElse (keywordNumber ''season'' title)
                     (wordLetterNumber CHR ''s'' False title))),
      part = map_option parseDigits
               (orElse (partNumber title)
                 (orElse (ptNumber False title) (keywordNumber ''cour'' title)))\<rparr>"

subsection \<open>\<open>searchAnime\<close> of the French catalog\<close>

text \<open>An entry of the search answer: the slug of the link, the title (absent when the entry
  has no title element, which the loop skips) and the secondary titles.\<close>

record SamaItem =
  itemSlug :: string
  samaTitle :: "string option"
  samaSubtitle :: "string option"

record AnimeSamaInfo =
  sama_id :: nat
  fullTitle :: string
  baseTitle :: string
  sama_synonyms :: "string list"
  sama_episodes :: "nat option"
  sama_format :: string
  sama_seasonYear :: "nat option"

definition samaStep :: "(string \<Rightarrow> string \<Rightarrow> rat) \<Rightarrow> string \<Rightarrow> MatchResult \<Rightarrow> SamaItem
    \<Rightarrow> MatchResult" where
  "samaStep sim searchTitle bestMatch it =
     (case samaTitle it of
        None \<Rightarrow> bestMatch
      | Some t \<Rightarrow>
          (let sc = calculateTitleScoreSama sim searchTitle t (samaSubtitle it)
           in if sc > score bestMatch
              then \<lparr>score = sc, ident = Some (itemSlug it), matchMethod = ''base_title_match''\<rparr>
              else bestMatch))"

fun samaLoop :: "(string \<Rightarrow> string \<Rightarrow> rat) \<Rightarrow> (string \<Rightarrow> SamaItem list option) \<Rightarrow> MatchResult
    \<Rightarrow> string list \<Rightarrow> MatchResult option" where
  "samaLoop sim search bestMatch [] = Some bestMatch"
| "samaLoop sim search bestMatch (searchTitle # rest) =
     (case search searchTitle of
        None \<Rightarrow> None
      | Some items \<Rightarrow>
          (let best' = foldl (samaStep sim searchTitle) bestMatch items
           in if score best' > 85 / 100 then Some best'
              else samaLoop sim search best' rest))"

text \<open>
  The body of the \<open>try\<close> block. \<open>searchTitles\<close> is the list that steps 1 to 5 of the source
  build from the base title, the full title and the synonyms by string rewriting; the
  search is stated for every such list. \<open>direct\<close> is the collaborator
  \<open>tryDirectSlugAccess\<close>, which probes catalogue pages and catches its own failures.
\<close>

definition samaThreshold :: "AnimeSamaInfo \<Rightarrow> rat" where
  "samaThreshold info =
     (if sama_format info = ''OVA'' \<or> sama_format info = ''SPECIAL'' then 2 / 10 else 3 / 10)"

definition directTitles :: "string \<Rightarrow> AnimeSamaInfo \<Rightarrow> string list" where
  "directTitles base info =
     filter (\<lambda>t. t \<noteq> []) ([fullTitle info, base] @ take 30 (sama_synonyms info))"

definition searchAnimeSamaBody :: "(string \<Rightarrow> string \<Rightarrow> rat) \<Rightarrow> (string \<Rightarrow> SamaItem list option)
    \<Rightarrow> (string list \<Rightarrow> string option) \<Rightarrow> string list \<Rightarrow> string \<Rightarrow> AnimeSamaInfo
    \<Rightarrow> MatchResult option" where
  "searchAnimeSamaBody sim search direct searchTitles base info =
     (case samaLoop sim search noMatch searchTitles of
        None \<Rightarrow> None
      | Some bestMatch \<Rightarrow>
          (let fallback =
                 (if score bestMatch = 0 \<or> ident bestMatch = None
                  then (case direct (directTitles base info) of
                          None \<Rightarrow> None
                        | Some directSlug \<Rightarrow> if directSlug = [] then None else Some directSlug)
                  else None)
           in case fallback of
                Some directSlug \<Rightarrow>
                  Some \<lparr>score = 85 / 100, ident = Some directSlug,
                        matchMethod = ''direct_slug_fallback''\<rparr>
              | None \<Rightarrow>
                  Some (if score bestMatch > samaThreshold info then bestMatch else noMatch)))"

definition samaKey :: "string \<Rightarrow> AnimeSamaInfo \<Rightarrow> string" where
  "samaKey base info = base @ ''_'' @ natToString (sama_id info)"

definition searchAnimeSama :: "(string \<Rightarrow> string \<Rightarrow> rat) \<Rightarrow> (string \<Rightarrow> SamaItem list option)
    \<Rightarrow> (string list \<Rightarrow> string option) \<Rightarrow> searchCache \<Rightarrow> string list \<Rightarrow> string \<Rightarrow> AnimeSamaInfo
    \<Rightarrow> MatchResult \<times> searchCache" where
  "searchAnimeSama sim search direct cache searchTitles base info =
     (case cache (samaKey base info) of
        Some cached \<Rightarrow> (cached, cache)
      | None \<Rightarrow>
          (case searchAnimeSamaBody sim search direct searchTitles base info of
             None \<Rightarrow> (errorMatch, cache)
           | Some result \<Rightarrow> (result, cache(samaKey base info \<mapsto> result))))"

subsection \<open>The exported entry point of the French catalog\<close>

record SamaEpisodesResult =
  sama_anilistId :: int
  animesamaSlug :: string
  seasonSlugResult :: "string option"
  sama_matchConfidence :: rat
  sama_matchMethod :: string
  seasonInfoResult :: SeasonInfo
  listedSeasons :: "AnimeSamaSeason list"

text \<open>\<open>getEpisodesForAnime\<close> of the French catalog; \<open>seasonsOf\<close> is the answer of the catalogue
  page for a slug, as \<open>getAvailableSeasonsWithMatch\<close> takes it.\<close>

definition getEpisodesForAnimeSama :: "(string \<Rightarrow> string \<Rightarrow> rat) \<Rightarrow> (int \<Rightarrow> AnimeSamaInfo option)
    \<Rightarrow> (string \<Rightarrow> SamaItem list option) \<Rightarrow> (string list \<Rightarrow> string option)
    \<Rightarrow> (string \<Rightarrow> AnimeSamaSeason list option) \<Rightarrow> searchCache \<Rightarrow> (AnimeSamaInfo \<Rightarrow> string list)
    \<Rightarrow> int \<Rightarrow> lookupError + SamaEpisodesResult" where
  "getEpisodesForAnimeSama sim getAnimeInfo search direct seasonsOf cache searchTitlesOf aid =
     (if aid \<le> 0 then Inl InvalidAnilistId
      else case getAnimeInfo aid of
             None \<Rightarrow> Inl NoAnimeInfo
           | Some info \<Rightarrow>
               (let searchResult =
                      fst (searchAnimeSama sim search direct cache (searchTitlesOf info)
                             (baseTitle info) info)
                in case ident searchResult of
                     None \<Rightarrow> Inl NotFoundOnCatalog
                   | Some sl \<Rightarrow>
                       if sl = [] then Inl NotFoundOnCatalog
                       else
                        (let found = getAvailableSeasonsWithMatch (seasonsOf sl)
                                       (case sama_episodes info of None \<Rightarrow> 0 | Some n \<Rightarrow> n)
                                       (extractSeasonInfo (fullTitle info)) (fullTitle info)
                         in Inr \<lparr>sama_anilistId = aid, animesamaSlug = sl,
                                 seasonSlugResult = bestSeasonMatch found,
                                 sama_matchConfidence = score searchResult,
                                 sama_matchMethod = matchMethod searchResult,
                                 seasonInfoResult = extractSeasonInfo (fullTitle info),
                                 listedSeasons = seasons found\<rparr>)))"

text \<open>Example inputs: the single-word query of the specification against a compound title,
  and a French-catalog source whose search finds nothing.\<close>

definition overlordInfo :: HiAnimeInfo where
  "overlordInfo =
     \<lparr>anime_id = 1, english = Some ''Overlord'', romaji = Some ''Overlord'', synonyms = [],
      anime_episodes = Some 13, format = ''TV'', seasonYear = None, anime_duration = None\<rparr>"

definition overlordWars :: Item where
  "overlordWars =
     \<lparr>hianimeTitle = ''Overlord Wars'', hianimeId = Some ''overlord-wars-1'', jname = None,
      formatText = ''TV'', episodesCount = 13, duration = None\<rparr>"

definition narutoInfo :: AnimeSamaInfo where
  "narutoInfo =
     \<lparr>sama_id = 20, fullTitle = ''Naruto'', baseTitle = ''Naruto'', sama_synonyms = [],
      sama_episodes = Some 220, sama_format = ''TV'', sama_seasonYear = Some 2002\<rparr>"

text \<open>A source whose title names a season, a source that has a romaji title only, and
  answers of the two catalogs that list one unrelated entry.\<close>

definition overlordTwoInfo :: HiAnimeInfo where
  "overlordTwoInfo =
     \<lparr>anime_id = 3, english = Some ''Overlord Season 2'', romaji = Some ''Overlord II'',
      synonyms = [], anime_episodes = Some 13, format = ''TV'', seasonYear = Some 2018,
      anime_duration = None\<rparr>"

definition romajiOnlyInfo :: HiAnimeInfo where
  "romajiOnlyInfo =
     \<lparr>anime_id = 2, english = None, romaji = Some ''Overlord'', synonyms = [],
      anime_episodes = Some 13, format = ''TV'', seasonYear = None, anime_duration = None\<rparr>"

definition bleachMovie :: Item where
  "bleachMovie =
     \<lparr>hianimeTitle = ''Bleach'', hianimeId = Some ''bleach-806'', jname = None,
      formatText = ''Movie'', episodesCount = 1, duration = None\<rparr>"

definition bleachEntry :: SamaItem where
  "bleachEntry = \<lparr>itemSlug = ''bleach'', samaTitle = Some ''Bleach'', samaSubtitle = None\<rparr>"


text \<open>A source of twelve episodes and two candidates: one a letter away in title with
  thirteen episodes, one with the source's words in a longer title and twelve episodes.\<close>

definition monsterInfo :: HiAnimeInfo where
  "monsterInfo =
     \<lparr>anime_id = 7, english = Some ''Monster Girl'', romaji = None, synonyms = [],
      anime_episodes = Some 12, format = ''TV'', seasonYear = None, anime_duration = None\<rparr>"

definition monsterNear :: Item where
  "monsterNear =
     \<lparr>hianimeTitle = ''Monster Girls'', hianimeId = Some ''monster-girls-100'', jname = None,
      formatText = ''TV'', episodesCount = 13, duration = None\<rparr>"

definition monsterExact :: Item where
  "monsterExact =
     \<lparr>hianimeTitle = ''Monster Girl Encyclopedia Adventures'',
      hianimeId = Some ''monster-girl-encyclopedia-200'', jname = None,
      formatText = ''TV'', episodesCount = 12, duration = None\<rparr>"

text \<open>The pool entries that the loop builds for them.\<close>

definition nearEntry :: SeriesMatch where
  "nearEntry =
     \<lparr>m_title = ''Monster Girls'', m_id = ''monster-girls-100'', m_score = 6 / 5,
      isMovie = False, isTV = True, isOVA = False, isSpecial = False, m_episodes = 13,
      m_duration = None, m_jname = None, years = [], seasonNum = None\<rparr>"

definition exactEntry :: SeriesMatch where
  "exactEntry =
     \<lparr>m_title = ''Monster Girl Encyclopedia Adventures'',
      m_id = ''monster-girl-encyclopedia-200'', m_score = 549 / 460,
      isMovie = False, isTV = True, isOVA = False, isSpecial = False, m_episodes = 12,
      m_duration = None, m_jname = None, years = [], seasonNum = None\<rparr>"

definition monsterBest :: MatchResult where
  "monsterBest =
     \<lparr>score = 6 / 5, ident = Some ''monster-girls-100'', matchMethod = ''title_match''\<rparr>"

text \<open>The invariant of the loop state \<open>(bestMatch, seriesMatches)\<close>: the running best is
  the initial result or carries the method \<open>title_match\<close>, and every pool entry scores above
  0.5 and no more than the running best.\<close>

definition poolInv :: "MatchResult \<times> SeriesMatch list \<Rightarrow> bool" where
  "poolInv st =
     ((matchMethod (fst st) = ''title_match'' \<or> fst st = noMatch)
      \<and> (\<forall>m\<in>set (snd st). 1 / 2 < m_score m \<and> m_score m \<le> score (fst st)))"
section \<open>Properties of the season resolver\<close>

lemma find_in_set: "find P xs = Some x \<Longrightarrow> x \<in> set xs"
  by (induction xs) (auto split: if_splits)

lemma find_holds: "find P xs = Some x \<Longrightarrow> P x"
  by (induction xs) (auto split: if_splits)

lemma find_exists: "x \<in> set xs \<Longrightarrow> P x \<Longrightarrow> \<exists>y. find P xs = Some y"
  by (induction xs) auto

lemma closestLoop_in_set:
  "fst (closestLoop t (acc, d) ss) = Some e \<Longrightarrow> e \<in> set ss \<or> acc = Some e"
  by (induction ss arbitrary: acc d) (auto split: if_splits)

lemma seasonsToSearch_subset: "set (seasonsToSearch cands t) \<subseteq> set cands"
  by (auto simp: seasonsToSearch_def mainSeasons_def)

lemma seasonsToSearch_nonempty: "cands \<noteq> [] \<Longrightarrow> seasonsToSearch cands t \<noteq> []"
  by (auto simp: seasonsToSearch_def)

lemma bySeasonAndPart_in_set: "bySeasonAndPart ss si = Some e \<Longrightarrow> e \<in> set ss"
  by (auto simp: bySeasonAndPart_def split: option.splits dest: find_in_set)

lemma byPartOnly_in_set: "byPartOnly ss si = Some e \<Longrightarrow> e \<in> set ss"
  by (auto simp: byPartOnly_def split: option.splits dest: find_in_set)

lemma byTitleSequel_in_set: "byTitleSequel ss title = Some e \<Longrightarrow> e \<in> set ss"
  by (auto simp: byTitleSequel_def split: option.splits if_splits dest: find_in_set)

lemma byEpisodeCount_in_set: "byEpisodeCount ss t = Some e \<Longrightarrow> e \<in> set ss"
  by (auto simp: byEpisodeCount_def split: option.splits if_splits
           dest: find_in_set closestLoop_in_set)

lemma pickSeason_in_set: "pickSeason ss t si title = Some e \<Longrightarrow> e \<in> set ss"
  by (auto simp: pickSeason_def orElse_def split: option.splits list.splits
           dest: bySeasonAndPart_in_set byPartOnly_in_set byTitleSequel_in_set
                 byEpisodeCount_in_set)

lemma pickSeason_total: "ss \<noteq> [] \<Longrightarrow> pickSeason ss t si title \<noteq> None"
  by (auto simp: pickSeason_def orElse_def split: option.splits list.splits)

lemma findBestSeason_None_iff: "findBestSeason cands t si title = None \<longleftrightarrow> cands = []"
  using pickSeason_total [OF seasonsToSearch_nonempty, of cands t t si title]
  by (auto simp: findBestSeason_def)

lemma findBestSeason_listed:
  assumes "findBestSeason cands t si title = Some slug"
  shows "slug \<in> seasonSlug ` set cands"
proof -
  from assms obtain e where "pickSeason (seasonsToSearch cands t) t si title = Some e"
    and "slug = seasonSlug e"
    by (auto simp: findBestSeason_def split: if_splits)
  then show ?thesis
    using pickSeason_in_set seasonsToSearch_subset by blast
qed

text \<open>The caller reports no season match exactly when it lists no season.\<close>

lemma getAvailableSeasonsWithMatch_absent:
  "bestSeasonMatch (getAvailableSeasonsWithMatch fetched t si title) = None \<longleftrightarrow>
   seasons (getAvailableSeasonsWithMatch fetched t si title) = []"
  by (cases fetched) (simp_all add: getAvailableSeasonsWithMatch_def findBestSeason_None_iff)

text \<open>An entry that passes the film/OAV/Kai filter, or any entry when the source has at most
  five episodes, is in the list the rules search.\<close>

lemma unmarked_in_seasonsToSearch:
  assumes "e \<in> set cands"
    and "t \<le> 5 \<or> (\<not> includesStr (seasonSlug e) ''film'' \<and> \<not> includesStr (seasonSlug e) ''oav''
           \<and> \<not> includesStr (seasonSlug e) ''kai'')"
  shows "e \<in> set (seasonsToSearch cands t)"
proof (cases "t \<le> 5")
  case True
  with assms(1) show ?thesis by (auto simp: seasonsToSearch_def mainSeasons_def)
next
  case False
  with assms have "e \<in> set (mainSeasons cands t)" by (auto simp: mainSeasons_def)
  then show ?thesis by (auto simp: seasonsToSearch_def)
qed

text \<open>A season is listed for the resolver only when episodes were found for it.\<close>

lemma getAvailableSeasonsWithMatch_listed:
  "set (seasons (getAvailableSeasonsWithMatch fetched t si title))
     = (case fetched of None \<Rightarrow> {} | Some entries \<Rightarrow> {e \<in> set entries. episodeCount e > 0})"
  by (cases fetched) (auto simp: getAvailableSeasonsWithMatch_def)

lemma filter_positive_empty:
  "filter (\<lambda>s. episodeCount s > 0) entries = [] \<longleftrightarrow> (\<forall>e\<in>set entries. episodeCount e = 0)"
  by (induction entries) auto

lemma getAvailableSeasonsWithMatch_None_iff:
  "bestSeasonMatch (getAvailableSeasonsWithMatch fetched t si title) = None \<longleftrightarrow>
   (case fetched of None \<Rightarrow> True | Some entries \<Rightarrow> \<forall>e\<in>set entries. episodeCount e = 0)"
  by (cases fetched)
     (simp_all add: getAvailableSeasonsWithMatch_def findBestSeason_None_iff filter_positive_empty)

lemma getAvailableSeasonsWithMatch_Some:
  assumes "bestSeasonMatch (getAvailableSeasonsWithMatch fetched t si title) = Some slug"
  shows "\<exists>entries. fetched = Some entries
           \<and> slug \<in> seasonSlug ` {e \<in> set entries. episodeCount e > 0}"
proof (cases fetched)
  case None
  with assms show ?thesis by (simp add: getAvailableSeasonsWithMatch_def)
next
  case (Some entries)
  with assms
  have "findBestSeason (filter (\<lambda>s. episodeCount s > 0) entries) t si title = Some slug"
    by (simp add: getAvailableSeasonsWithMatch_def)
  from findBestSeason_listed [OF this] Some show ?thesis by auto
qed

text \<open>
  Claim C10, as the code has it. For every non-empty list of season candidates the resolver
  returns the \<open>seasonSlug\<close> of one of the listed candidates; it returns nothing only for
  the empty list. The list it is given holds the seasons of the catalogue page for which
  \<open>getEpisodeCount\<close> found at least one episode, and no season when the page could not
  be fetched. So the season match is absent exactly when the page could not be fetched or
  no season it enumerates has a positive episode count; a match that is present is the
  slug of an enumerated season with a positive episode count.
\<close>

theorem findBestSeason_selects_listed:
  "(findBestSeason cands t si title = None \<longleftrightarrow> cands = []) \<and>
   (\<forall>slug. findBestSeason cands t si title = Some slug \<longrightarrow> slug \<in> seasonSlug ` set cands) \<and>
   (bestSeasonMatch (getAvailableSeasonsWithMatch fetched t si title) = None \<longleftrightarrow>
      (case fetched of None \<Rightarrow> True | Some entries \<Rightarrow> \<forall>e\<in>set entries. episodeCount e = 0)) \<and>
   (\<forall>slug. bestSeasonMatch (getAvailableSeasonsWithMatch fetched t si title) = Some slug \<longrightarrow>
      (\<exists>entries. fetched = Some entries
         \<and> slug \<in> seasonSlug ` {e \<in> set entries. episodeCount e > 0}))"
proof (intro conjI allI impI)
  show "findBestSeason cands t si title = None \<longleftrightarrow> cands = []"
    by (rule findBestSeason_None_iff)
next
  fix slug
  assume "findBestSeason cands t si title = Some slug"
  then show "slug \<in> seasonSlug ` set cands"
    by (rule findBestSeason_listed)
next
  show "bestSeasonMatch (getAvailableSeasonsWithMatch fetched t si title) = None \<longleftrightarrow>
      (case fetched of None \<Rightarrow> True | Some entries \<Rightarrow> \<forall>e\<in>set entries. episodeCount e = 0)"
    by (rule getAvailableSeasonsWithMatch_None_iff)
next
  fix slug
  assume "bestSeasonMatch (getAvailableSeasonsWithMatch fetched t si title) = Some slug"
  then show "\<exists>entries. fetched = Some entries
         \<and> slug \<in> seasonSlug ` {e \<in> set entries. episodeCount e > 0}"
    by (rule getAvailableSeasonsWithMatch_Some)
qed

lemma exampleSeasons_result:
  "findBestSeason exampleSeasons 12 exampleSeasonInfo ''Title Season 2 Part 2'' = Some ''saison1''"
  by code_simp

lemma exampleSeasons_page_result:
  "bestSeasonMatch (getAvailableSeasonsWithMatch (Some exampleSeasons) 12 exampleSeasonInfo
                      ''Title Season 2 Part 2'') = Some ''saison1''"
  by code_simp

theorem findBestSeason_selects_listed_witness:
  "findBestSeason exampleSeasons 12 exampleSeasonInfo ''Title Season 2 Part 2'' = Some ''saison1'' \<and>
   ''saison1'' \<in> seasonSlug ` set exampleSeasons \<and>
   bestSeasonMatch (getAvailableSeasonsWithMatch (Some exampleSeasons) 12 exampleSeasonInfo
                      ''Title Season 2 Part 2'') = Some ''saison1'' \<and>
   (\<exists>entries. Some exampleSeasons = Some entries
      \<and> ''saison1'' \<in> seasonSlug ` {e \<in> set entries. episodeCount e > 0})"
proof -
  note inst = findBestSeason_selects_listed
               [of exampleSeasons 12 exampleSeasonInfo "''Title Season 2 Part 2''"
                   "Some exampleSeasons"]
  have r: "findBestSeason exampleSeasons 12 exampleSeasonInfo ''Title Season 2 Part 2''
             = Some ''saison1''"
    by (rule exampleSeasons_result)
  have a: "\<forall>slug. findBestSeason exampleSeasons 12 exampleSeasonInfo ''Title Season 2 Part 2''
                 = Some slug \<longrightarrow> slug \<in> seasonSlug ` set exampleSeasons"
    using inst by (rule conjunct2 [THEN conjunct1])
  have m: "''saison1'' \<in> seasonSlug ` set exampleSeasons"
    by (rule a [rule_format, OF r])
  have q: "bestSeasonMatch (getAvailableSeasonsWithMatch (Some exampleSeasons) 12
             exampleSeasonInfo ''Title Season 2 Part 2'') = Some ''saison1''"
    by (rule exampleSeasons_page_result)
  have b: "\<forall>slug. bestSeasonMatch (getAvailableSeasonsWithMatch (Some exampleSeasons) 12
                   exampleSeasonInfo ''Title Season 2 Part 2'') = Some slug \<longrightarrow>
             (\<exists>entries. Some exampleSeasons = Some entries
                \<and> slug \<in> seasonSlug ` {e \<in> set entries. episodeCount e > 0})"
    using inst by (rule conjunct2 [THEN conjunct2, THEN conjunct2])
  have e: "\<exists>entries. Some exampleSeasons = Some entries
             \<and> ''saison1'' \<in> seasonSlug ` {e \<in> set entries. episodeCount e > 0}"
    by (rule b [rule_format, OF q])
  from r m q e show ?thesis by (intro conjI)
qed

text \<open>
  The last clause of the claim as the specification words it (no season match only when
  the catalog enumerates no seasons) fails: for a page that enumerates two seasons whose
  episode lookups both return 0, no season is listed and the match is absent.
\<close>

theorem absent_season_counterexample:
  "emptyPage \<noteq> [] \<and>
   seasons (getAvailableSeasonsWithMatch (Some emptyPage) 12 exampleSeasonInfo
              ''Title Season 2 Part 2'') = [] \<and>
   bestSeasonMatch (getAvailableSeasonsWithMatch (Some emptyPage) 12 exampleSeasonInfo
                      ''Title Season 2 Part 2'') = None"
  by (simp add: getAvailableSeasonsWithMatch_def emptyPage_def findBestSeason_def)

text \<open>
  Claim C4, as the code has it. When the title gave both a season and a part number and
  the list the rules search (the candidates left by the film/OAV/Kai filter) contains an
  entry whose slug encodes exactly these two numbers, the resolver returns the slug of
  the first such entry of that list: the exact rule runs before every other rule, and no
  episode count takes part in it. The numbers of the title and of the slugs are safe
  integers, for which the comparison of the source is the comparison of the numbers.
\<close>

theorem exact_season_part_selected:
  assumes "season si = Some sn" and "part si = Some pn"
    and "e \<in> set (seasonsToSearch cands t)" and "exactSeasonPart sn pn e"
    and "safeInteger sn" and "safeInteger pn"
    and "\<forall>c\<in>set cands. slugNumbersSafe c"
  shows "\<exists>e'. find (exactSeasonPart sn pn) (seasonsToSearch cands t) = Some e' \<and>
              exactSeasonPart sn pn e' \<and>
              findBestSeason cands t si title = Some (seasonSlug e')"
proof -
  from assms(3,4) obtain e' where f: "find (exactSeasonPart sn pn) (seasonsToSearch cands t) = Some e'"
    using find_exists by fastforce
  have "cands \<noteq> []"
    using assms(3) seasonsToSearch_subset by fastforce
  moreover have "bySeasonAndPart (seasonsToSearch cands t) si = Some e'"
    using assms(1,2) f by (simp add: bySeasonAndPart_def)
  ultimately have "findBestSeason cands t si title = Some (seasonSlug e')"
    by (simp add: findBestSeason_def pickSeason_def orElse_def)
  with f find_holds [OF f] show ?thesis by blast
qed

lemma exampleSeasons_exact_low:
  "exactSeasonPart 2 2 (exampleSeasons ! 1) \<and> exampleSeasons ! 1 \<in> set (seasonsToSearch exampleSeasons 5)"
  by code_simp

lemma exampleSeasons_numbers:
  "map (\<lambda>c. map_option (\<lambda>(g1, g2). (parseDigits g1, map_option parseDigits g2))
                (saisonMatch (seasonSlug c))) exampleSeasons
     = [Some (1, None), Some (2, Some 2)]"
  by code_simp

lemma exampleSeasons_safe: "\<forall>c\<in>set exampleSeasons. slugNumbersSafe c"
proof -
  let ?f = "\<lambda>c. map_option (\<lambda>(g1, g2). (parseDigits g1, map_option parseDigits g2))
                   (saisonMatch (seasonSlug c))"
  let ?P = "\<lambda>r. case r of
                   None \<Rightarrow> True
                 | Some (n1, n2) \<Rightarrow>
                     safeInteger n1 \<and> (case n2 of None \<Rightarrow> True | Some d \<Rightarrow> safeInteger d)"
  have "list_all ?P (map ?f exampleSeasons)"
    unfolding exampleSeasons_numbers by (simp add: safeInteger_def)
  then have "\<forall>c\<in>set exampleSeasons. ?P (?f c)"
    by (simp add: list_all_iff)
  then show ?thesis
    by (auto simp: slugNumbersSafe_def split: option.splits prod.splits)
qed

theorem exact_season_part_selected_witness:
  "\<exists>e'. find (exactSeasonPart 2 2) (seasonsToSearch exampleSeasons 5) = Some e' \<and>
         exactSeasonPart 2 2 e' \<and>
         findBestSeason exampleSeasons 5 exampleSeasonInfo ''Title Season 2 Part 2''
           = Some (seasonSlug e')"
proof -
  have s: "season exampleSeasonInfo = Some 2" and p: "part exampleSeasonInfo = Some 2"
    by (simp_all add: exampleSeasonInfo_def)
  from exampleSeasons_exact_low
  have x: "exactSeasonPart 2 2 (exampleSeasons ! 1)"
    and m: "exampleSeasons ! 1 \<in> set (seasonsToSearch exampleSeasons 5)"
    by (rule conjunct1, rule conjunct2)
  have n: "safeInteger 2"
    by (simp add: safeInteger_def)
  show ?thesis
    by (rule exact_season_part_selected [OF s p m x n n exampleSeasons_safe])
qed

text \<open>
  The claim as the specification words it fails: with twelve source episodes the Kai entry
  is filtered out before the rules run, so the list contains an entry that encodes season
  2 part 2 and the resolver still returns the entry with the equal episode count.
\<close>

theorem exact_season_part_counterexample:
  "exampleSeasons ! 1 \<in> set exampleSeasons \<and>
   exactSeasonPart 2 2 (exampleSeasons ! 1) \<and>
   season exampleSeasonInfo = Some 2 \<and> part exampleSeasonInfo = Some 2 \<and>
   findBestSeason exampleSeasons 12 exampleSeasonInfo ''Title Season 2 Part 2'' = Some ''saison1'' \<and>
   byEpisodeCount (seasonsToSearch exampleSeasons 12) 12 = Some (exampleSeasons ! 0) \<and>
   seasonSlug (exampleSeasons ! 1) \<noteq> ''saison1''"
  by code_simp

section \<open>Properties of the split-cour flag\<close>

lemma dateScore_split:
  assumes "dateScore animeInfo start nd s = Some (sc, True)"
  shows "\<exists>d sy sm sd n. air_date s = Some d \<and> parseDate d = Some (sy, sm, sd) \<and>
           episodes animeInfo = Some n \<and> n \<noteq> 0 \<and> episode_count s \<noteq> 0 \<and>
           splitCourDetected (monthsBetween start (sy, sm)) n (episode_count s)"
  using assms
  by (auto simp: dateScore_def Let_def split: option.splits if_splits prod.splits)

text \<open>The loop keeps the flag tied to the best season: when it ends with the flag set, the best
  season is one whose own round set it (or the flag and season it started with).\<close>

lemma dateLoop_flag:
  assumes "dateLoop animeInfo start nd (bm, bs, fl) ss = (bm', bs', True)"
  shows "(\<exists>s sc. bm' = Some s \<and> s \<in> set ss \<and> dateScore animeInfo start nd s = Some (sc, True))
         \<or> (fl \<and> bm' = bm)"
  using assms
proof (induction ss arbitrary: bm bs fl)
  case Nil
  then show ?case by simp
next
  case (Cons s ss)
  show ?case
  proof (cases "dateScore animeInfo start nd s")
    case None
    with Cons.prems have "dateLoop animeInfo start nd (bm, bs, fl) ss = (bm', bs', True)"
      by simp
    from Cons.IH [OF this] show ?thesis by auto
  next
    case (Some p)
    obtain sc sp where p: "p = (sc, sp)" by (cases p)
    show ?thesis
    proof (cases "sc > bs")
      case True
      with Cons.prems Some p
      have "dateLoop animeInfo start nd (Some s, sc, sp) ss = (bm', bs', True)"
        by simp
      from Cons.IH [OF this] Some p show ?thesis by auto
    next
      case False
      with Cons.prems Some p
      have "dateLoop animeInfo start nd (bm, bs, fl) ss = (bm', bs', True)"
        by simp
      from Cons.IH [OF this] show ?thesis by auto
    qed
  qed
qed

lemma detectByDate_flag:
  assumes "detectByDate animeInfo nd ss = Some (best, True)"
  shows "\<exists>start sc. startYearMonth animeInfo = Some start \<and> best \<in> set ss \<and>
           dateScore animeInfo start nd best = Some (sc, True)"
proof -
  from assms obtain start bs
    where st: "startYearMonth animeInfo = Some start"
      and lp: "dateLoop animeInfo start nd (None, 0, False) ss = (Some best, bs, True)"
    by (auto simp: detectByDate_def split: option.splits prod.splits if_splits)
  from dateLoop_flag [OF lp] st show ?thesis by auto
qed

text \<open>
  Claim C5. A detected season carries \<open>splitCourPart = 2\<close> only when it is a season of the
  list whose air date is 3 to 6 months away from the source's start date and for which the
  ratio of the source's episode count to the season's lies between 0.3 and 0.7. Outside
  either bound the flag is not set.
\<close>

theorem split_cour_flag_only_within_bounds:
  assumes "detectTMDBSeason fetched animeInfo animeYear = Some r"
    and "splitCourPart r = Some 2"
  shows "\<exists>ss s start d sy sm sd n.
           fetched = Some ss \<and> s \<in> set ss \<and>
           seasonNumber r = season_number s \<and> seasonName r = tmdb_name s \<and>
           startYearMonth animeInfo = Some start \<and>
           air_date s = Some d \<and> parseDate d = Some (sy, sm, sd) \<and>
           episodes animeInfo = Some n \<and> n \<noteq> 0 \<and> episode_count s \<noteq> 0 \<and>
           3 \<le> \<bar>monthsBetween start (sy, sm)\<bar> \<and> \<bar>monthsBetween start (sy, sm)\<bar> \<le> 6 \<and>
           (3 / 10 :: rat) \<le> of_nat n / of_nat (episode_count s) \<and>
           (of_nat n / of_nat (episode_count s) :: rat) \<le> 7 / 10"
proof -
  from assms(1) obtain ss where f: "fetched = Some ss"
    by (auto simp: detectTMDBSeason_def split: option.splits)
  define nd where "nd = normalizeDescription (case description animeInfo of None \<Rightarrow> [] | Some d \<Rightarrow> d)"
  from assms f obtain best where b: "detectByDate animeInfo nd ss = Some (best, True)"
    and r: "seasonNumber r = season_number best" "seasonName r = tmdb_name best"
    by (auto simp: detectTMDBSeason_def Let_def nd_def split: option.splits if_splits prod.splits)
  from detectByDate_flag [OF b] obtain start sc
    where st: "startYearMonth animeInfo = Some start" and m: "best \<in> set ss"
      and ds: "dateScore animeInfo start nd best = Some (sc, True)"
    by auto
  from dateScore_split [OF ds] obtain d sy sm sd n
    where e: "air_date best = Some d" "parseDate d = Some (sy, sm, sd)"
      "episodes animeInfo = Some n" "n \<noteq> 0" "episode_count best \<noteq> 0"
      "splitCourDetected (monthsBetween start (sy, sm)) n (episode_count best)"
    by blast
  from e(6) have "3 \<le> \<bar>monthsBetween start (sy, sm)\<bar>" "\<bar>monthsBetween start (sy, sm)\<bar> \<le> 6"
    "(3 / 10 :: rat) \<le> of_nat n / of_nat (episode_count best)"
    "(of_nat n / of_nat (episode_count best) :: rat) \<le> 7 / 10"
    by (simp_all add: splitCourDetected_def Let_def)
  with f m r st e(1-5) show ?thesis by blast
qed

lemma exampleTMDB_result:
  "detectTMDBSeason (Some exampleTMDB) exampleMedia (Some 2020)
     = Some \<lparr>seasonNumber = 1, seasonName = ''Season 1'', splitCourPart = Some 2\<rparr>"
  by code_simp

theorem split_cour_flag_only_within_bounds_witness:
  "\<exists>ss s start d sy sm sd n.
     Some exampleTMDB = Some ss \<and> s \<in> set ss \<and>
     seasonNumber \<lparr>seasonNumber = 1, seasonName = ''Season 1'', splitCourPart = Some 2\<rparr>
       = season_number s \<and>
     seasonName \<lparr>seasonNumber = 1, seasonName = ''Season 1'', splitCourPart = Some 2\<rparr>
       = tmdb_name s \<and>
     startYearMonth exampleMedia = Some start \<and>
     air_date s = Some d \<and> parseDate d = Some (sy, sm, sd) \<and>
     episodes exampleMedia = Some n \<and> n \<noteq> 0 \<and> episode_count s \<noteq> 0 \<and>
     3 \<le> \<bar>monthsBetween start (sy, sm)\<bar> \<and> \<bar>monthsBetween start (sy, sm)\<bar> \<le> 6 \<and>
     (3 / 10 :: rat) \<le> of_nat n / of_nat (episode_count s) \<and>
     (of_nat n / of_nat (episode_count s) :: rat) \<le> 7 / 10"
proof -
  have p: "splitCourPart \<lparr>seasonNumber = 1, seasonName = ''Season 1'', splitCourPart = Some 2\<rparr>
             = Some 2"
    by simp
  show ?thesis
    by (rule split_cour_flag_only_within_bounds [OF exampleTMDB_result p])
qed

section \<open>Properties of the normalizer\<close>

lemma toLowerChar_not_upper: "\<not> isUpperAscii (toLowerChar c)"
  by (auto simp: toLowerChar_def isUpperAscii_def Let_def)

lemma toLowerChar_idem: "toLowerChar (toLowerChar c) = toLowerChar c"
  by (auto simp: toLowerChar_def Let_def)

lemma toLowerCase_idem: "toLowerCase (toLowerCase s) = toLowerCase s"
  by (simp add: toLowerCase_def toLowerChar_idem)

lemma normalChar_lower: "normalChar c \<Longrightarrow> toLowerChar c = c"
  by (auto simp: normalChar_def toLowerChar_def isLowerAscii_def isDigit_def Let_def)

lemma normalChar_word_or_space:
  "(isWordChar c \<or> isSpace c) \<Longrightarrow> \<not> isUpperAscii c \<Longrightarrow> \<not> isSpace c \<or> c = CHR '' '' \<Longrightarrow> normalChar c"
  by (auto simp: normalChar_def isWordChar_def)

lemma set_replaceChar: "set (replaceChar c r s) \<subseteq> set s \<union> set r"
  by (induction s) (auto simp: replaceChar_def)

lemma set_collapseFrom:
  "x \<in> set (collapseFrom b s) \<Longrightarrow> x = CHR '' '' \<or> (x \<in> set s \<and> \<not> isSpace x)"
  by (induction s arbitrary: b) (auto split: if_splits)

lemma set_trim: "set (trim s) \<subseteq> set s"
proof -
  have "set (dropWhile isSpace (rev (dropWhile isSpace s))) \<subseteq> set (rev (dropWhile isSpace s))"
    by (rule set_dropWhileD [THEN subsetI])
  also have "\<dots> \<subseteq> set s"
    using set_dropWhileD [of _ isSpace s] by auto
  finally show ?thesis by (simp add: trim_def)
qed

lemma set_removeYears: "set (removeYears b s) \<subseteq> set s"
proof (induction b s rule: removeYears.induct)
  case (1 prevWord)
  then show ?case by simp
next
  case (2 prevWord c s)
  then show ?case
    using set_drop_subset [of 3 s] by (auto split: if_splits)
qed

lemma normalizeText_chars:
  assumes "c \<in> set (normalizeText x b)"
  shows "normalChar c"
proof -
  define t where "t = replaceChar (CHR 0xD7) ''x''
                    (replaceChar (CHR 0xBD) ''0.5''
                      (replaceChar CHR ''&'' ''and'' (toLowerCase x)))"
  define u where "u = filter (\<lambda>c. isWordChar c \<or> isSpace c) (filter (\<lambda>c. c \<noteq> CHR 0x27) t)"
  have t: "\<not> isUpperAscii a" if "a \<in> set t" for a
  proof -
    from that have "a \<in> set (replaceChar (CHR 0xBD) ''0.5''
                         (replaceChar CHR ''&'' ''and'' (toLowerCase x))) \<or> a \<in> set ''x''"
      unfolding t_def using set_replaceChar [of "CHR 0xD7" "''x''"] by blast
    then have "a \<in> set (replaceChar CHR ''&'' ''and'' (toLowerCase x)) \<or> a \<in> set ''0.5''
                 \<or> a \<in> set ''x''"
      using set_replaceChar [of "CHR 0xBD" "''0.5''"] by blast
    then have "a \<in> set (toLowerCase x) \<or> a \<in> set ''and'' \<or> a \<in> set ''0.5'' \<or> a \<in> set ''x''"
      using set_replaceChar [of "CHR ''&''" "''and''"] by blast
    then show ?thesis
    proof (elim disjE)
      assume "a \<in> set (toLowerCase x)"
      then show ?thesis by (auto simp: toLowerCase_def toLowerChar_not_upper)
    qed (auto simp: isUpperAscii_def)
  qed
  have u: "(isWordChar a \<or> isSpace a) \<and> \<not> isUpperAscii a" if "a \<in> set u" for a
    using that t by (auto simp: u_def)
  have n: "normalChar a" if "a \<in> set (trim (collapseSpaces u))" for a
  proof -
    from that set_trim have "a \<in> set (collapseFrom False u)"
      unfolding collapseSpaces_def by blast
    from set_collapseFrom [OF this] show ?thesis
    proof
      assume "a = CHR '' ''"
      then show ?thesis by (simp add: normalChar_def)
    next
      assume "a \<in> set u \<and> \<not> isSpace a"
      with u [of a] show ?thesis by (auto simp: normalChar_def isWordChar_def)
    qed
  qed
  have "c \<in> set (trim (collapseSpaces u))"
  proof (cases b)
    case False
    with assms show ?thesis by (simp add: normalizeText_def t_def u_def)
  next
    case True
    with assms have "c \<in> set (trim (removeYears False (trim (collapseSpaces u))))"
      by (simp add: normalizeText_def t_def u_def)
    with set_trim set_removeYears show ?thesis by blast
  qed
  then show ?thesis by (rule n)
qed

lemma normalizeText_lower: "toLowerCase (normalizeText x b) = normalizeText x b"
  unfolding toLowerCase_def
  by (rule map_idI) (auto dest: normalizeText_chars normalChar_lower)

text \<open>The normalizer is case-insensitive, for either value of the flag.\<close>

lemma normalizeText_case_insensitive:
  "normalizeText (toLowerCase x) b = normalizeText x b"
  by (simp add: normalizeText_def toLowerCase_idem)

lemma set_splitOn_all: "\<forall>w\<in>set (splitOn sep s). set w \<subseteq> set s"
proof (induction s)
  case Nil
  then show ?case by simp
next
  case (Cons c s)
  show ?case
  proof (cases "splitOn sep s")
    case Nil
    then show ?thesis by simp
  next
    case (Cons w ws)
    with Cons.IH show ?thesis by auto
  qed
qed

lemma set_splitOn: "w \<in> set (splitOn sep s) \<Longrightarrow> set w \<subseteq> set s"
  using set_splitOn_all by blast

lemma splitOn_nonempty: "splitOn sep s \<noteq> []"
  by (cases s) (auto split: list.splits)

text \<open>Every word of a normalized title is its own lower-cased form: it is its own cache key.\<close>

lemma normalized_word_lower:
  assumes "w \<in> set (splitOn CHR '' '' (normalizeText x b))"
  shows "toLowerCase w = w"
  unfolding toLowerCase_def
proof (rule map_idI)
  fix c assume "c \<in> set w"
  with set_splitOn [OF assms] have "c \<in> set (normalizeText x b)" by blast
  then show "toLowerChar c = c" by (auto dest: normalizeText_chars normalChar_lower)
qed

subsection \<open>Idempotence without the year step, and its failure with it\<close>

lemma isSpace_space: "isSpace CHR '' ''"
  by (simp add: isSpace_def)

lemma collapseFrom_singleSpaced: "singleSpaced b (collapseFrom b s)"
  by (induction s arbitrary: b) (auto simp: isSpace_space)

lemma singleSpaced_fixed: "singleSpaced b t \<Longrightarrow> collapseFrom b t = t"
  by (induction t arbitrary: b) (auto split: if_splits)

lemma singleSpaced_weaken: "singleSpaced b t \<Longrightarrow> singleSpaced False t"
  by (cases t) (auto split: if_splits)

lemma singleSpaced_dropWhile: "singleSpaced b t \<Longrightarrow> singleSpaced b' (dropWhile isSpace t)"
proof (induction t arbitrary: b b')
  case Nil
  then show ?case by simp
next
  case (Cons c t)
  then show ?case by (auto split: if_splits)
qed

lemma singleSpaced_prefix: "singleSpaced b (p @ q) \<Longrightarrow> singleSpaced b p"
  by (induction p arbitrary: b) (auto split: if_splits)

lemma trailing_split: "xs = rev (dropWhile P (rev xs)) @ rev (takeWhile P (rev xs))"
  by (metis rev_append rev_rev_ident takeWhile_dropWhile_id)

lemma singleSpaced_trim:
  assumes "singleSpaced b t"
  shows "singleSpaced False (trim t)"
proof -
  let ?d = "dropWhile isSpace t"
  have "?d = trim t @ rev (takeWhile isSpace (rev ?d))"
    unfolding trim_def by (rule trailing_split)
  moreover have "singleSpaced False ?d"
    using assms by (rule singleSpaced_dropWhile)
  ultimately show ?thesis
    using singleSpaced_prefix by metis
qed

lemma dropWhile_fixed: "(xs = [] \<or> \<not> P (hd xs)) \<Longrightarrow> dropWhile P xs = xs"
  by (cases xs) auto

lemma dropWhile_head: "dropWhile P xs = [] \<or> \<not> P (hd (dropWhile P xs))"
  using hd_dropWhile by blast

lemma trim_head: "trim s = [] \<or> \<not> isSpace (hd (trim s))"
proof -
  let ?d = "dropWhile isSpace s"
  have split: "?d = trim s @ rev (takeWhile isSpace (rev ?d))"
    unfolding trim_def by (rule trailing_split)
  show ?thesis
  proof (cases "trim s = []")
    case True
    then show ?thesis by simp
  next
    case False
    with split have "hd ?d = hd (trim s)" by (metis hd_append2)
    moreover from False split have "?d \<noteq> []" by (metis append_is_Nil_conv)
    ultimately show ?thesis using dropWhile_head [of isSpace s] by metis
  qed
qed

lemma trim_idem: "trim (trim s) = trim s"
proof -
  have a: "dropWhile isSpace (trim s) = trim s"
    using trim_head by (rule dropWhile_fixed)
  have "rev (trim s) = dropWhile isSpace (rev (dropWhile isSpace s))"
    by (simp add: trim_def)
  then have "dropWhile isSpace (rev (trim s)) = rev (trim s)"
    by (metis dropWhile_idem)
  with a show ?thesis by (simp add: trim_def)
qed

lemma replaceChar_absent: "c \<notin> set s \<Longrightarrow> replaceChar c r s = s"
  by (induction s) (auto simp: replaceChar_def)

lemma normalChar_facts:
  assumes "normalChar c"
  shows "c \<noteq> CHR ''&''" "c \<noteq> CHR 0xBD" "c \<noteq> CHR 0xD7" "c \<noteq> CHR 0x27"
    "isWordChar c \<or> isSpace c"
  using assms
  by (auto simp: normalChar_def isWordChar_def isSpace_def isLowerAscii_def isDigit_def)

text \<open>A string of normal characters with single inner spaces and no outer space is left
  unchanged by the chain without the year step.\<close>

lemma normalizeText_fixed:
  assumes "\<forall>c\<in>set y. normalChar c" and "singleSpaced False y" and "trim y = y"
  shows "normalizeText y False = y"
proof -
  have 1: "toLowerCase y = y"
    unfolding toLowerCase_def
  proof (rule map_idI)
    fix c assume "c \<in> set y"
    with assms(1) show "toLowerChar c = c" by (simp add: normalChar_lower)
  qed
  have "CHR ''&'' \<notin> set y" using assms(1) normalChar_facts(1) by blast
  then have 2: "replaceChar CHR ''&'' ''and'' y = y" by (rule replaceChar_absent)
  have "CHR 0xBD \<notin> set y" using assms(1) normalChar_facts(2) by blast
  then have 3: "replaceChar (CHR 0xBD) ''0.5'' y = y" by (rule replaceChar_absent)
  have "CHR 0xD7 \<notin> set y" using assms(1) normalChar_facts(3) by blast
  then have 4: "replaceChar (CHR 0xD7) ''x'' y = y" by (rule replaceChar_absent)
  have 5: "filter (\<lambda>c. c \<noteq> CHR 0x27) y = y"
  proof (rule filter_True)
    show "\<forall>c\<in>set y. c \<noteq> CHR 0x27" using assms(1) normalChar_facts(4) by blast
  qed
  have 6: "filter (\<lambda>c. isWordChar c \<or> isSpace c) y = y"
  proof (rule filter_True)
    show "\<forall>c\<in>set y. isWordChar c \<or> isSpace c" using assms(1) normalChar_facts(5) by blast
  qed
  have 7: "collapseSpaces y = y"
    unfolding collapseSpaces_def using assms(2) by (rule singleSpaced_fixed)
  show ?thesis
    unfolding normalizeText_def Let_def 1 2 3 4 5 6 7 using assms(3) by simp
qed

text \<open>Without the year step the normalizer is idempotent.\<close>

lemma normalizeText_idempotent_no_year:
  "normalizeText (normalizeText x False) False = normalizeText x False"
proof (rule normalizeText_fixed)
  show "\<forall>c\<in>set (normalizeText x False). normalChar c"
    using normalizeText_chars by blast
  show "singleSpaced False (normalizeText x False)"
    unfolding normalizeText_def Let_def collapseSpaces_def
    using singleSpaced_trim [OF collapseFrom_singleSpaced] by simp
  show "trim (normalizeText x False) = normalizeText x False"
    by (simp add: normalizeText_def trim_idem)
qed

text \<open>
  Claim C3 at the input where the code departs from it. With the year step a year between
  two words leaves both of its spaces behind; the second application collapses them, so
  normalizing twice differs from normalizing once. The upper-case and the lower-case
  spelling of a title still normalize to the same string.
\<close>

theorem normalizeText_year_not_idempotent:
  "normalizeText ''Shaman King 2021 Flowers'' True = ''shaman king  flowers'' \<and>
   normalizeText (normalizeText ''Shaman King 2021 Flowers'' True) True = ''shaman king flowers'' \<and>
   normalizeText ''ATTACK on Titan'' False = normalizeText ''attack on titan'' False"
  by code_simp

section \<open>Properties of the memoized word-variation lookup\<close>

lemma getWordVariations_records:
  assumes "cacheRecords tr sq S c"
  shows "cacheRecords tr sq (insert w S) (snd (getWordVariations tr sq c w))"
  using assms
  by (auto simp: cacheRecords_def getWordVariations_def Let_def split: option.splits)

lemma cacheAfter_records:
  assumes "cacheRecords tr sq S c"
  shows "cacheRecords tr sq (S \<union> set ws) (cacheAfter tr sq c ws)"
  using assms
proof (induction ws arbitrary: S c)
  case Nil
  then show ?case by (simp add: cacheAfter_def)
next
  case (Cons w ws)
  from getWordVariations_records [OF Cons.prems]
  have "cacheRecords tr sq (insert w S) (snd (getWordVariations tr sq c w))" .
  from Cons.IH [OF this] show ?case by (simp add: cacheAfter_def)
qed

lemma cacheRecords_empty: "cacheRecords tr sq {} Map.empty"
  by (simp add: cacheRecords_def)

lemma getWordVariations_hit_or_miss:
  assumes "cacheRecords tr sq S c"
    and "\<forall>v\<in>S. toLowerCase v = toLowerCase w \<longrightarrow> v = w"
  shows "fst (getWordVariations tr sq c w) = computeVariations tr sq w"
proof (cases "c (toLowerCase w)")
  case None
  then show ?thesis by (simp add: getWordVariations_def Let_def)
next
  case (Some r)
  with assms(1) obtain v where "v \<in> S" "toLowerCase v = toLowerCase w"
    "r = computeVariations tr sq v"
    unfolding cacheRecords_def by blast
  with assms(2) have "r = computeVariations tr sq w" by blast
  with Some show ?thesis by (simp add: getWordVariations_def Let_def)
qed

text \<open>The scorers only look up words of normalized titles. They are lower-case, so the
  cache key of such a word is the word itself, and on a cache filled by such lookups every
  lookup returns the computed list.\<close>

lemma lookupWords_lower:
  assumes "w \<in> set (lookupWords b x)"
  shows "toLowerCase w = w"
  using assms unfolding lookupWords_def by (rule normalized_word_lower)

lemma getWordVariations_lower_words:
  assumes "\<forall>v\<in>set ws. toLowerCase v = v" and "toLowerCase w = w"
  shows "fst (getWordVariations tr sq (cacheAfter tr sq Map.empty ws) w)
           = computeVariations tr sq w"
proof -
  have "cacheRecords tr sq (set ws) (cacheAfter tr sq Map.empty ws)"
    using cacheAfter_records [OF cacheRecords_empty, of tr sq ws] by simp
  moreover from assms have "\<forall>v\<in>set ws. toLowerCase v = toLowerCase w \<longrightarrow> v = w"
    by auto
  ultimately show ?thesis by (rule getWordVariations_hit_or_miss)
qed

lemma getWordVariations_again:
  "fst (getWordVariations tr sq (snd (getWordVariations tr sq c w)) w)
     = fst (getWordVariations tr sq c w)"
  by (simp add: getWordVariations_def Let_def split: option.splits)

text \<open>
  Claim C9. The lookup is reached through the scorers only, with words of normalized
  titles. For every such word, the list returned on the cache that any earlier lookups of
  such words have left is the list returned on the empty cache, and it is the list the
  body computes; a second lookup of the word, in any cache state, returns what the first
  one returned.
\<close>

theorem memoization_transparent:
  assumes "\<forall>v\<in>set ws. \<exists>x b. v \<in> set (lookupWords b x)"
    and "w \<in> set (lookupWords b y)"
  shows "fst (getWordVariations tr sq (cacheAfter tr sq Map.empty ws) w)
           = fst (getWordVariations tr sq Map.empty w)
         \<and> fst (getWordVariations tr sq (cacheAfter tr sq Map.empty ws) w)
           = computeVariations tr sq w
         \<and> fst (getWordVariations tr sq (snd (getWordVariations tr sq c w)) w)
           = fst (getWordVariations tr sq c w)"
proof -
  from assms(1) have l: "\<forall>v\<in>set ws. toLowerCase v = v"
    using lookupWords_lower by blast
  from assms(2) have m: "toLowerCase w = w"
    by (rule lookupWords_lower)
  have a: "fst (getWordVariations tr sq (cacheAfter tr sq Map.empty ws) w)
             = computeVariations tr sq w"
    using l m by (rule getWordVariations_lower_words)
  have b: "fst (getWordVariations tr sq Map.empty w) = computeVariations tr sq w"
    by (simp add: getWordVariations_def Let_def)
  from a b getWordVariations_again [of tr sq c w] show ?thesis by simp
qed

lemma lookupWords_example:
  "lookupWords False ''Season Two: Part'' = [''season'', ''two'', ''part'']"
  by code_simp

theorem memoization_transparent_witness:
  "fst (getWordVariations hianimeReplacements hianimeSequels
         (cacheAfter hianimeReplacements hianimeSequels Map.empty [''season'', ''two'', ''part''])
         ''season'')
     = fst (getWordVariations hianimeReplacements hianimeSequels Map.empty ''season'')"
proof -
  have h: "\<forall>v\<in>set [''season'', ''two'', ''part''].
             \<exists>x b. v \<in> set (lookupWords b x)"
  proof (rule ballI)
    fix v :: string
    assume "v \<in> set [''season'', ''two'', ''part'']"
    then have "v \<in> set (lookupWords False ''Season Two: Part'')"
      by (simp only: lookupWords_example)
    then show "\<exists>x b. v \<in> set (lookupWords b x)"
      by (intro exI)
  qed
  have w: "''season'' \<in> set (lookupWords False ''Season Two: Part'')"
    by (simp add: lookupWords_example)
  from memoization_transparent [OF h w] show ?thesis
    by (rule conjunct1)
qed

text \<open>
  The condition on the words is what the call sites give. The key is the lower-cased word
  and the computed list holds the word as written, so a direct call on a word that is not
  lower-case, which no caller makes, would leave a list that a later lookup of the
  lower-case word returns.
\<close>

lemma variations_Season:
  "computeVariations hianimeReplacements hianimeSequels ''Season''
     = [''Season'', ''season'', ''s'', ''sz'']"
  by code_simp

lemma variations_season:
  "computeVariations hianimeReplacements hianimeSequels ''season'' = [''season'', ''s'', ''sz'']"
  by code_simp

lemma getWordVariations_as_written:
  "fst (getWordVariations hianimeReplacements hianimeSequels
          (cacheAfter hianimeReplacements hianimeSequels Map.empty [''Season''])
          ''season'') = [''Season'', ''season'', ''s'', ''sz'']
   \<and> fst (getWordVariations hianimeReplacements hianimeSequels Map.empty ''season'')
       = [''season'', ''s'', ''sz'']"
proof -
  have k: "toLowerCase ''Season'' = ''season''" "toLowerCase ''season'' = ''season''"
    by code_simp+
  have a: "fst (getWordVariations hianimeReplacements hianimeSequels
          (cacheAfter hianimeReplacements hianimeSequels Map.empty [''Season''])
          ''season'') = [''Season'', ''season'', ''s'', ''sz'']"
    by (simp add: getWordVariations_def cacheAfter_def Let_def k variations_Season)
  have b: "fst (getWordVariations hianimeReplacements hianimeSequels Map.empty ''season'')
             = [''season'', ''s'', ''sz'']"
    by (simp add: getWordVariations_def Let_def k variations_season)
  from a b show ?thesis by (rule conjI)
qed

section \<open>The matrix of \<open>levenshteinDistance\<close> holds the edit distances of the prefixes\<close>

lemma lev_zero_right: "lev a b i 0 = i"
  by (cases i) simp_all

lemma fillRow_row:
  assumes "i \<le> length a"
  shows "fillRow (b ! j) (lev a b i (Suc j)) (lev a b i j) (drop i a)
           (map (\<lambda>k. lev a b k j) [Suc i..<length a + 1])
         = map (\<lambda>k. lev a b k (Suc j)) [Suc i..<length a + 1]"
  using assms
proof (induction "length a - i" arbitrary: i)
  case 0
  then have "i = length a" by simp
  then show ?case by simp
next
  case (Suc n)
  then have lt: "i < length a" by simp
  then have d: "drop i a = a ! i # drop (Suc i) a"
    by (simp add: Cons_nth_drop_Suc)
  from lt have u: "[Suc i..<length a + 1] = Suc i # [Suc (Suc i)..<length a + 1]"
    by (intro upt_conv_Cons) simp
  from Suc.hyps(2) have n: "n = length a - Suc i" by simp
  from lt have le: "Suc i \<le> length a" by simp
  show ?case
    unfolding d u using Suc.hyps(1) [OF n le]
    by (simp add: Let_def)
qed

lemma nextRow_row:
  "nextRow a (map (\<lambda>k. lev a b k j) [0..<length a + 1]) (Suc j, b ! j)
     = map (\<lambda>k. lev a b k (Suc j)) [0..<length a + 1]"
proof -
  have u: "[0..<length a + 1] = 0 # [Suc 0..<length a + 1]"
    by (rule upt_conv_Cons) simp
  show ?thesis
    unfolding u nextRow_def using fillRow_row [of 0 a b j] by simp
qed

lemma rows_fold:
  assumes "j \<le> length b"
  shows "foldl (nextRow a) (map (\<lambda>k. lev a b k j) [0..<length a + 1])
           (zip [Suc j..<length b + 1] (drop j b))
         = map (\<lambda>k. lev a b k (length b)) [0..<length a + 1]"
  using assms
proof (induction "length b - j" arbitrary: j)
  case 0
  then have "j = length b" by simp
  then show ?case by simp
next
  case (Suc n)
  then have lt: "j < length b" by simp
  then have d: "drop j b = b ! j # drop (Suc j) b"
    by (simp add: Cons_nth_drop_Suc)
  from lt have u: "[Suc j..<length b + 1] = Suc j # [Suc (Suc j)..<length b + 1]"
    by (intro upt_conv_Cons) simp
  from Suc.hyps(2) have n: "n = length b - Suc j" by simp
  from lt have le: "Suc j \<le> length b" by simp
  have "foldl (nextRow a) (map (\<lambda>k. lev a b k j) [0..<length a + 1])
          (zip (Suc j # [Suc (Suc j)..<length b + 1]) (b ! j # drop (Suc j) b))
        = foldl (nextRow a)
            (nextRow a (map (\<lambda>k. lev a b k j) [0..<length a + 1]) (Suc j, b ! j))
            (zip [Suc (Suc j)..<length b + 1] (drop (Suc j) b))"
    by (simp only: zip_Cons_Cons foldl_Cons)
  also have "\<dots> = foldl (nextRow a) (map (\<lambda>k. lev a b k (Suc j)) [0..<length a + 1])
                     (zip [Suc (Suc j)..<length b + 1] (drop (Suc j) b))"
    by (simp only: nextRow_row)
  also have "\<dots> = map (\<lambda>k. lev a b k (length b)) [0..<length a + 1]"
    by (rule Suc.hyps(1) [OF n le])
  finally show ?case
    unfolding d u .
qed

lemma levenshteinDistance_editDistance: "levenshteinDistance a b = editDistance a b"
proof -
  have r0: "map (\<lambda>k. lev a b k 0) [0..<length a + 1] = [0..<length a + 1]"
    by (rule map_idI) (simp add: lev_zero_right)
  have "foldl (nextRow a) [0..<length a + 1] (zip [1..<length b + 1] b)
          = foldl (nextRow a) (map (\<lambda>k. lev a b k 0) [0..<length a + 1])
              (zip [Suc 0..<length b + 1] (drop 0 b))"
    unfolding r0 by simp
  also have "\<dots> = map (\<lambda>k. lev a b k (length b)) [0..<length a + 1]"
    by (rule rows_fold) simp
  finally have "levenshteinDistance a b
                  = last (map (\<lambda>k. lev a b k (length b)) [0..<length a + 1])"
    by (simp only: levenshteinDistance_def)
  also have "\<dots> = lev a b (length a) (length b)"
    by (simp add: last_map)
  finally show ?thesis
    by (simp only: editDistance_def)
qed

section \<open>The word loops compute the best pair score\<close>

lemma pairScore_bounds: "0 \<le> pairScore sv tv \<and> pairScore sv tv \<le> 1"
proof -
  have "(of_nat (min (length sv) (length tv)) :: rat) \<le> of_nat (max (length sv) (length tv))"
    by simp
  then have "(of_nat (min (length sv) (length tv)) / of_nat (max (length sv) (length tv)) :: rat) \<le> 1"
    by (metis divide_le_eq_1 of_nat_0_le_iff order_le_less zero_le_one division_ring_divide_zero)
  then show ?thesis by (simp add: pairScore_def)
qed

lemma foldl_max_top:
  assumes "\<forall>x\<in>set xs. x \<le> (1::rat)"
  shows "foldl max 1 xs = 1"
  using assms
proof (induction xs)
  case Nil
  then show ?case by simp
next
  case (Cons x xs)
  then have "max 1 x = 1" by (simp add: max_absorb1)
  with Cons show ?case by simp
qed

lemma foldl_max_bounds:
  assumes "\<forall>x\<in>set xs. 0 \<le> x \<and> x \<le> (1::rat)" and "0 \<le> s" and "s \<le> 1"
  shows "0 \<le> foldl max s xs \<and> foldl max s xs \<le> 1"
  using assms
proof (induction xs arbitrary: s)
  case Nil
  then show ?case by simp
next
  case (Cons x xs)
  then have "0 \<le> max s x" "max s x \<le> 1" by auto
  with Cons show ?case by simp
qed

lemma titleVarLoop_max:
  assumes "0 \<le> best" and "best \<le> 1"
  shows "titleVarLoop sv best tvs = foldl max best (map (pairScore sv) tvs)"
  using assms
proof (induction tvs arbitrary: best)
  case Nil
  then show ?case by simp
next
  case (Cons tv tvs)
  show ?case
  proof (cases "sv = tv")
    case True
    have l: "titleVarLoop sv best (tv # tvs) = 1"
      using True by simp
    have "pairScore sv tv = 1"
      using True by (simp add: pairScore_def)
    moreover have "max best 1 = 1"
      using Cons.prems(2) by (simp add: max_absorb2)
    moreover have "foldl max 1 (map (pairScore sv) tvs) = 1"
      by (rule foldl_max_top) (simp add: pairScore_bounds)
    ultimately have "foldl max best (map (pairScore sv) (tv # tvs)) = 1"
      by simp
    with l show ?thesis by simp
  next
    case False
    let ?b = "max best (pairScore sv tv)"
    have b: "0 \<le> ?b" "?b \<le> 1"
      using Cons.prems pairScore_bounds [of sv tv] by auto
    have "max best 0 = best"
      using Cons.prems(1) by (simp add: max_absorb1)
    then have e: "?b = (if includesStr sv tv \<or> includesStr tv sv
              then max best (of_nat (min (length sv) (length tv))
                             / of_nat (max (length sv) (length tv)))
              else best)"
      using False by (simp add: pairScore_def)
    have "titleVarLoop sv best (tv # tvs) = titleVarLoop sv ?b tvs"
      unfolding e using False by simp
    also have "\<dots> = foldl max ?b (map (pairScore sv) tvs)"
      by (rule Cons.IH [OF b])
    finally show ?thesis by simp
  qed
qed

lemma titleVarLoop_bounds:
  assumes "0 \<le> best" and "best \<le> 1"
  shows "0 \<le> titleVarLoop sv best tvs \<and> titleVarLoop sv best tvs \<le> 1"
  unfolding titleVarLoop_max [OF assms]
  by (rule foldl_max_bounds) (simp_all add: pairScore_bounds assms)

lemma searchVarLoop_max:
  assumes "0 \<le> best" and "best \<le> 1"
  shows "searchVarLoop best svs tvs
           = foldl max best (concat (map (\<lambda>sv. map (pairScore sv) tvs) svs))"
  using assms
proof (induction svs arbitrary: best)
  case Nil
  then show ?case by simp
next
  case (Cons sv svs)
  let ?b = "titleVarLoop sv best tvs"
  have b: "0 \<le> ?b" "?b \<le> 1"
    using titleVarLoop_bounds [OF Cons.prems] by auto
  have m: "?b = foldl max best (map (pairScore sv) tvs)"
    by (rule titleVarLoop_max [OF Cons.prems])
  show ?case
  proof (cases "?b = 1")
    case True
    have "foldl max 1 (concat (map (\<lambda>sv. map (pairScore sv) tvs) svs)) = 1"
      by (rule foldl_max_top) (auto simp: pairScore_bounds)
    with True m show ?thesis by (simp add: Let_def)
  next
    case False
    then have "searchVarLoop best (sv # svs) tvs = searchVarLoop ?b svs tvs"
      by (simp add: Let_def)
    also have "\<dots> = foldl max ?b (concat (map (\<lambda>sv. map (pairScore sv) tvs) svs))"
      by (rule Cons.IH [OF b])
    finally show ?thesis using m by simp
  qed
qed

lemma searchVarLoop_bounds:
  assumes "0 \<le> best" and "best \<le> 1"
  shows "0 \<le> searchVarLoop best svs tvs \<and> searchVarLoop best svs tvs \<le> 1"
  unfolding searchVarLoop_max [OF assms]
  by (rule foldl_max_bounds) (auto simp: pairScore_bounds assms)

lemma titleWordLoop_max:
  assumes "0 \<le> best" and "best \<le> 1"
  shows "titleWordLoop best svs tvss
           = foldl max best
               (concat (map (\<lambda>tvs. concat (map (\<lambda>sv. map (pairScore sv) tvs) svs)) tvss))"
  using assms
proof (induction tvss arbitrary: best)
  case Nil
  then show ?case by simp
next
  case (Cons tvs tvss)
  let ?b = "searchVarLoop best svs tvs"
  have b: "0 \<le> ?b" "?b \<le> 1"
    using searchVarLoop_bounds [OF Cons.prems] by auto
  have m: "?b = foldl max best (concat (map (\<lambda>sv. map (pairScore sv) tvs) svs))"
    by (rule searchVarLoop_max [OF Cons.prems])
  show ?case
  proof (cases "?b = 1")
    case True
    have "foldl max 1
            (concat (map (\<lambda>tvs. concat (map (\<lambda>sv. map (pairScore sv) tvs) svs)) tvss)) = 1"
      by (rule foldl_max_top) (auto simp: pairScore_bounds)
    with True m show ?thesis by (simp add: Let_def)
  next
    case False
    then have "titleWordLoop best svs (tvs # tvss) = titleWordLoop ?b svs tvss"
      by (simp add: Let_def)
    also have "\<dots> = foldl max ?b
        (concat (map (\<lambda>tvs. concat (map (\<lambda>sv. map (pairScore sv) tvs) svs)) tvss))"
      by (rule Cons.IH [OF b])
    finally show ?thesis using m by simp
  qed
qed

lemma titleWordLoop_bounds:
  "0 \<le> titleWordLoop 0 svs tvss \<and> titleWordLoop 0 svs tvss \<le> 1"
proof -
  have "titleWordLoop 0 svs tvss
          = foldl max 0
              (concat (map (\<lambda>tvs. concat (map (\<lambda>sv. map (pairScore sv) tvs) svs)) tvss))"
    by (rule titleWordLoop_max) simp_all
  moreover have "0 \<le> foldl max 0
              (concat (map (\<lambda>tvs. concat (map (\<lambda>sv. map (pairScore sv) tvs) svs)) tvss))
      \<and> foldl max 0
              (concat (map (\<lambda>tvs. concat (map (\<lambda>sv. map (pairScore sv) tvs) svs)) tvss)) \<le> 1"
    by (rule foldl_max_bounds) (auto simp: pairScore_bounds)
  ultimately show ?thesis by simp
qed

lemma foldl_max_Max: "foldl max s xs = Max (insert (s::rat) (set xs))"
proof (induction xs arbitrary: s)
  case Nil
  then show ?case by simp
next
  case (Cons x xs)
  have "Max (insert s (insert x (set xs))) = Max (insert (max s x) (set xs))"
  proof (cases "set xs = {}")
    case True
    then show ?thesis by (simp add: max.commute)
  next
    case False
    then show ?thesis by (simp add: max.assoc max.commute max.left_commute)
  qed
  with Cons show ?case by simp
qed

lemma titleWordLoop_spec:
  "titleWordLoop 0 (variationsOf sw) (map variationsOf tws) = bestWordMatchSpec variationsOf sw tws"
proof -
  have "titleWordLoop 0 (variationsOf sw) (map variationsOf tws)
          = foldl max 0 (concat (map (\<lambda>tvs. concat (map (\<lambda>sv. map (pairScore sv) tvs)
                                                        (variationsOf sw)))
                                  (map variationsOf tws)))"
    by (rule titleWordLoop_max) simp_all
  also have "\<dots> = bestWordMatchSpec variationsOf sw tws"
    by (simp add: foldl_max_Max bestWordMatchSpec_def comp_def)
  finally show ?thesis .
qed

lemma searchWordLoop_counts:
  "searchWordLoop (m, p) svss tvss
     = (m + length (filter (\<lambda>b. b = 1) (map (\<lambda>svs. titleWordLoop 0 svs tvss) svss)),
        p + sum_list (filter (\<lambda>b. b \<noteq> 1) (map (\<lambda>svs. titleWordLoop 0 svs tvss) svss)))"
proof (induction svss arbitrary: m p)
  case Nil
  then show ?case by simp
next
  case (Cons svs svss)
  have "0 \<le> titleWordLoop 0 svs tvss"
    using titleWordLoop_bounds by blast
  then have "titleWordLoop 0 svs tvss > 0 \<or> titleWordLoop 0 svs tvss = 0"
    by auto
  then show ?case
    using Cons.IH by (auto simp: Let_def)
qed

lemma wordMatchScore_spec:
  "wordMatchScore (map variationsOf sws) (map variationsOf tws) = wordScoreSpec variationsOf sws tws"
proof -
  define bests where "bests = map (\<lambda>sw. bestWordMatchSpec variationsOf sw tws) sws"
  have b: "map (\<lambda>svs. titleWordLoop 0 svs (map variationsOf tws)) (map variationsOf sws) = bests"
    by (simp add: titleWordLoop_spec comp_def bests_def)
  have "searchWordLoop (0, 0) (map variationsOf sws) (map variationsOf tws)
          = (length (filter (\<lambda>b. b = 1) bests), sum_list (filter (\<lambda>b. b \<noteq> 1) bests))"
    unfolding searchWordLoop_counts b by simp
  then have "wordMatchScore (map variationsOf sws) (map variationsOf tws)
               = (of_nat (length (filter (\<lambda>b. b = 1) bests))
                    + sum_list (filter (\<lambda>b. b \<noteq> 1) bests) * (1 / 2)) / of_nat (length sws)"
    by (simp add: wordMatchScore_def)
  also have "\<dots> = wordScoreSpec variationsOf sws tws"
    unfolding wordScoreSpec_def Let_def bests_def [symmetric] by (simp add: mult.commute)
  finally show ?thesis .
qed

text \<open>The scorer over the computed variations is the scorer of the specification.\<close>

lemma titleScore_spec: "titleScore sim s t = titleScoreSpec sim s t"
  by (simp add: titleScore_def titleScoreSpec_def Let_def wordMatchScore_spec
        levenshteinDistance_editDistance)

section \<open>The scorer through the cache\<close>

lemma getWordVariations_sound:
  assumes "cacheSound tr sq c" and "toLowerCase w = w"
  shows "fst (getWordVariations tr sq c w) = computeVariations tr sq w"
    and "cacheSound tr sq (snd (getWordVariations tr sq c w))"
  using assms
  by (auto simp: cacheSound_def getWordVariations_def Let_def split: option.splits)

lemma lookupAll_sound:
  assumes "cacheSound tr sq c" and "\<forall>w\<in>set ws. toLowerCase w = w"
  shows "fst (lookupAll tr sq c ws) = map (computeVariations tr sq) ws
         \<and> cacheSound tr sq (snd (lookupAll tr sq c ws))"
  using assms
proof (induction ws arbitrary: c)
  case Nil
  then show ?case by simp
next
  case (Cons w ws)
  obtain vs c1 where g: "getWordVariations tr sq c w = (vs, c1)"
    by (cases "getWordVariations tr sq c w")
  from Cons.prems have lw: "toLowerCase w = w" by simp
  from getWordVariations_sound [OF Cons.prems(1) lw] g
  have vs: "vs = computeVariations tr sq w" and c1: "cacheSound tr sq c1"
    by simp_all
  from Cons.prems(2) have "\<forall>w\<in>set ws. toLowerCase w = w" by simp
  from Cons.IH [OF c1 this]
  have ih: "fst (lookupAll tr sq c1 ws) = map (computeVariations tr sq) ws"
    "cacheSound tr sq (snd (lookupAll tr sq c1 ws))"
    by simp_all
  obtain vss c2 where l: "lookupAll tr sq c1 ws = (vss, c2)"
    by (cases "lookupAll tr sq c1 ws")
  with ih g vs show ?case by simp
qed

lemma calculateTitleScore_pure:
  assumes "cacheSound hianimeReplacements hianimeSequels cache"
  shows "fst (calculateTitleScore sim cache s t) = titleScore sim s t
         \<and> cacheSound hianimeReplacements hianimeSequels (snd (calculateTitleScore sim cache s t))"
proof -
  let ?ns = "normalizeText s False" and ?nt = "normalizeText t False"
  let ?sw = "splitOn CHR '' '' ?ns" and ?tw = "splitOn CHR '' '' ?nt"
  obtain svs c1 where l1: "lookupAll hianimeReplacements hianimeSequels cache ?sw = (svs, c1)"
    by (cases "lookupAll hianimeReplacements hianimeSequels cache ?sw")
  obtain tvs c2 where l2: "lookupAll hianimeReplacements hianimeSequels c1 ?tw = (tvs, c2)"
    by (cases "lookupAll hianimeReplacements hianimeSequels c1 ?tw")
  have "\<forall>w\<in>set ?sw. toLowerCase w = w"
    using normalized_word_lower by blast
  from lookupAll_sound [OF assms this] l1
  have s1: "svs = map (computeVariations hianimeReplacements hianimeSequels) ?sw"
    and c1: "cacheSound hianimeReplacements hianimeSequels c1"
    by simp_all
  have "\<forall>w\<in>set ?tw. toLowerCase w = w"
    using normalized_word_lower by blast
  from lookupAll_sound [OF c1 this] l2
  have s2: "tvs = map (computeVariations hianimeReplacements hianimeSequels) ?tw"
    and c2: "cacheSound hianimeReplacements hianimeSequels c2"
    by simp_all
  show ?thesis
    using assms c2 l1 l2 s1 s2
    by (simp add: calculateTitleScore_def titleScore_def Let_def)
qed

lemma cacheSound_empty: "cacheSound tr sq Map.empty"
  by (simp add: cacheSound_def)

subsection \<open>The scorer of the French catalog\<close>

lemma Max_insert_max:
  assumes "finite S"
  shows "Max (insert (max a b) S) = Max (insert (a::rat) (insert b S))"
proof (cases "S = {}")
  case True
  then show ?thesis by (simp add: max.commute)
next
  case False
  with assms show ?thesis by (simp add: max.assoc)
qed

lemma maxOver_Max: "maxOver s xs = Max (insert s (set xs))"
  by (simp add: maxOver_def foldl_max_Max)

lemma max_Max_insert:
  assumes "finite S"
  shows "max a (Max (insert 0 S)) = Max (insert (0::rat) (insert a S))"
proof -
  have "Max (insert a (insert 0 S)) = max a (Max (insert 0 S))"
    using assms by simp
  then show ?thesis by (simp add: insert_commute)
qed

lemma ladder_tail:
  "maxOver (max 0 w) (map f secs) * (7 / 10) + max t (maxOver 0 (map g secs)) * (3 / 10)
     = 7 / 10 * Max (insert 0 (insert w (f ` set secs)))
       + 3 / 10 * Max (insert 0 (insert t (g ` set secs)))"
  by (simp add: maxOver_Max Max_insert_max max_Max_insert)

lemma calculateTitleScoreSama_spec:
  "calculateTitleScoreSama sim s t sub = titleScoreSamaSpec sim s t sub"
  unfolding calculateTitleScoreSama_def titleScoreSamaSpec_def Let_def
    calculateWordMatchScore_def wordMatchScore_spec ladder_tail set_map
  by (rule refl)

text \<open>
  Claim C2, as the code has it. The scorer of the first provider is the one the claim
  describes: on every cache that holds computed lists, its loops with their \<open>break\<close>s and
  cache lookups return exactly 1 for equal normalized titles, else 0.95 when the edit
  distance is at most 2 and the normalized source is longer than 5, else 0.7 times the
  word score plus 0.3 times the similarity of the normalized titles; the cache stays of
  that kind. The scorer of the French catalog returns exactly the score of another
  ladder: 1 for equal normalized titles, else 0.98 when the normalized source equals a
  secondary title, else 0.95 for equal year-stripped titles, else 0.92 when the
  year-stripped source equals a year-stripped secondary title, else 0.7 times the best
  word score plus 0.3 times the best similarity over the year-stripped candidate title
  and the secondary titles. It has no edit-distance step.
\<close>

theorem calculateTitleScore_refines_spec:
  assumes "cacheSound hianimeReplacements hianimeSequels cache"
  shows "fst (calculateTitleScore sim cache s t) = titleScoreSpec sim s t
         \<and> cacheSound hianimeReplacements hianimeSequels (snd (calculateTitleScore sim cache s t))
         \<and> calculateTitleScoreSama sim s t sub = titleScoreSamaSpec sim s t sub"
  using calculateTitleScore_pure [OF assms]
  by (simp add: titleScore_spec calculateTitleScoreSama_spec)

lemma titleScore_overlord_wars:
  "titleScore stringSimilarity ''Overlord'' ''Overlord Wars'' = 35 / 38"
  by code_simp

lemma samaScore_secondary:
  "calculateTitleScoreSama stringSimilarity ''Shingeki no Kyojin'' ''Attack on Titan''
     (Some ''Shingeki no Kyojin, AoT'') = 98 / 100"
  by code_simp

theorem calculateTitleScore_refines_spec_witness:
  "fst (calculateTitleScore stringSimilarity Map.empty ''Overlord'' ''Overlord Wars'') = 35 / 38
   \<and> titleScoreSpec stringSimilarity ''Overlord'' ''Overlord Wars'' = 35 / 38
   \<and> titleScoreSamaSpec stringSimilarity ''Shingeki no Kyojin'' ''Attack on Titan''
         (Some ''Shingeki no Kyojin, AoT'') = 98 / 100"
proof -
  note inst = calculateTitleScore_refines_spec
                [OF cacheSound_empty, of stringSimilarity "''Overlord''" "''Overlord Wars''"]
  have e: "fst (calculateTitleScore stringSimilarity Map.empty ''Overlord'' ''Overlord Wars'')
             = titleScoreSpec stringSimilarity ''Overlord'' ''Overlord Wars''"
    using inst by (rule conjunct1)
  have t: "titleScoreSpec stringSimilarity ''Overlord'' ''Overlord Wars'' = 35 / 38"
    using titleScore_overlord_wars by (simp only: titleScore_spec)
  have "calculateTitleScoreSama stringSimilarity ''Shingeki no Kyojin'' ''Attack on Titan''
          (Some ''Shingeki no Kyojin, AoT'')
        = titleScoreSamaSpec stringSimilarity ''Shingeki no Kyojin'' ''Attack on Titan''
            (Some ''Shingeki no Kyojin, AoT'')"
    using calculateTitleScore_refines_spec
            [OF cacheSound_empty, of stringSimilarity "''Shingeki no Kyojin''"
               "''Attack on Titan''" "Some ''Shingeki no Kyojin, AoT''"]
    by (rule conjunct2 [THEN conjunct2])
  with samaScore_secondary
  have u: "titleScoreSamaSpec stringSimilarity ''Shingeki no Kyojin'' ''Attack on Titan''
             (Some ''Shingeki no Kyojin, AoT'') = 98 / 100"
    by simp
  from e t u show ?thesis by simp
qed

text \<open>
  The claim as the specification words it (one scorer with an edit-distance step) fails
  for the scorer of the French catalog: for two seven-letter titles one edit apart it
  returns 0.25, not 0.95.
\<close>

theorem calculateTitleScore_counterexample:
  "editDistance (normalizeText ''abcdefg'' False) (normalizeText ''abcdefh'' False) \<le> 2 \<and>
   length (normalizeText ''abcdefg'' False) > 5 \<and>
   normalizeText ''abcdefg'' False \<noteq> normalizeText ''abcdefh'' False \<and>
   calculateTitleScoreSama stringSimilarity ''abcdefg'' ''abcdefh'' None = 1 / 4 \<and>
   titleScoreSpec stringSimilarity ''abcdefg'' ''abcdefh'' = 95 / 100"
proof -
  have n: "normalizeText ''abcdefg'' False = ''abcdefg''" "normalizeText ''abcdefh'' False = ''abcdefh''"
    by code_simp+
  have d: "levenshteinDistance ''abcdefg'' ''abcdefh'' = 1"
    by code_simp
  have s: "calculateTitleScoreSama stringSimilarity ''abcdefg'' ''abcdefh'' None = 1 / 4"
    by code_simp
  have t: "titleScore stringSimilarity ''abcdefg'' ''abcdefh'' = 95 / 100"
    by code_simp
  from d have "editDistance ''abcdefg'' ''abcdefh'' = 1"
    by (simp only: levenshteinDistance_editDistance)
  with n s t show ?thesis
    by (simp add: titleScore_spec [symmetric])
qed
section \<open>Properties of the search\<close>

subsection \<open>Searches that find nothing\<close>

lemma variantLoop_nothing:
  assumes "\<forall>t\<in>set ts. search (duplicatedQuery t) = Some []"
    and "score (fst st) \<le> 9 / 10"
  shows "variantLoop sim search info ys sn st ts = Some st"
  using assms by (induction ts) (simp_all add: Let_def)

lemma selectMatch_empty_pool: "selectMatch title tried info ys sn bestMatch [] = bestMatch"
  by (simp add: selectMatch_def byScore_def)

lemma searchAnimeAlternative_nothing:
  assumes "search (duplicatedQuery base) = Some []"
  shows "searchAnimeAlternative sim search base info ys sn = None"
  using assms by (simp add: searchAnimeAlternative_def)

text \<open>The alternative search is only sent when stripping the title changed it and left more
  than three characters.\<close>

lemma withAlternative_nothing:
  assumes "baseTitleOf title \<noteq> title \<and> length (baseTitleOf title) > 3 \<longrightarrow>
             search (duplicatedQuery (baseTitleOf title)) = Some []"
  shows "withAlternative sim search title info ys sn noMatch = noMatch"
proof (cases "baseTitleOf title \<noteq> title \<and> length (baseTitleOf title) > 3")
  case True
  with assms have "search (duplicatedQuery (baseTitleOf title)) = Some []" by simp
  from searchAnimeAlternative_nothing [where search = search and base = "baseTitleOf title", OF this]
  show ?thesis by (simp add: withAlternative_def)
next
  case False
  then show ?thesis by (auto simp: withAlternative_def)
qed

lemma searchAnimeBody_nothing:
  assumes "\<forall>t\<in>set (titlesToTry info). search (duplicatedQuery t) = Some []"
    and "baseTitleOf title \<noteq> title \<and> length (baseTitleOf title) > 3 \<longrightarrow>
           search (duplicatedQuery (baseTitleOf title)) = Some []"
  shows "searchAnimeBody sim search title info = Some noMatch"
proof -
  have "score (fst (noMatch, [])) \<le> 9 / 10"
    by (simp add: noMatch_def)
  from variantLoop_nothing [where search = search and ts = "titlesToTry info", OF assms(1) this]
  have v: "variantLoop sim search info (sourceYears title info) (extractSeasonNumber title)
             (noMatch, []) (titlesToTry info) = Some (noMatch, [])" .
  have w: "withAlternative sim search title info (sourceYears title info)
             (extractSeasonNumber title) noMatch = noMatch"
    using assms(2) by (rule withAlternative_nothing)
  have "searchAnimeBody sim search title info
          = Some (if score noMatch > 4 / 10 then noMatch else noMatch)"
    by (simp add: searchAnimeBody_def Let_def v selectMatch_empty_pool w)
  then show ?thesis by simp
qed

lemma samaLoop_nothing:
  assumes "\<forall>t\<in>set ts. search t = Some []" and "score best \<le> 85 / 100"
  shows "samaLoop sim search best ts = Some best"
  using assms by (induction ts) (simp_all add: Let_def)

text \<open>With no candidate for any title the result of the French catalog is decided by the
  direct probe of catalogue pages alone.\<close>

lemma searchAnimeSamaBody_nothing:
  assumes "\<forall>t\<in>set ts. search t = Some []"
  shows "searchAnimeSamaBody sim search direct ts base info
           = Some (case direct (directTitles base info) of
                     None \<Rightarrow> noMatch
                   | Some directSlug \<Rightarrow>
                       if directSlug = [] then noMatch
                       else \<lparr>score = 85 / 100, ident = Some directSlug,
                             matchMethod = ''direct_slug_fallback''\<rparr>)"
proof -
  have "score noMatch \<le> 85 / 100" by (simp add: noMatch_def)
  from samaLoop_nothing [where search = search and ts = ts, OF assms this]
  have l: "samaLoop sim search noMatch ts = Some noMatch" .
  have z: "score noMatch = 0" "\<not> score noMatch > samaThreshold info"
    by (simp_all add: noMatch_def samaThreshold_def)
  show ?thesis
    by (simp add: searchAnimeSamaBody_def Let_def l z split: option.splits)
qed

text \<open>
  Claim C7, as the code has it. On a miss of the result cache, a catalog search that
  returns no candidate for every query sent gives, for the first provider, score 0, method
  \<open>none\<close> and no identifier; the queries sent are the title variants and, when stripping
  the title changed it and left more than three characters, the stripped base title. For
  the French catalog the result is then decided by the direct probe of catalogue pages:
  score 0, method \<open>none\<close> and no identifier when the probe finds nothing, and score 0.85,
  method \<open>direct_slug_fallback\<close> and the probed slug when it finds a page.
\<close>

theorem empty_search_gives_none:
  assumes "cache (searchKey title info) = None"
    and "\<forall>t\<in>set (titlesToTry info). search (duplicatedQuery t) = Some []"
    and "baseTitleOf title \<noteq> title \<and> length (baseTitleOf title) > 3 \<longrightarrow>
           search (duplicatedQuery (baseTitleOf title)) = Some []"
    and "cacheS (samaKey base infoS) = None"
    and "\<forall>t\<in>set searchTitles. searchS t = Some []"
  shows "fst (searchAnime sim search cache title info)
           = \<lparr>score = 0, ident = None, matchMethod = ''none''\<rparr>
         \<and> fst (searchAnimeSama simS searchS direct cacheS searchTitles base infoS)
           = (case direct (directTitles base infoS) of
                None \<Rightarrow> \<lparr>score = 0, ident = None, matchMethod = ''none''\<rparr>
              | Some directSlug \<Rightarrow>
                  if directSlug = [] then \<lparr>score = 0, ident = None, matchMethod = ''none''\<rparr>
                  else \<lparr>score = 85 / 100, ident = Some directSlug,
                        matchMethod = ''direct_slug_fallback''\<rparr>)"
proof -
  have "searchAnimeBody sim search title info = Some noMatch"
    using assms(2,3) by (rule searchAnimeBody_nothing)
  then have a: "fst (searchAnime sim search cache title info)
                  = \<lparr>score = 0, ident = None, matchMethod = ''none''\<rparr>"
    using assms(1) by (simp add: searchAnime_def noMatch_def)
  have b: "fst (searchAnimeSama simS searchS direct cacheS searchTitles base infoS)
           = (case direct (directTitles base infoS) of
                None \<Rightarrow> \<lparr>score = 0, ident = None, matchMethod = ''none''\<rparr>
              | Some directSlug \<Rightarrow>
                  if directSlug = [] then \<lparr>score = 0, ident = None, matchMethod = ''none''\<rparr>
                  else \<lparr>score = 85 / 100, ident = Some directSlug,
                        matchMethod = ''direct_slug_fallback''\<rparr>)"
    using assms(4)
    by (simp add: searchAnimeSama_def noMatch_def
          searchAnimeSamaBody_nothing [where search = searchS and ts = searchTitles, OF assms(5)]
          split: option.splits)
  from a b show ?thesis by (rule conjI)
qed

text \<open>For the title \<open>Overlord Season 2\<close> the stripped base title is among the queries.\<close>

lemma overlord_season_base:
  "baseTitleOf ''Overlord Season 2'' = ''Overlord''
   \<and> titlesToTry overlordTwoInfo = [''Overlord Season 2'', ''Overlord II'']"
  by code_simp

theorem empty_search_gives_none_witness:
  "fst (searchAnime stringSimilarity (\<lambda>q. Some []) Map.empty ''Overlord Season 2'' overlordTwoInfo)
     = \<lparr>score = 0, ident = None, matchMethod = ''none''\<rparr>
   \<and> fst (searchAnimeSama stringSimilarity (\<lambda>q. Some []) (\<lambda>ts. None) Map.empty
           [''Naruto''] ''Naruto'' narutoInfo)
     = \<lparr>score = 0, ident = None, matchMethod = ''none''\<rparr>"
proof -
  have "fst (searchAnime stringSimilarity (\<lambda>q. Some []) Map.empty ''Overlord Season 2''
               overlordTwoInfo)
          = \<lparr>score = 0, ident = None, matchMethod = ''none''\<rparr>
        \<and> fst (searchAnimeSama stringSimilarity (\<lambda>q. Some []) (\<lambda>ts. None) Map.empty
                [''Naruto''] ''Naruto'' narutoInfo)
          = (case (\<lambda>ts. None) (directTitles ''Naruto'' narutoInfo) of
               None \<Rightarrow> \<lparr>score = 0, ident = None, matchMethod = ''none''\<rparr>
             | Some directSlug \<Rightarrow>
                 if directSlug = [] then \<lparr>score = 0, ident = None, matchMethod = ''none''\<rparr>
                 else \<lparr>score = 85 / 100, ident = Some directSlug,
                       matchMethod = ''direct_slug_fallback''\<rparr>)"
    by (rule empty_search_gives_none) simp_all
  then show ?thesis by simp
qed

text \<open>
  The claim as the specification words it fails for the French catalog: with no candidate
  for any variant, a successful direct probe gives score 0.85, method
  \<open>direct_slug_fallback\<close> and the probed slug.
\<close>

theorem empty_search_counterexample:
  "fst (searchAnimeSama stringSimilarity (\<lambda>q. Some []) (\<lambda>ts. Some ''naruto'') Map.empty
          [''Naruto''] ''Naruto'' narutoInfo)
     = \<lparr>score = 85 / 100, ident = Some ''naruto'', matchMethod = ''direct_slug_fallback''\<rparr>"
proof -
  have "samaLoop stringSimilarity (\<lambda>q. Some []) noMatch [''Naruto''] = Some noMatch"
    by (rule samaLoop_nothing) (simp_all add: noMatch_def)
  then show ?thesis
    by (simp add: searchAnimeSama_def searchAnimeSamaBody_def Let_def noMatch_def)
qed

subsection \<open>The exported entry points\<close>

lemma searchAnimeBody_threshold:
  assumes "searchAnimeBody sim search title info = Some r"
  shows "r = noMatch \<or> score r > 4 / 10"
  using assms
  by (auto simp: searchAnimeBody_def Let_def split: option.splits prod.splits if_splits)

lemma samaThreshold_below: "samaThreshold info < 85 / 100"
  by (simp add: samaThreshold_def)

lemma searchAnimeSamaBody_threshold:
  assumes "searchAnimeSamaBody sim search direct ts base info = Some r"
  shows "r = noMatch \<or> score r > samaThreshold info"
  using assms samaThreshold_below [of info]
  by (auto simp: searchAnimeSamaBody_def Let_def split: option.splits if_splits)

lemma getEpisodesForAnime_not_found:
  assumes "0 < aid" and "getAnimeInfo aid = Some info"
    and "sourceTitle info = Some title" and "title \<noteq> []"
    and "ident (fst (searchAnime sim search cache title info)) \<in> {None, Some []}"
  shows "getEpisodesForAnime sim getAnimeInfo search getEpisodeIds cache aid
           = Inl NotFoundOnCatalog"
  using assms by (auto simp: getEpisodesForAnime_def)

lemma getEpisodesForAnimeSama_not_found:
  assumes "0 < aid" and "getAnimeInfo aid = Some info"
    and "ident (fst (searchAnimeSama sim search direct cache (searchTitlesOf info)
                       (baseTitle info) info)) \<in> {None, Some []}"
  shows "getEpisodesForAnimeSama sim getAnimeInfo search direct seasonsOf cache
           searchTitlesOf aid = Inl NotFoundOnCatalog"
  using assms by (auto simp: getEpisodesForAnimeSama_def Let_def)

text \<open>
  Claim C6, as the code has it. The source has a valid identifier and a title (the English
  title, or the romaji title when the source has no English one). The inner search of
  either provider does not raise: a search that completes returns either a match above
  the acceptance threshold or the result \<open>none\<close> with score 0 and no identifier. The
  exported entry points do not pass that result on: whenever the search result has no
  identifier (none or an empty one), and so whenever a search that completed on a miss of the result cache found
  no acceptable match, \<open>getEpisodesForAnime\<close> of either provider throws its "could not
  find" error.
\<close>

theorem not_found_is_thrown:
  assumes "0 < aid"
    and "getAnimeInfo aid = Some info" and "sourceTitle info = Some title" and "title \<noteq> []"
    and "getAnimeInfoS aid = Some infoS"
  shows "(\<forall>r. searchAnimeBody sim search title info = Some r \<longrightarrow>
            r = \<lparr>score = 0, ident = None, matchMethod = ''none''\<rparr> \<or> score r > 4 / 10)
         \<and> (\<forall>r. searchAnimeSamaBody simS searchS direct (searchTitlesOf infoS) (baseTitle infoS)
                  infoS = Some r \<longrightarrow>
              r = \<lparr>score = 0, ident = None, matchMethod = ''none''\<rparr>
              \<or> score r > samaThreshold infoS)
         \<and> (ident (fst (searchAnime sim search cache title info)) \<in> {None, Some []} \<longrightarrow>
              getEpisodesForAnime sim getAnimeInfo search getEpisodeIds cache aid
                = Inl NotFoundOnCatalog)
         \<and> (ident (fst (searchAnimeSama simS searchS direct cacheS (searchTitlesOf infoS)
                          (baseTitle infoS) infoS)) \<in> {None, Some []} \<longrightarrow>
              getEpisodesForAnimeSama simS getAnimeInfoS searchS direct seasonsOf cacheS
                searchTitlesOf aid = Inl NotFoundOnCatalog)
         \<and> (cache (searchKey title info) = None
              \<and> searchAnimeBody sim search title info
                  = Some \<lparr>score = 0, ident = None, matchMethod = ''none''\<rparr> \<longrightarrow>
              fst (searchAnime sim search cache title info)
                = \<lparr>score = 0, ident = None, matchMethod = ''none''\<rparr>
              \<and> getEpisodesForAnime sim getAnimeInfo search getEpisodeIds cache aid
                  = Inl NotFoundOnCatalog)
         \<and> (cacheS (samaKey (baseTitle infoS) infoS) = None
              \<and> searchAnimeSamaBody simS searchS direct (searchTitlesOf infoS) (baseTitle infoS)
                  infoS = Some \<lparr>score = 0, ident = None, matchMethod = ''none''\<rparr> \<longrightarrow>
              fst (searchAnimeSama simS searchS direct cacheS (searchTitlesOf infoS)
                     (baseTitle infoS) infoS)
                = \<lparr>score = 0, ident = None, matchMethod = ''none''\<rparr>
              \<and> getEpisodesForAnimeSama simS getAnimeInfoS searchS direct seasonsOf cacheS
                  searchTitlesOf aid = Inl NotFoundOnCatalog)"
proof (intro conjI allI impI)
  fix r
  assume "searchAnimeBody sim search title info = Some r"
  from searchAnimeBody_threshold [OF this]
  show "r = \<lparr>score = 0, ident = None, matchMethod = ''none''\<rparr> \<or> score r > 4 / 10"
    by (simp add: noMatch_def)
next
  fix r
  assume "searchAnimeSamaBody simS searchS direct (searchTitlesOf infoS) (baseTitle infoS)
            infoS = Some r"
  from searchAnimeSamaBody_threshold [OF this]
  show "r = \<lparr>score = 0, ident = None, matchMethod = ''none''\<rparr> \<or> score r > samaThreshold infoS"
    by (simp add: noMatch_def)
next
  assume "ident (fst (searchAnime sim search cache title info)) \<in> {None, Some []}"
  with assms(1-4)
  show "getEpisodesForAnime sim getAnimeInfo search getEpisodeIds cache aid
          = Inl NotFoundOnCatalog"
    by (rule getEpisodesForAnime_not_found)
next
  assume "ident (fst (searchAnimeSama simS searchS direct cacheS (searchTitlesOf infoS)
                        (baseTitle infoS) infoS)) \<in> {None, Some []}"
  with assms(1,5)
  show "getEpisodesForAnimeSama simS getAnimeInfoS searchS direct seasonsOf cacheS
          searchTitlesOf aid = Inl NotFoundOnCatalog"
    by (rule getEpisodesForAnimeSama_not_found)
next
  assume h: "cache (searchKey title info) = None
             \<and> searchAnimeBody sim search title info
                 = Some \<lparr>score = 0, ident = None, matchMethod = ''none''\<rparr>"
  then show "fst (searchAnime sim search cache title info)
               = \<lparr>score = 0, ident = None, matchMethod = ''none''\<rparr>"
    by (simp add: searchAnime_def)
next
  assume h: "cache (searchKey title info) = None
             \<and> searchAnimeBody sim search title info
                 = Some \<lparr>score = 0, ident = None, matchMethod = ''none''\<rparr>"
  then have "ident (fst (searchAnime sim search cache title info)) \<in> {None, Some []}"
    by (simp add: searchAnime_def)
  with assms(1-4)
  show "getEpisodesForAnime sim getAnimeInfo search getEpisodeIds cache aid
          = Inl NotFoundOnCatalog"
    by (rule getEpisodesForAnime_not_found)
next
  assume h: "cacheS (samaKey (baseTitle infoS) infoS) = None
             \<and> searchAnimeSamaBody simS searchS direct (searchTitlesOf infoS) (baseTitle infoS)
                 infoS = Some \<lparr>score = 0, ident = None, matchMethod = ''none''\<rparr>"
  then show "fst (searchAnimeSama simS searchS direct cacheS (searchTitlesOf infoS)
                    (baseTitle infoS) infoS)
               = \<lparr>score = 0, ident = None, matchMethod = ''none''\<rparr>"
    by (simp add: searchAnimeSama_def)
next
  assume h: "cacheS (samaKey (baseTitle infoS) infoS) = None
             \<and> searchAnimeSamaBody simS searchS direct (searchTitlesOf infoS) (baseTitle infoS)
                 infoS = Some \<lparr>score = 0, ident = None, matchMethod = ''none''\<rparr>"
  then have "ident (fst (searchAnimeSama simS searchS direct cacheS (searchTitlesOf infoS)
                           (baseTitle infoS) infoS)) \<in> {None, Some []}"
    by (simp add: searchAnimeSama_def)
  with assms(1,5)
  show "getEpisodesForAnimeSama simS getAnimeInfoS searchS direct seasonsOf cacheS
          searchTitlesOf aid = Inl NotFoundOnCatalog"
    by (rule getEpisodesForAnimeSama_not_found)
qed

text \<open>A source with a romaji title only, against catalogs that answer every query with one
  unrelated entry: both searches complete and accept nothing.\<close>

lemma romajiOnly_title: "sourceTitle romajiOnlyInfo = Some ''Overlord''"
  by (simp add: sourceTitle_def romajiOnlyInfo_def)

lemma romajiOnly_search:
  "searchAnimeBody stringSimilarity (\<lambda>q. Some [bleachMovie]) ''Overlord'' romajiOnlyInfo
     = Some \<lparr>score = 0, ident = None, matchMethod = ''none''\<rparr>"
  by code_simp

lemma naruto_search:
  "searchAnimeSamaBody stringSimilarity (\<lambda>q. Some [bleachEntry]) (\<lambda>ts. None) [''Naruto'']
     (baseTitle narutoInfo) narutoInfo
     = Some \<lparr>score = 0, ident = None, matchMethod = ''none''\<rparr>"
  by code_simp

theorem not_found_is_thrown_witness:
  "fst (searchAnime stringSimilarity (\<lambda>q. Some [bleachMovie]) Map.empty ''Overlord''
          romajiOnlyInfo) = \<lparr>score = 0, ident = None, matchMethod = ''none''\<rparr>
   \<and> getEpisodesForAnime stringSimilarity (\<lambda>i. Some romajiOnlyInfo) (\<lambda>q. Some [bleachMovie])
       (\<lambda>h i. 13) Map.empty 1 = Inl NotFoundOnCatalog
   \<and> fst (searchAnimeSama stringSimilarity (\<lambda>q. Some [bleachEntry]) (\<lambda>ts. None) Map.empty
           [''Naruto''] (baseTitle narutoInfo) narutoInfo)
       = \<lparr>score = 0, ident = None, matchMethod = ''none''\<rparr>
   \<and> getEpisodesForAnimeSama stringSimilarity (\<lambda>i. Some narutoInfo) (\<lambda>q. Some [bleachEntry])
       (\<lambda>ts. None) (\<lambda>s. Some []) Map.empty (\<lambda>i. [''Naruto'']) 1 = Inl NotFoundOnCatalog"
proof -
  have p: "(0::int) < 1" by simp
  have t: "''Overlord'' \<noteq> []" by simp
  have g: "(\<lambda>i. Some romajiOnlyInfo) (1::int) = Some romajiOnlyInfo"
    and gs: "(\<lambda>i. Some narutoInfo) (1::int) = Some narutoInfo"
    by simp_all
  note inst = not_found_is_thrown
                [where getAnimeInfo = "\<lambda>i. Some romajiOnlyInfo"
                   and getAnimeInfoS = "\<lambda>i. Some narutoInfo"
                   and sim = stringSimilarity and simS = stringSimilarity
                   and search = "\<lambda>q. Some [bleachMovie]"
                   and searchS = "\<lambda>q. Some [bleachEntry]"
                   and direct = "\<lambda>ts. None" and searchTitlesOf = "\<lambda>i. [''Naruto'']"
                   and cache = Map.empty and cacheS = Map.empty
                   and getEpisodeIds = "\<lambda>h i. 13" and seasonsOf = "\<lambda>s. Some []",
                 OF p g romajiOnly_title t gs]
  have a: "Map.empty (searchKey ''Overlord'' romajiOnlyInfo) = None
           \<and> searchAnimeBody stringSimilarity (\<lambda>q. Some [bleachMovie]) ''Overlord''
               romajiOnlyInfo = Some \<lparr>score = 0, ident = None, matchMethod = ''none''\<rparr>"
    using romajiOnly_search by simp
  have b: "Map.empty (samaKey (baseTitle narutoInfo) narutoInfo) = None
           \<and> searchAnimeSamaBody stringSimilarity (\<lambda>q. Some [bleachEntry]) (\<lambda>ts. None)
               ((\<lambda>i. [''Naruto'']) narutoInfo) (baseTitle narutoInfo) narutoInfo
               = Some \<lparr>score = 0, ident = None, matchMethod = ''none''\<rparr>"
    using naruto_search by simp
  from inst [THEN conjunct2, THEN conjunct2, THEN conjunct2, THEN conjunct2, THEN conjunct1,
             rule_format, OF a]
       inst [THEN conjunct2, THEN conjunct2, THEN conjunct2, THEN conjunct2, THEN conjunct2,
             rule_format, OF b]
  show ?thesis by simp
qed

text \<open>
  The claim as the specification words it fails: for a source whose search completes and
  finds nothing the exported entry point ends in an error, not in a result that carries
  the method \<open>none\<close>.
\<close>

lemma overlord_not_found:
  "fst (searchAnime stringSimilarity (\<lambda>q. Some []) Map.empty ''Overlord'' overlordInfo) = noMatch"
  using searchAnimeBody_nothing [of overlordInfo "\<lambda>q. Some []" "''Overlord''" stringSimilarity]
  by (simp add: searchAnime_def)

theorem not_found_counterexample:
  "fst (searchAnime stringSimilarity (\<lambda>q. Some []) Map.empty ''Overlord'' overlordInfo)
     = \<lparr>score = 0, ident = None, matchMethod = ''none''\<rparr>
   \<and> getEpisodesForAnime stringSimilarity (\<lambda>i. Some overlordInfo) (\<lambda>q. Some []) (\<lambda>h i. 13)
       Map.empty 1 = Inl NotFoundOnCatalog
   \<and> (\<forall>r. getEpisodesForAnime stringSimilarity (\<lambda>i. Some overlordInfo) (\<lambda>q. Some [])
            (\<lambda>h i. 13) Map.empty 1 \<noteq> Inr r)"
proof -
  have a: "fst (searchAnime stringSimilarity (\<lambda>q. Some []) Map.empty ''Overlord'' overlordInfo)
             = \<lparr>score = 0, ident = None, matchMethod = ''none''\<rparr>"
    using overlord_not_found by (simp add: noMatch_def)
  then have "getEpisodesForAnime stringSimilarity (\<lambda>i. Some overlordInfo) (\<lambda>q. Some [])
               (\<lambda>h i. 13) Map.empty 1 = Inl NotFoundOnCatalog"
    by (simp add: getEpisodesForAnime_def sourceTitle_def overlordInfo_def)
  with a show ?thesis by simp
qed

subsection \<open>The false-positive guard and the compound-title penalty\<close>

lemma processItem_discards:
  assumes "splitOn CHR '' '' (normalizeText searchTitle False) = [w]"
    and "length (splitOn CHR '' '' (normalizeText (hianimeTitle it) False)) > 1"
    and "w \<notin> set (splitOn CHR '' '' (normalizeText (hianimeTitle it) False))"
    and "includesStr (normalizeText (hianimeTitle it) False) w"
  shows "processItem sim info ys sn searchTitle st it = st"
proof -
  have "falsePositive searchTitle (hianimeTitle it)"
    using assms by (simp add: falsePositive_def Let_def)
  then show ?thesis
    by (simp add: processItem_def split: option.splits)
qed

lemma penalizedScore_halved:
  assumes "length (splitOn CHR '' '' (normalizeText searchTitle False)) = 1"
    and "length (splitOn CHR '' '' (normalizeText title False)) > 1"
    and "hasSignificantExtras title"
  shows "penalizedScore sim searchTitle title = titleScore sim searchTitle title * (1 / 2)"
  using assms by (simp add: penalizedScore_def Let_def)

lemma overlord_titleScore:
  "titleScore sim ''Overlord'' ''Overlord Wars''
     = 7 / 10 + sim ''overlord'' ''overlord wars'' * (3 / 10)"
proof -
  have n: "normalizeText ''Overlord'' False = ''overlord''"
    "normalizeText ''Overlord Wars'' False = ''overlord wars''"
    by code_simp+
  have d: "levenshteinDistance ''overlord'' ''overlord wars'' = 5"
    by code_simp
  have w: "wordMatchScore
             (map (computeVariations hianimeReplacements hianimeSequels)
                (splitOn CHR '' '' ''overlord''))
             (map (computeVariations hianimeReplacements hianimeSequels)
                (splitOn CHR '' '' ''overlord wars'')) = 1"
    by code_simp
  show ?thesis
    unfolding titleScore_def Let_def n d w by simp
qed

lemma overlord_words:
  "length (splitOn CHR '' '' (normalizeText ''Overlord'' False)) = 1"
  "length (splitOn CHR '' '' (normalizeText ''Overlord Wars'' False)) > 1"
  "hasSignificantExtras ''Overlord Wars''"
  "\<not> falsePositive ''Overlord'' ''Overlord Wars''"
  by code_simp+

text \<open>
  Claim C8, as the code has it. For a single-word query, a candidate of several words that
  has the query word only inside another word is discarded before it is scored; a surviving
  candidate of several words that contains a marker word has its title score multiplied by
  0.5 before the contextual adjustments are added. For the query \<open>Overlord\<close> and the
  candidate \<open>Overlord Wars\<close> the penalized title score is 0.35 plus 0.15 times the
  similarity of the normalized titles, whatever the similarity function.
\<close>

theorem single_word_guard:
  "(\<forall>w. splitOn CHR '' '' (normalizeText searchTitle False) = [w]
        \<and> length (splitOn CHR '' '' (normalizeText (hianimeTitle it) False)) > 1
        \<and> w \<notin> set (splitOn CHR '' '' (normalizeText (hianimeTitle it) False))
        \<and> includesStr (normalizeText (hianimeTitle it) False) w
        \<longrightarrow> processItem sim info ys sn searchTitle st it = st)
   \<and> (length (splitOn CHR '' '' (normalizeText searchTitle False)) = 1
        \<and> length (splitOn CHR '' '' (normalizeText (hianimeTitle it) False)) > 1
        \<and> hasSignificantExtras (hianimeTitle it)
        \<longrightarrow> penalizedScore sim searchTitle (hianimeTitle it)
              = titleScore sim searchTitle (hianimeTitle it) * (1 / 2)
            \<and> itemScore sim info ys sn searchTitle it
              = titleScore sim searchTitle (hianimeTitle it) * (1 / 2)
                + formatBonus info it + episodesBonus info it
                + yearsBonus ys (extractYears (hianimeTitle it) (jname it))
                + seasonBonus sn (extractSeasonNumber (hianimeTitle it))
                + durationBonus info it + mismatchPenalty info it)
   \<and> penalizedScore sim ''Overlord'' ''Overlord Wars''
       = 35 / 100 + sim ''overlord'' ''overlord wars'' * (15 / 100)"
proof (intro conjI allI impI)
  fix w
  assume "splitOn CHR '' '' (normalizeText searchTitle False) = [w]
        \<and> length (splitOn CHR '' '' (normalizeText (hianimeTitle it) False)) > 1
        \<and> w \<notin> set (splitOn CHR '' '' (normalizeText (hianimeTitle it) False))
        \<and> includesStr (normalizeText (hianimeTitle it) False) w"
  then show "processItem sim info ys sn searchTitle st it = st"
    using processItem_discards by blast
next
  assume a: "length (splitOn CHR '' '' (normalizeText searchTitle False)) = 1
        \<and> length (splitOn CHR '' '' (normalizeText (hianimeTitle it) False)) > 1
        \<and> hasSignificantExtras (hianimeTitle it)"
  then show p: "penalizedScore sim searchTitle (hianimeTitle it)
              = titleScore sim searchTitle (hianimeTitle it) * (1 / 2)"
    using penalizedScore_halved by blast
  show "itemScore sim info ys sn searchTitle it
              = titleScore sim searchTitle (hianimeTitle it) * (1 / 2)
                + formatBonus info it + episodesBonus info it
                + yearsBonus ys (extractYears (hianimeTitle it) (jname it))
                + seasonBonus sn (extractSeasonNumber (hianimeTitle it))
                + durationBonus info it + mismatchPenalty info it"
    unfolding itemScore_def p ..
next
  have "penalizedScore sim ''Overlord'' ''Overlord Wars''
          = titleScore sim ''Overlord'' ''Overlord Wars'' * (1 / 2)"
    using overlord_words(1-3) by (rule penalizedScore_halved)
  then show "penalizedScore sim ''Overlord'' ''Overlord Wars''
       = 35 / 100 + sim ''overlord'' ''overlord wars'' * (15 / 100)"
    by (simp add: overlord_titleScore)
qed

lemma overlording_facts:
  "splitOn CHR '' '' (normalizeText ''Overlord'' False) = [''overlord'']
   \<and> length (splitOn CHR '' '' (normalizeText ''Overlording Wars'' False)) > 1
   \<and> ''overlord'' \<notin> set (splitOn CHR '' '' (normalizeText ''Overlording Wars'' False))
   \<and> includesStr (normalizeText ''Overlording Wars'' False) ''overlord''
   \<and> length (splitOn CHR '' '' (normalizeText ''Overlord'' False)) = 1
   \<and> hasSignificantExtras ''Overlording Wars''"
  by code_simp

theorem single_word_guard_witness:
  "processItem stringSimilarity overlordInfo [] None ''Overlord'' (noMatch, [])
     (overlordWars\<lparr>hianimeTitle := ''Overlording Wars''\<rparr>) = (noMatch, [])
   \<and> penalizedScore stringSimilarity ''Overlord'' ''Overlording Wars''
       = titleScore stringSimilarity ''Overlord'' ''Overlording Wars'' * (1 / 2)
   \<and> penalizedScore stringSimilarity ''Overlord'' ''Overlord Wars''
       = 35 / 100 + stringSimilarity ''overlord'' ''overlord wars'' * (15 / 100)"
proof -
  let ?it = "overlordWars\<lparr>hianimeTitle := ''Overlording Wars''\<rparr>"
  have t: "hianimeTitle ?it = ''Overlording Wars''" by simp
  note g = single_word_guard [of "''Overlord''" ?it stringSimilarity overlordInfo "[]" None
             "(noMatch, [])", unfolded t]
  from g have "processItem stringSimilarity overlordInfo [] None ''Overlord'' (noMatch, []) ?it
                 = (noMatch, [])"
    using overlording_facts by blast
  moreover from g have "penalizedScore stringSimilarity ''Overlord'' ''Overlording Wars''
       = titleScore stringSimilarity ''Overlord'' ''Overlording Wars'' * (1 / 2)"
    using overlording_facts by blast
  moreover from g have "penalizedScore stringSimilarity ''Overlord'' ''Overlord Wars''
       = 35 / 100 + stringSimilarity ''overlord'' ''overlord wars'' * (15 / 100)"
    by blast
  ultimately show ?thesis by blast
qed

text \<open>
  The consequence that the specification draws fails: the penalized candidate still
  collects the format and episode bonuses, and the search for \<open>Overlord\<close> returns
  \<open>Overlord Wars\<close> with a score above the acceptance threshold 0.4; even without any bonus
  its score is above it.
\<close>

theorem single_word_guard_counterexample:
  "searchAnimeBody stringSimilarity (\<lambda>q. Some [overlordWars]) ''Overlord'' overlordInfo
     = Some \<lparr>score = 77 / 95, ident = Some ''overlord-wars-1'', matchMethod = ''exact_match''\<rparr>
   \<and> (77 / 95 :: rat) > 4 / 10
   \<and> searchAnimeBody stringSimilarity
        (\<lambda>q. Some [overlordWars\<lparr>formatText := ''ONA'', episodesCount := 0\<rparr>]) ''Overlord''
        overlordInfo
     = Some \<lparr>score = 35 / 76, ident = Some ''overlord-wars-1'', matchMethod = ''title_match''\<rparr>
   \<and> (35 / 76 :: rat) > 4 / 10"
  by code_simp

subsection \<open>The override phase\<close>

lemma byScore_set: "set (byScore pool) = set pool"
  by (simp add: byScore_def)

lemma byScore_leader:
  assumes "byScore pool = leader # others" and "m \<in> set pool"
  shows "m_score m \<le> m_score leader"
proof -
  have "sorted (map (\<lambda>m. - m_score m) (byScore pool))"
    unfolding byScore_def by (rule sorted_sort_key)
  with assms(1) have "\<forall>x\<in>set others. - m_score leader \<le> - m_score x"
    by simp
  moreover from assms have "m = leader \<or> m \<in> set others"
    using byScore_set [of pool] by auto
  ultimately show ?thesis by auto
qed

text \<open>After the highest-score test the result is the pick of a rule exactly when the pick
  scores no less than the leader of the pool.\<close>

lemma selectMatch_no_exact_title:
  assumes "byScore pool = leader # others"
    and "filter (isExactTitle title tried) (byScore pool) = []"
  shows "selectMatch title tried info ys sn bestMatch pool
           = (let chosen = specificRules info ys sn bestMatch (leader # others)
              in if matchMethod chosen = ''none'' \<or> m_score leader > score chosen
                 then selected leader ''highest_score'' else chosen)"
  using assms by (simp add: selectMatch_def)

lemma selected_over_leader:
  assumes "byScore pool = leader # others"
    and "filter (isExactTitle title tried) (byScore pool) = []"
    and "specificRules info ys sn bestMatch (leader # others) = selected best tag"
    and "tag \<noteq> ''none''"
  shows "selectMatch title tried info ys sn bestMatch pool
           = (if m_score leader > m_score best then selected leader ''highest_score''
              else selected best tag)"
  using assms(3,4) unfolding selectMatch_no_exact_title [OF assms(1,2)]
  by (simp add: selected_def)

lemma processItem_inv:
  assumes "poolInv st"
  shows "poolInv (processItem sim info ys sn searchTitle st it)"
proof (cases "hianimeId it")
  case None
  with assms show ?thesis by (simp add: processItem_def)
next
  case (Some hid)
  show ?thesis
  proof (cases "hid = [] \<or> falsePositive searchTitle (hianimeTitle it)")
    case True
    with Some assms show ?thesis by (simp add: processItem_def)
  next
    case False
    let ?sc = "itemScore sim info ys sn searchTitle it"
    from False Some
    have p: "processItem sim info ys sn searchTitle st it
               = ((if ?sc > score (fst st)
                   then \<lparr>score = ?sc, ident = Some hid, matchMethod = ''title_match''\<rparr>
                   else fst st),
                  (if ?sc > 1 / 2 then snd st @ [poolEntry it hid ?sc] else snd st))"
      by (simp add: processItem_def Let_def)
    show ?thesis
      unfolding p using assms
      by (auto simp: poolInv_def poolEntry_def)
  qed
qed

lemma foldl_processItem_inv:
  assumes "poolInv st"
  shows "poolInv (foldl (processItem sim info ys sn searchTitle) st items)"
  using assms by (induction items arbitrary: st) (simp_all add: processItem_inv)

lemma variantLoop_inv:
  assumes "poolInv st" and "variantLoop sim search info ys sn st ts = Some st'"
  shows "poolInv st'"
  using assms
proof (induction ts arbitrary: st)
  case Nil
  then show ?case by simp
next
  case (Cons t ts)
  from Cons.prems(2) obtain items where i: "search (duplicatedQuery t) = Some items"
    by (cases "search (duplicatedQuery t)") simp_all
  let ?st = "foldl (processItem sim info ys sn t) st items"
  have inv: "poolInv ?st"
    using Cons.prems(1) by (rule foldl_processItem_inv)
  show ?case
  proof (cases "score (fst ?st) > 9 / 10")
    case True
    with Cons.prems(2) i have "st' = ?st" by (simp add: Let_def)
    with inv show ?thesis by simp
  next
    case False
    with Cons.prems(2) i have "variantLoop sim search info ys sn ?st ts = Some st'"
      by (simp add: Let_def)
    with inv show ?thesis by (rule Cons.IH)
  qed
qed

text \<open>What the variant loop hands to the override phase: with a non-empty pool the running
  best carries the method \<open>title_match\<close> and scores no less than every pool entry.\<close>

lemma running_best:
  assumes "variantLoop sim search info ys sn (noMatch, []) ts = Some (bestMatch, pool)"
    and "pool \<noteq> []"
  shows "matchMethod bestMatch = ''title_match'' \<and> (\<forall>m\<in>set pool. m_score m \<le> score bestMatch)"
proof -
  have "poolInv (noMatch, [])" by (simp add: poolInv_def)
  from variantLoop_inv [OF this assms(1)] have inv: "poolInv (bestMatch, pool)" .
  from assms(2) obtain m where "m \<in> set pool" by (cases pool) auto
  with inv have "0 < score bestMatch" by (auto simp: poolInv_def)
  then have "bestMatch \<noteq> noMatch" by (auto simp: noMatch_def)
  with inv show ?thesis by (auto simp: poolInv_def)
qed

text \<open>
  Claim C1, as the code has it. The pool is ranked by descending score. When no candidate
  has an exactly equal title, the first rule of the chain that applies (episode count and
  format; else, for a source with years, a shared year; else, for a source with a season
  number, the same season number; else, for a TV source, a TV candidate within 0.2 of the
  leader) picks its first candidate in rank order, and the pick is kept only when the
  leader of the pool does not score strictly higher: otherwise the leader is returned with
  the method \<open>highest_score\<close>. So outside the exact-title rule the selected score is never
  below the score of any candidate of the pool. When no rule picks, the running best that
  the variant loop hands over (method \<open>title_match\<close>, the top score) stays.
\<close>

theorem override_rules:
  assumes "byScore pool = leader # others"
    and "filter (isExactTitle title tried) (byScore pool) = []"
  shows "(\<forall>m\<in>set pool. m_score m \<le> score (selectMatch title tried info ys sn bestMatch pool))
    \<and> (\<forall>best rest. filter (isExactEpisodeFormat info) (byScore pool) = best # rest \<longrightarrow>
          selectMatch title tried info ys sn bestMatch pool
            = (if m_score leader > m_score best then selected leader ''highest_score''
               else selected best ''exact_match''))
    \<and> (\<forall>best rest. filter (isExactEpisodeFormat info) (byScore pool) = [] \<and> ys \<noteq> []
          \<and> filter (sharesYear ys) (byScore pool) = best # rest \<longrightarrow>
          selectMatch title tried info ys sn bestMatch pool
            = (if m_score leader > m_score best then selected leader ''highest_score''
               else selected best ''year_match''))
    \<and> (\<forall>best rest. filter (isExactEpisodeFormat info) (byScore pool) = [] \<and> ys = []
          \<and> truthy sn \<and> filter (\<lambda>m. seasonNum m = sn) (byScore pool) = best # rest \<longrightarrow>
          selectMatch title tried info ys sn bestMatch pool
            = (if m_score leader > m_score best then selected leader ''highest_score''
               else selected best ''season_match''))
    \<and> (\<forall>best rest. filter (isExactEpisodeFormat info) (byScore pool) = [] \<and> ys = []
          \<and> \<not> truthy sn \<and> format info = ''TV''
          \<and> filter isTV (byScore pool) = best # rest
          \<and> m_score leader - m_score best < 2 / 10 \<longrightarrow>
          selectMatch title tried info ys sn bestMatch pool
            = (if m_score leader > m_score best then selected leader ''highest_score''
               else selected best ''format_priority''))
    \<and> (matchMethod bestMatch \<noteq> ''none'' \<and> (\<forall>m\<in>set pool. m_score m \<le> score bestMatch)
          \<and> specificRules info ys sn bestMatch (byScore pool) = bestMatch \<longrightarrow>
          selectMatch title tried info ys sn bestMatch pool = bestMatch)"
proof (intro conjI allI impI ballI)
  fix m assume m: "m \<in> set pool"
  have l: "m_score m \<le> m_score leader"
    using assms(1) m by (rule byScore_leader)
  have "m_score leader \<le> score (selectMatch title tried info ys sn bestMatch pool)"
    unfolding selectMatch_no_exact_title [OF assms] Let_def
    by (simp add: selected_def)
  with l show "m_score m \<le> score (selectMatch title tried info ys sn bestMatch pool)"
    by simp
next
  fix best rest
  assume "filter (isExactEpisodeFormat info) (byScore pool) = best # rest"
  then have "specificRules info ys sn bestMatch (leader # others) = selected best ''exact_match''"
    using assms(1) by (simp add: specificRules_def)
  from selected_over_leader [OF assms this]
  show "selectMatch title tried info ys sn bestMatch pool
          = (if m_score leader > m_score best then selected leader ''highest_score''
             else selected best ''exact_match'')"
    by simp
next
  fix best rest
  assume "filter (isExactEpisodeFormat info) (byScore pool) = [] \<and> ys \<noteq> []
          \<and> filter (sharesYear ys) (byScore pool) = best # rest"
  then have "specificRules info ys sn bestMatch (leader # others) = selected best ''year_match''"
    using assms(1) by (simp add: specificRules_def)
  from selected_over_leader [OF assms this]
  show "selectMatch title tried info ys sn bestMatch pool
          = (if m_score leader > m_score best then selected leader ''highest_score''
             else selected best ''year_match'')"
    by simp
next
  fix best rest
  assume "filter (isExactEpisodeFormat info) (byScore pool) = [] \<and> ys = []
          \<and> truthy sn \<and> filter (\<lambda>m. seasonNum m = sn) (byScore pool) = best # rest"
  then have "specificRules info ys sn bestMatch (leader # others) = selected best ''season_match''"
    using assms(1) by (simp add: specificRules_def)
  from selected_over_leader [OF assms this]
  show "selectMatch title tried info ys sn bestMatch pool
          = (if m_score leader > m_score best then selected leader ''highest_score''
             else selected best ''season_match'')"
    by simp
next
  fix best rest
  assume "filter (isExactEpisodeFormat info) (byScore pool) = [] \<and> ys = []
          \<and> \<not> truthy sn \<and> format info = ''TV''
          \<and> filter isTV (byScore pool) = best # rest
          \<and> m_score leader - m_score best < 2 / 10"
  then have "specificRules info ys sn bestMatch (leader # others)
               = selected best ''format_priority''"
    using assms(1) by (simp add: specificRules_def)
  from selected_over_leader [OF assms this]
  show "selectMatch title tried info ys sn bestMatch pool
          = (if m_score leader > m_score best then selected leader ''highest_score''
             else selected best ''format_priority'')"
    by simp
next
  assume a: "matchMethod bestMatch \<noteq> ''none'' \<and> (\<forall>m\<in>set pool. m_score m \<le> score bestMatch)
          \<and> specificRules info ys sn bestMatch (byScore pool) = bestMatch"
  have "leader \<in> set pool"
    using assms(1) byScore_set [of pool] by auto
  with a have "m_score leader \<le> score bestMatch" by blast
  with a show "selectMatch title tried info ys sn bestMatch pool = bestMatch"
    unfolding selectMatch_no_exact_title [OF assms] Let_def
    using assms(1) by simp
qed

lemma monster_ranked: "byScore [nearEntry, exactEntry] = nearEntry # [exactEntry]"
  by (simp add: byScore_def nearEntry_def exactEntry_def)

lemma monster_titles:
  "filter (isExactTitle ''Monster Girl'' (titlesToTry monsterInfo)) [nearEntry, exactEntry] = []"
  by code_simp

lemma monster_exact:
  "filter (isExactEpisodeFormat monsterInfo) [nearEntry, exactEntry] = exactEntry # []"
  by code_simp

theorem override_rules_witness:
  "selectMatch ''Monster Girl'' (titlesToTry monsterInfo) monsterInfo [] None monsterBest
     [nearEntry, exactEntry]
   = selected nearEntry ''highest_score''"
proof -
  note a = monster_ranked
  have b: "filter (isExactTitle ''Monster Girl'' (titlesToTry monsterInfo))
             (byScore [nearEntry, exactEntry]) = []"
    unfolding a using monster_titles by simp
  have c: "filter (isExactEpisodeFormat monsterInfo) (byScore [nearEntry, exactEntry])
             = exactEntry # []"
    unfolding a using monster_exact by simp
  have d: "m_score nearEntry > m_score exactEntry"
    by (simp add: nearEntry_def exactEntry_def)
  from override_rules [OF a b, of monsterInfo "[]" None monsterBest]
  have "\<forall>best rest. filter (isExactEpisodeFormat monsterInfo) (byScore [nearEntry, exactEntry])
                      = best # rest \<longrightarrow>
          selectMatch ''Monster Girl'' (titlesToTry monsterInfo) monsterInfo [] None monsterBest
            [nearEntry, exactEntry]
          = (if m_score nearEntry > m_score best then selected nearEntry ''highest_score''
             else selected best ''exact_match'')"
    by (rule conjunct2 [THEN conjunct1])
  from this [rule_format, OF c] d show ?thesis by simp
qed

text \<open>
  The claim as the specification words it fails. The source has twelve episodes; the
  catalog returns a title one letter away with thirteen episodes (score 1.2) and a longer
  title with exactly twelve episodes (score 549/460, about 1.19). No title is exactly
  equal, the second candidate is the only match of episode count and format, and the
  search returns the first candidate with the method \<open>highest_score\<close>.
\<close>

lemma monster_loop:
  "variantLoop stringSimilarity (\<lambda>q. Some [monsterNear, monsterExact]) monsterInfo
     (sourceYears ''Monster Girl'' monsterInfo) (extractSeasonNumber ''Monster Girl'')
     (noMatch, []) (titlesToTry monsterInfo)
     = Some (monsterBest, [nearEntry, exactEntry])"
  by code_simp

lemma monster_source: "sourceYears ''Monster Girl'' monsterInfo = []"
  "extractSeasonNumber ''Monster Girl'' = None"
  by code_simp+

lemma monster_select:
  "selectMatch ''Monster Girl'' (titlesToTry monsterInfo) monsterInfo [] None monsterBest
     [nearEntry, exactEntry]
   = \<lparr>score = 6 / 5, ident = Some ''monster-girls-100'', matchMethod = ''highest_score''\<rparr>"
  using monster_titles monster_exact
  by (simp add: selectMatch_def monster_ranked specificRules_def selected_def)
     (simp add: nearEntry_def exactEntry_def)

lemma monster_search:
  "searchAnimeBody stringSimilarity (\<lambda>q. Some [monsterNear, monsterExact]) ''Monster Girl''
        monsterInfo
     = Some \<lparr>score = 6 / 5, ident = Some ''monster-girls-100'', matchMethod = ''highest_score''\<rparr>"
  using monster_loop
  by (simp add: searchAnimeBody_def Let_def monster_source monster_select withAlternative_def)

theorem override_rules_counterexample:
  "variantLoop stringSimilarity (\<lambda>q. Some [monsterNear, monsterExact]) monsterInfo
     (sourceYears ''Monster Girl'' monsterInfo) (extractSeasonNumber ''Monster Girl'')
     (noMatch, []) (titlesToTry monsterInfo)
     = Some (monsterBest, [nearEntry, exactEntry])
   \<and> filter (isExactTitle ''Monster Girl'' (titlesToTry monsterInfo)) [nearEntry, exactEntry] = []
   \<and> filter (isExactEpisodeFormat monsterInfo) [nearEntry, exactEntry] = [exactEntry]
   \<and> m_score exactEntry < m_score nearEntry
   \<and> searchAnimeBody stringSimilarity (\<lambda>q. Some [monsterNear, monsterExact]) ''Monster Girl''
        monsterInfo
     = Some \<lparr>score = 6 / 5, ident = Some ''monster-girls-100'', matchMethod = ''highest_score''\<rparr>
   \<and> m_id exactEntry = ''monster-girl-encyclopedia-200''"
  using monster_loop monster_titles monster_exact monster_search
  by (simp add: nearEntry_def exactEntry_def)

end
